(* ===== verification/Prelude.thy ===== *)
theory Prelude
  imports Main
begin

text \<open>
  Shared vocabulary of the development: the collections of facts the component
  theories feed, the Python string primitives the classifier relies on
  (\<open>str.lower\<close>, \<open>str.isspace\<close>, \<open>str.startswith\<close>, \<open>str.strip\<close>,
  \<open>str.replace\<close>), Python's dictionary as an insertion-ordered association list,
  and generic lemmas on lists shared by the components.  Characters are bytes:
  the model covers ASCII text, on which Python's case mapping and whitespace test
  are the ones written here.
\<close>

named_theorems model_simps \<open>evaluation rules of the model's executable definitions\<close>

type_synonym py_str = string

text \<open>The exceptions the modelled code can raise, as values: \<open>re.error\<close> from a
  pattern \<open>re\<close> cannot compile, \<open>TypeError\<close> (a \<open>None\<close> where a string is
  needed), \<open>ValueError\<close> (unpacking a list of the wrong length), \<open>AttributeError\<close>
  (a method called on \<open>None\<close>), the \<open>requests.exceptions.ConnectionError\<close> an
  HTTP call raises when the connection fails, and \<open>KeyError\<close> (a missing key
  or format field).\<close>

datatype py_error = ReError | TypeError | ValueError | AttributeError | ConnectionError | KeyError

subsection \<open>Characters\<close>

definition backslash :: string where
  "backslash = [CHR 0x5C]"

definition lower_ascii :: "char \<Rightarrow> char" where
  "lower_ascii c = (if (65::nat) \<le> of_char c \<and> of_char c \<le> (90::nat) then char_of (of_char c + (32::nat)) else c)"

definition upper_ascii :: "char \<Rightarrow> char" where
  "upper_ascii c = (if (97::nat) \<le> of_char c \<and> of_char c \<le> (122::nat) then char_of (of_char c - (32::nat)) else c)"

text \<open>\<open>str.lower()\<close> on ASCII text.\<close>

definition py_lower :: "string \<Rightarrow> string" where
  "py_lower s = map lower_ascii s"

text \<open>\<open>str.isspace()\<close> on one ASCII character: tab, newline, vertical tab, form feed,
  carriage return, the four information separators 0x1C--0x1F, and space.  The
  regular-expression class \<open>\s\<close> of a \<open>str\<close> pattern is the same set.\<close>

definition py_isspace :: "char \<Rightarrow> bool" where
  "py_isspace c = (of_char c \<in> ({9, 10, 11, 12, 13, 28, 29, 30, 31, 32} :: nat set))"

definition py_isdigit :: "char \<Rightarrow> bool" where
  "py_isdigit c = ((48::nat) \<le> of_char c \<and> of_char c \<le> (57::nat))"

text \<open>Bit-level forms of the character tests, used as code equations so that the
  kernel evaluates them without numeral arithmetic: an upper-case ASCII letter is
  \<open>010xxxxx\<close> with its low five bits in \<open>1..26\<close>, and lower-casing sets bit 5.\<close>

lemma lower_ascii_Char [code]:
  "lower_ascii (Char b0 b1 b2 b3 b4 b5 b6 b7) =
     (if \<not> b7 \<and> b6 \<and> \<not> b5 \<and> (b0 \<or> b1 \<or> b2 \<or> b3 \<or> b4) \<and> \<not> (b4 \<and> b3 \<and> (b2 \<or> b1 \<and> b0))
      then Char b0 b1 b2 b3 b4 True b6 b7 else Char b0 b1 b2 b3 b4 b5 b6 b7)"
  unfolding lower_ascii_def
  by (cases b0; cases b1; cases b2; cases b3; cases b4; cases b5; cases b6; cases b7)
     (simp_all add: char_of_def bit_simps)

lemma upper_ascii_Char [code]:
  "upper_ascii (Char b0 b1 b2 b3 b4 b5 b6 b7) =
     (if \<not> b7 \<and> b6 \<and> b5 \<and> (b0 \<or> b1 \<or> b2 \<or> b3 \<or> b4) \<and> \<not> (b4 \<and> b3 \<and> (b2 \<or> b1 \<and> b0))
      then Char b0 b1 b2 b3 b4 False b6 b7 else Char b0 b1 b2 b3 b4 b5 b6 b7)"
  unfolding upper_ascii_def
  by (cases b0; cases b1; cases b2; cases b3; cases b4; cases b5; cases b6; cases b7)
     (simp_all add: char_of_def bit_simps)

lemma py_isdigit_Char [code]:
  "py_isdigit (Char b0 b1 b2 b3 b4 b5 b6 b7) = (\<not> b7 \<and> \<not> b6 \<and> b5 \<and> b4 \<and> \<not> (b3 \<and> (b2 \<or> b1)))"
  unfolding py_isdigit_def
  by (cases b0; cases b1; cases b2; cases b3; cases b4; cases b5; cases b6; cases b7) simp_all

lemma py_isspace_Char [code]:
  "py_isspace (Char b0 b1 b2 b3 b4 b5 b6 b7) =
     (\<not> b7 \<and> \<not> b6 \<and>
      (if b5 then \<not> b4 \<and> \<not> b3 \<and> \<not> b2 \<and> \<not> b1 \<and> \<not> b0
       else b4 \<and> b3 \<and> b2 \<or> \<not> b4 \<and> b3 \<and> (b2 \<or> b1 \<or> b0) \<and> \<not> (b2 \<and> b1)))"
  unfolding py_isspace_def
  by (cases b0; cases b1; cases b2; cases b3; cases b4; cases b5; cases b6; cases b7) simp_all

lemma lower_ascii_idem [simp]: "lower_ascii (lower_ascii c) = lower_ascii c"
  by (simp add: lower_ascii_def)

lemma py_lower_idem [simp]: "py_lower (py_lower s) = py_lower s"
  by (simp add: py_lower_def)

lemma length_py_lower [simp]: "length (py_lower s) = length s"
  by (simp add: py_lower_def)

subsection \<open>String operations\<close>

text \<open>\<open>s.startswith(p)\<close>.\<close>

definition py_startswith :: "string \<Rightarrow> string \<Rightarrow> bool" where
  "py_startswith s p = (take (length p) s = p)"

lemma py_startswith_iff: "py_startswith s p \<longleftrightarrow> (\<exists>t. s = p @ t)"
  unfolding py_startswith_def by (metis append_eq_conv_conj append_take_drop_id)

text \<open>\<open>s.replace(old, new)\<close> for a non-empty \<open>old\<close>: scan left to right, replace each
  occurrence, resume after it.\<close>

fun py_replace :: "string \<Rightarrow> string \<Rightarrow> string \<Rightarrow> string" where
  "py_replace [] old new = []"
| "py_replace (c # s) old new =
     (if old \<noteq> [] \<and> take (length old) (c # s) = old
      then new @ py_replace (drop (length old - 1) s) old new
      else c # py_replace s old new)"

text \<open>\<open>re.sub(r'\s+', ' ', s)\<close>: each maximal run of whitespace becomes one space.\<close>

function collapse_ws :: "string \<Rightarrow> string" where
  "collapse_ws [] = []"
| "collapse_ws (c # s) =
     (if py_isspace c then CHR '' '' # collapse_ws (dropWhile py_isspace s)
      else c # collapse_ws s)"
  by pat_completeness auto
termination
  by (relation "measure length") (auto simp: le_imp_less_Suc length_dropWhile_le)

text \<open>\<open>s.strip()\<close> with no argument: whitespace removed at both ends.\<close>

definition py_strip :: "string \<Rightarrow> string" where
  "py_strip s = rev (dropWhile py_isspace (rev (dropWhile py_isspace s)))"

subsection \<open>Python dictionaries as insertion-ordered association lists\<close>

text \<open>A dictionary keeps its keys in insertion order; assigning to a present key keeps
  its position.  \<open>d[k] = v\<close> is \<open>dict_set\<close>, \<open>d.get(k)\<close> is \<open>map_of\<close>.\<close>

fun dict_set :: "('k \<times> 'v) list \<Rightarrow> 'k \<Rightarrow> 'v \<Rightarrow> ('k \<times> 'v) list" where
  "dict_set [] k v = [(k, v)]"
| "dict_set ((k', v') # d) k v = (if k' = k then (k, v) # d else (k', v') # dict_set d k v)"

text \<open>\<open>d[k] = d.get(k, 0) + 1\<close>.\<close>

definition dict_incr :: "('k \<times> nat) list \<Rightarrow> 'k \<Rightarrow> ('k \<times> nat) list" where
  "dict_incr d k = dict_set d k ((case map_of d k of None \<Rightarrow> 0 | Some n \<Rightarrow> n) + 1)"

text \<open>\<open>d.get(k, 0)\<close> on a dictionary of counts.\<close>

definition dict_get0 :: "('k \<times> nat) list \<Rightarrow> 'k \<Rightarrow> nat" where
  "dict_get0 d k = (case map_of d k of None \<Rightarrow> 0 | Some n \<Rightarrow> n)"

subsection \<open>Formatting\<close>

text \<open>\<open>str(n)\<close> for a natural number.\<close>

fun py_str_nat :: "nat \<Rightarrow> string" where
  "py_str_nat n = (if n < 10 then [char_of (48 + n)] else py_str_nat (n div 10) @ [char_of (48 + n mod 10)])"

declare py_str_nat.simps [simp del]

definition py_newline :: string where
  "py_newline = [CHR 0x0A]"

lemma map_of_dict_set [simp]: "map_of (dict_set d k v) = (map_of d)(k \<mapsto> v)"
  by (induction d) auto

lemma keys_dict_set [simp]: "map fst (dict_set d k v) = (if k \<in> set (map fst d) then map fst d else map fst d @ [k])"
  by (induction d) (auto simp: rev_image_eqI)

lemma distinct_dict_set [simp]: "distinct (map fst d) \<Longrightarrow> distinct (map fst (dict_set d k v))"
  by simp

lemma sum_dict_set:
  "distinct (map fst (d :: ('k \<times> nat) list)) \<Longrightarrow>
   sum_list (map snd (dict_set d k v)) + (case map_of d k of None \<Rightarrow> 0 | Some n \<Rightarrow> n) = sum_list (map snd d) + v"
proof (induction d)
  case (Cons p d)
  obtain a b where p: "p = (a, b)" by (cases p)
  show ?case
  proof (cases "a = k")
    case True
    then show ?thesis by (simp add: p add_ac)
  next
    case False
    with Cons p have "sum_list (map snd (dict_set d k v)) + (case map_of d k of None \<Rightarrow> 0 | Some n \<Rightarrow> n)
      = sum_list (map snd d) + v" by simp
    with False show ?thesis by (simp add: p)
  qed
qed simp

lemma sum_dict_incr [simp]:
  "distinct (map fst d) \<Longrightarrow> sum_list (map snd (dict_incr d k)) = Suc (sum_list (map snd d))"
proof -
  assume d: "distinct (map fst d)"
  show ?thesis
  proof (cases "map_of d k")
    case None
    with sum_dict_set [OF d, of k 1] show ?thesis by (simp add: dict_incr_def)
  next
    case (Some n)
    with sum_dict_set [OF d, of k "Suc n"] show ?thesis by (simp add: dict_incr_def)
  qed
qed

lemma map_of_dict_incr [simp]:
  "map_of (dict_incr d k) = (map_of d)(k \<mapsto> Suc (case map_of d k of None \<Rightarrow> 0 | Some n \<Rightarrow> n))"
  by (simp add: dict_incr_def)

lemma distinct_dict_incr [simp]: "distinct (map fst d) \<Longrightarrow> distinct (map fst (dict_incr d k))"
  by (simp add: dict_incr_def)

lemma dict_get0_dict_incr [simp]:
  "dict_get0 (dict_incr d k) v = (if v = k then Suc (dict_get0 d k) else dict_get0 d v)"
  by (simp add: dict_get0_def)

end
