(* ===== verification/PyRegex.thy ===== *)
theory PyRegex
  imports Prelude
begin

text \<open>
  The part of Python's \<open>re\<close> module the classifier calls: \<open>re.search(pattern,
  text, re.IGNORECASE)\<close> and \<open>match.group(1)\<close>.  A pattern string is parsed into
  \<open>regex\<close> (\<open>parse_re\<close>, \<open>None\<close> where \<open>re.compile\<close> would raise or where the
  syntax is outside the subset the sources use), and matched by a backtracking
  semantics: \<open>ends r n s\<close> lists the suffixes of the subject (of length
  \<open>n\<close>) at which a match of \<open>r\<close> started at suffix \<open>s\<close> can end, in the order Python's backtracking engine tries them (greedy
  repetition tries one more iteration first).  \<open>re_search\<close> is the boolean search,
  \<open>re_search_group\<close> the text of group 1 in the first match, the one Python
  returns: leftmost start, then the first end in backtracking order.
\<close>

datatype cls_item = CChar char | CRange char char | CDigit | CSpace | CNotSpace

text \<open>Constructors: a literal character, \<open>.\<close>, a class \<open>[...]\<close> (negated when the
  flag is set; \<open>\d\<close> and \<open>\s\<close> are one-item classes), \<open>^\<close>, \<open>$\<close>, the empty
  pattern, concatenation, \<open>|\<close>, greedy \<open>*\<close>, a capturing group with its number,
  a non-capturing group's body, and the negative lookahead \<open>(?!...)\<close>.  \<open>r+\<close> is
  \<open>r r*\<close> and \<open>r?\<close> is \<open>r|\<close>, as Python's compiler treats them.\<close>

datatype regex =
    Lit char
  | AnyChar
  | Cls bool "cls_item list"
  | Bol
  | Eol
  | Eps
  | Cat regex regex
  | Alt regex regex
  | Star regex
  | Group nat regex
  | NegLook regex

subsection \<open>Matching\<close>

fun cls_item_match :: "cls_item \<Rightarrow> char \<Rightarrow> bool" where
  "cls_item_match (CChar d) c = (c = d)"
| "cls_item_match (CRange a b) c = (of_char a \<le> (of_char c :: nat) \<and> of_char c \<le> (of_char b :: nat))"
| "cls_item_match CDigit c = py_isdigit c"
| "cls_item_match CSpace c = py_isspace c"
| "cls_item_match CNotSpace c = (\<not> py_isspace c)"

text \<open>Under \<open>re.IGNORECASE\<close> a character is in a class when one of its case variants
  is.\<close>

definition cls_match :: "cls_item list \<Rightarrow> char \<Rightarrow> bool" where
  "cls_match its c = (\<exists>d \<in> set [c, lower_ascii c, upper_ascii c]. \<exists>it \<in> set its. cls_item_match it d)"

definition ci_eq :: "char \<Rightarrow> char \<Rightarrow> bool" where
  "ci_eq a b = (lower_ascii a = lower_ascii b)"

definition newline :: char where
  "newline = CHR 0x0A"

function ends :: "regex \<Rightarrow> nat \<Rightarrow> string \<Rightarrow> string list" where
  "ends (Lit c) n s = (case s of x # s' \<Rightarrow> if ci_eq c x then [s'] else [] | [] \<Rightarrow> [])"
| "ends AnyChar n s = (case s of x # s' \<Rightarrow> if x \<noteq> newline then [s'] else [] | [] \<Rightarrow> [])"
| "ends (Cls neg its) n s = (case s of x # s' \<Rightarrow> if cls_match its x \<noteq> neg then [s'] else [] | [] \<Rightarrow> [])"
| "ends Bol n s = (if length s = n then [s] else [])"
| "ends Eol n s = (if s = [] \<or> s = [newline] then [s] else [])"
| "ends Eps n s = [s]"
| "ends (Cat r q) n s = concat (map (ends q n) (ends r n s))"
| "ends (Alt r q) n s = ends r n s @ ends q n s"
| "ends (Star r) n s =
     concat (map (ends (Star r) n) (filter (\<lambda>s'. length s' < length s) (ends r n s))) @ [s]"
| "ends (Group k r) n s = ends r n s"
| "ends (NegLook r) n s = (if ends r n s = [] then [s] else [])"
  by pat_completeness auto
termination
  by (relation "measures [\<lambda>(r, n, s). size r, \<lambda>(r, n, s). length s]") auto

text \<open>The equation for \<open>*\<close> calls \<open>ends\<close> on the same pattern; as a rewrite rule it
  would unfold without end, so proofs unfold it at one instance only.\<close>

declare ends.simps(9) [simp del]

text \<open>The same semantics, carrying the spans captured by groups along each path
  (most recent first, as \<open>match.group\<close> reports the last iteration).  A span is a
  pair of positions in the subject, computed from the lengths of the suffixes.\<close>

type_synonym caps = "(nat \<times> nat \<times> nat) list"

function cends :: "regex \<Rightarrow> nat \<Rightarrow> string \<Rightarrow> caps \<Rightarrow> (string \<times> caps) list" where
  "cends (Cat r q) n s cs = concat (map (\<lambda>(s', cs'). cends q n s' cs') (cends r n s cs))"
| "cends (Alt r q) n s cs = cends r n s cs @ cends q n s cs"
| "cends (Star r) n s cs =
     concat (map (\<lambda>(s', cs'). cends (Star r) n s' cs')
       (filter (\<lambda>(s', _). length s' < length s) (cends r n s cs))) @ [(s, cs)]"
| "cends (Group k r) n s cs =
     map (\<lambda>(s', cs'). (s', (k, n - length s, n - length s') # cs')) (cends r n s cs)"
| "cends (Lit c) n s cs = map (\<lambda>s'. (s', cs)) (ends (Lit c) n s)"
| "cends AnyChar n s cs = map (\<lambda>s'. (s', cs)) (ends AnyChar n s)"
| "cends (Cls b its) n s cs = map (\<lambda>s'. (s', cs)) (ends (Cls b its) n s)"
| "cends Bol n s cs = map (\<lambda>s'. (s', cs)) (ends Bol n s)"
| "cends Eol n s cs = map (\<lambda>s'. (s', cs)) (ends Eol n s)"
| "cends Eps n s cs = [(s, cs)]"
| "cends (NegLook r) n s cs = map (\<lambda>s'. (s', cs)) (ends (NegLook r) n s)"
  by pat_completeness auto
termination
  by (relation "measures [\<lambda>(r, n, s, cs). size r, \<lambda>(r, n, s, cs). length s]") (auto split: prod.splits)

declare cends.simps(3) [simp del]

text \<open>\<open>re.search\<close> tries the start positions \<open>0 .. len(w)\<close> in order, that is the
  suffixes of the subject from the longest down to the empty one.\<close>

fun search_from :: "regex \<Rightarrow> nat \<Rightarrow> string \<Rightarrow> bool" where
  "search_from r n [] = (ends r n [] \<noteq> [])"
| "search_from r n (c # s) = (ends r n (c # s) \<noteq> [] \<or> search_from r n s)"

definition re_search :: "regex \<Rightarrow> string \<Rightarrow> bool" where
  "re_search r w = search_from r (length w) w"

fun first_group :: "nat \<Rightarrow> string \<Rightarrow> (string \<times> caps) list \<Rightarrow> string option option" where
  "first_group k w [] = None"
| "first_group k w ((s, cs) # _) =
     Some (case map_of cs k of None \<Rightarrow> None | Some (a, b) \<Rightarrow> Some (take (b - a) (drop a w)))"

text \<open>\<open>m = re.search(...); m.group(k)\<close>: \<open>None\<close> when there is no match,
  \<open>Some None\<close> when the group did not take part, \<open>Some (Some t)\<close> otherwise.\<close>

fun search_group_from :: "regex \<Rightarrow> nat \<Rightarrow> string \<Rightarrow> string \<Rightarrow> string option option" where
  "search_group_from r k w [] = first_group k w (cends r (length w) [] [])"
| "search_group_from r k w (c # s) =
     (case first_group k w (cends r (length w) (c # s) []) of
        None \<Rightarrow> search_group_from r k w s
      | res \<Rightarrow> res)"

definition re_search_group :: "regex \<Rightarrow> nat \<Rightarrow> string \<Rightarrow> string option option" where
  "re_search_group r k w = search_group_from r k w w"

text \<open>\<open>m = re.search(...); m.group()\<close>: the whole first match, from the leftmost start
  at which the pattern matches to the first end in backtracking order.\<close>

fun search_match_from :: "regex \<Rightarrow> nat \<Rightarrow> string \<Rightarrow> string option" where
  "search_match_from r n [] = (case ends r n [] of [] \<Rightarrow> None | e # _ \<Rightarrow> Some [])"
| "search_match_from r n (c # s) =
     (case ends r n (c # s) of
        [] \<Rightarrow> search_match_from r n s
      | e # _ \<Rightarrow> Some (take (length (c # s) - length e) (c # s)))"

definition re_search_match :: "regex \<Rightarrow> string \<Rightarrow> string option" where
  "re_search_match r w = search_match_from r (length w) w"

subsection \<open>Parsing pattern strings\<close>

text \<open>A recursive-descent reading of Python's pattern syntax, for the constructs the
  sources use: literals, \<open>.\<close>, \<open>^\<close>, \<open>$\<close>, the escapes \<open>\d\<close>, \<open>\s\<close> and escaped
  punctuation, classes with ranges and negation, \<open>(...)\<close>, \<open>(?:...)\<close>,
  \<open>(?!...)\<close>, \<open>|\<close> and the greedy \<open>*\<close>, \<open>+\<close>, \<open>?\<close>.  Anything else (lazy or
  counted repetition, other escapes, unbalanced brackets) is \<open>None\<close>, a pattern the
  model does not accept.  Each function takes fuel; \<open>parse_re\<close> gives more than the
  nesting depth of any pattern can use, and the patterns of the sources are shown to
  parse by evaluation.  The group counter threads through the parse so that groups are
  numbered by their opening bracket, as in Python.\<close>

definition is_quant :: "char \<Rightarrow> bool" where
  "is_quant c = (c = CHR ''*'' \<or> c = CHR ''+'' \<or> c = CHR ''?'')"

definition escape_char :: "char \<Rightarrow> regex option" where
  "escape_char c =
     (if c = CHR ''d'' then Some (Cls False [CDigit])
      else if c = CHR ''s'' then Some (Cls False [CSpace])
      else if c = CHR ''S'' then Some (Cls True [CSpace])
      else if (65::nat) \<le> of_char c \<and> of_char c \<le> (90::nat) \<or> (97::nat) \<le> of_char c \<and> of_char c \<le> (122::nat)
              \<or> (48::nat) \<le> of_char c \<and> of_char c \<le> (57::nat) then None
      else Some (Lit c))"

fun parse_class :: "string \<Rightarrow> (cls_item list \<times> string) option" where
  "parse_class [] = None"
| "parse_class (c # s) =
     (if c = CHR '']'' then Some ([], s)
      else if c = CHR 0x5C then
        (case s of
          [] \<Rightarrow> None
        | e # s' \<Rightarrow>
            (let it = (if e = CHR ''d'' then Some CDigit else if e = CHR ''s'' then Some CSpace
                       else if e = CHR ''S'' then Some CNotSpace
                       else (case escape_char e of Some (Lit d) \<Rightarrow> Some (CChar d) | _ \<Rightarrow> None))
             in case (it, parse_class s') of
                  (Some i, Some (its, r)) \<Rightarrow> Some (i # its, r)
                | _ \<Rightarrow> None))
      else (case s of
             CHR ''-'' # d # s' \<Rightarrow>
               (if d = CHR '']'' then
                  (case parse_class (CHR ''-'' # d # s') of Some (its, r) \<Rightarrow> Some (CChar c # its, r) | None \<Rightarrow> None)
                else (case parse_class s' of Some (its, r) \<Rightarrow> Some (CRange c d # its, r) | None \<Rightarrow> None))
           | _ \<Rightarrow> (case parse_class s of Some (its, r) \<Rightarrow> Some (CChar c # its, r) | None \<Rightarrow> None)))"

fun p_alt :: "nat \<Rightarrow> nat \<Rightarrow> string \<Rightarrow> (regex \<times> nat \<times> string) option"
and p_seq :: "nat \<Rightarrow> nat \<Rightarrow> string \<Rightarrow> (regex \<times> nat \<times> string) option"
and p_piece :: "nat \<Rightarrow> nat \<Rightarrow> string \<Rightarrow> (regex \<times> nat \<times> string) option"
and p_atom :: "nat \<Rightarrow> nat \<Rightarrow> string \<Rightarrow> (regex \<times> nat \<times> string) option" where
  "p_alt 0 g s = None"
| "p_alt (Suc n) g s =
     (case p_seq n g s of
        Some (r, g', CHR ''|'' # rest) \<Rightarrow>
          (case p_alt n g' rest of Some (r2, g'', rest') \<Rightarrow> Some (Alt r r2, g'', rest') | None \<Rightarrow> None)
      | res \<Rightarrow> res)"
| "p_seq 0 g s = None"
| "p_seq (Suc n) g s =
     (case s of
        [] \<Rightarrow> Some (Eps, g, [])
      | c # _ \<Rightarrow>
          (if c = CHR ''|'' \<or> c = CHR '')'' then Some (Eps, g, s)
           else (case p_piece n g s of
                   None \<Rightarrow> None
                 | Some (r, g', rest) \<Rightarrow>
                     (case p_seq n g' rest of
                        None \<Rightarrow> None
                      | Some (r2, g'', rest') \<Rightarrow> Some (Cat r r2, g'', rest')))))"
| "p_piece 0 g s = None"
| "p_piece (Suc n) g s =
     (case p_atom n g s of
        None \<Rightarrow> None
      | Some (r, g', q # rest) \<Rightarrow>
          (if is_quant q then
             (case rest of
                q' # _ \<Rightarrow> (if is_quant q' then None else Some (
                   if q = CHR ''*'' then Star r else if q = CHR ''+'' then Cat r (Star r) else Alt r Eps, g', rest))
              | [] \<Rightarrow> Some (if q = CHR ''*'' then Star r else if q = CHR ''+'' then Cat r (Star r) else Alt r Eps, g', rest))
           else Some (r, g', q # rest))
      | res \<Rightarrow> res)"
| "p_atom 0 g s = None"
| "p_atom (Suc n) g s =
     (case s of
        [] \<Rightarrow> None
      | c # rest \<Rightarrow>
          (if c = CHR ''('' then
             (case rest of
                CHR ''?'' # CHR '':'' # rest' \<Rightarrow>
                  (case p_alt n g rest' of Some (r, g', CHR '')'' # rest'') \<Rightarrow> Some (r, g', rest'') | _ \<Rightarrow> None)
              | CHR ''?'' # CHR ''!'' # rest' \<Rightarrow>
                  (case p_alt n g rest' of Some (r, g', CHR '')'' # rest'') \<Rightarrow> Some (NegLook r, g', rest'') | _ \<Rightarrow> None)
              | CHR ''?'' # _ \<Rightarrow> None
              | _ \<Rightarrow>
                  (case p_alt n (Suc g) rest of Some (r, g', CHR '')'' # rest'') \<Rightarrow> Some (Group (Suc g) r, g', rest'') | _ \<Rightarrow> None))
           else if c = CHR ''['' then
             (case rest of
                CHR ''^'' # rest' \<Rightarrow> (case parse_class rest' of Some (its, r) \<Rightarrow> if its = [] then None else Some (Cls True its, g, r) | None \<Rightarrow> None)
              | _ \<Rightarrow> (case parse_class rest of Some (its, r) \<Rightarrow> if its = [] then None else Some (Cls False its, g, r) | None \<Rightarrow> None))
           else if c = CHR ''.'' then Some (AnyChar, g, rest)
           else if c = CHR ''^'' then Some (Bol, g, rest)
           else if c = CHR ''$'' then Some (Eol, g, rest)
           else if c = CHR 0x5C then
             (case rest of [] \<Rightarrow> None | e # rest' \<Rightarrow> (case escape_char e of Some r \<Rightarrow> Some (r, g, rest') | None \<Rightarrow> None))
           else if is_quant c \<or> c = CHR ''{'' \<or> c = CHR '')'' \<or> c = CHR ''|'' then None
           else Some (Lit c, g, rest)))"

definition parse_re :: "string \<Rightarrow> regex option" where
  "parse_re s = (case p_alt (4 * length s + 4) 0 s of Some (r, _, []) \<Rightarrow> Some r | _ \<Rightarrow> None)"

text \<open>\<open>re.search(pattern, text, re.IGNORECASE) is not None\<close>; an unparsed pattern is
  the \<open>re.error\<close> that \<open>re.compile\<close> raises.\<close>

definition py_re_search :: "string \<Rightarrow> string \<Rightarrow> py_error + bool" where
  "py_re_search p w = (case parse_re p of None \<Rightarrow> Inl ReError | Some r \<Rightarrow> Inr (re_search r w))"

text \<open>\<open>m = re.search(pattern, text, re.IGNORECASE); m.group(1) if m else None\<close>.\<close>

definition py_re_group1 :: "string \<Rightarrow> string \<Rightarrow> py_error + string option option" where
  "py_re_group1 p w = (case parse_re p of None \<Rightarrow> Inl ReError | Some r \<Rightarrow> Inr (re_search_group r 1 w))"

subsection \<open>Groups that take part in every match\<close>

text \<open>Group \<open>k\<close> is mandatory in a pattern when it lies on every path through it:
  not under \<open>*\<close>, a lookahead, or only one side of \<open>|\<close>.  Then \<open>match.group(k)\<close>
  is never \<open>None\<close>.\<close>

fun mandatory :: "nat \<Rightarrow> regex \<Rightarrow> bool" where
  "mandatory k (Group k' r) = (k = k' \<or> mandatory k r)"
| "mandatory k (Cat r q) = (mandatory k r \<or> mandatory k q)"
| "mandatory k (Alt r q) = (mandatory k r \<and> mandatory k q)"
| "mandatory k _ = False"

lemma cends_caps_extend:
  "(s', cs') \<in> set (cends r n s cs) \<Longrightarrow> \<exists>pre. cs' = pre @ cs"
proof (induction r n s cs arbitrary: s' cs' rule: cends.induct)
  case (1 r q n s cs)
  from "1.prems" obtain s1 cs1 where m1: "(s1, cs1) \<in> set (cends r n s cs)"
    and m2: "(s', cs') \<in> set (cends q n s1 cs1)"
    by auto
  obtain p1 where "cs1 = p1 @ cs" using "1.IH"(1) [OF m1] by blast
  moreover obtain p2 where "cs' = p2 @ cs1" using "1.IH"(2) [OF m1 refl m2] by blast
  ultimately show ?case by auto
next
  case (2 r q n s cs)
  from "2.prems" consider "(s', cs') \<in> set (cends r n s cs)" | "(s', cs') \<in> set (cends q n s cs)"
    by auto
  then show ?case
  proof cases
    case 1
    then show ?thesis by (rule "2.IH"(1))
  next
    case 2
    then show ?thesis by (rule "2.IH"(2))
  qed
next
  case (3 r n s cs)
  show ?case
  proof (cases "(s', cs') = (s, cs)")
    case True
    then show ?thesis by auto
  next
    case False
    with "3.prems" [unfolded cends.simps(3) [of r n s cs]] obtain s1 cs1 where m1: "(s1, cs1) \<in> set (filter (\<lambda>(s', _). length s' < length s) (cends r n s cs))"
      and m2: "(s', cs') \<in> set (cends (Star r) n s1 cs1)"
      by auto
    from m1 have m1': "(s1, cs1) \<in> set (cends r n s cs)" by simp
    obtain p1 where "cs1 = p1 @ cs" using "3.IH"(1) [OF m1'] by blast
    moreover obtain p2 where "cs' = p2 @ cs1" using "3.IH"(2) [OF m1 refl m2] by blast
    ultimately show ?thesis by auto
  qed
next
  case (4 k r n s cs)
  from "4.prems" obtain s1 cs1 where m: "(s1, cs1) \<in> set (cends r n s cs)"
    and eq: "cs' = (k, n - length s, n - length s1) # cs1"
    by auto
  obtain p1 where "cs1 = p1 @ cs" using "4.IH" [OF m] by blast
  with eq show ?case by auto
qed (auto simp del: ends.simps)

lemma map_of_append_Some: "map_of cs k \<noteq> None \<Longrightarrow> map_of (pre @ cs) k \<noteq> None"
  by (simp add: map_add_def split: option.splits)

lemma cends_mandatory:
  "mandatory k r \<Longrightarrow> (s', cs') \<in> set (cends r n s cs) \<Longrightarrow> map_of cs' k \<noteq> None"
proof (induction r n s cs arbitrary: s' cs' rule: cends.induct)
  case (1 r q n s cs)
  then obtain s1 cs1 where m1: "(s1, cs1) \<in> set (cends r n s cs)" and m2: "(s', cs') \<in> set (cends q n s1 cs1)"
    by auto
  show ?case
  proof (cases "mandatory k q")
    case True
    with "1.IH"(2) [OF m1 [folded prod.collapse] _ True] m2 show ?thesis
      by (metis fst_conv snd_conv)
  next
    case False
    with "1.prems"(1) have "mandatory k r" by simp
    with "1.IH"(1) m1 have "map_of cs1 k \<noteq> None" by blast
    moreover obtain pre where "cs' = pre @ cs1" using cends_caps_extend [OF m2] by blast
    ultimately show ?thesis by (simp add: map_of_append_Some)
  qed
next
  case (2 r q n s cs)
  from "2.prems" show ?case
    by (auto dest: "2.IH")
next
  case (4 k' r n s cs)
  from "4.prems"(2) obtain s1 cs1 where m: "(s1, cs1) \<in> set (cends r n s cs)"
    and eq: "(s', cs') = (s1, (k', n - length s, n - length s1) # cs1)"
    by auto
  show ?case
  proof (cases "k = k'")
    case True
    with eq show ?thesis by simp
  next
    case False
    with "4.prems"(1) have "mandatory k r" by simp
    with "4.IH" m have "map_of cs1 k \<noteq> None" by blast
    with eq False show ?thesis by simp
  qed
qed (simp_all (no_asm_use))

lemma first_group_mandatory:
  "mandatory k r \<Longrightarrow> first_group k w (cends r n s cs) \<noteq> Some None"
  by (cases "cends r n s cs") (auto split: option.splits dest!: cends_mandatory [where s = s and n = n and cs = cs] intro: list.set_intros)

lemma search_group_from_mandatory:
  "mandatory k r \<Longrightarrow> search_group_from r k w s \<noteq> Some None"
proof (induction s)
  case Nil
  then show ?case by (simp add: first_group_mandatory)
next
  case (Cons a s)
  then show ?case
    using first_group_mandatory [OF Cons.prems, of w "length w" "a # s" "[]"]
    by (auto split: option.splits)
qed

lemma re_search_group_mandatory:
  "mandatory k r \<Longrightarrow> re_search_group r k w \<noteq> Some None"
  by (simp add: re_search_group_def search_group_from_mandatory)

end
