(* ===== verification/Rules.thy ===== *)
theory Rules
  imports PyRegex
begin

text \<open>
  The rule engine of \<open>src/scripts/classify_documents.py\<close>: the access levels, the
  table \<open>CLASSIFICATION_RULES\<close> with its pattern strings as written in the source,
  and \<open>classify_document\<close>, which lower-cases path and name, walks the rules in
  order, tries a rule's path patterns before its name patterns, and returns the first
  matching rule's category and access level, or \<open>(uncategorized, staff_only)\<close>.
  A pattern that \<open>re\<close> could not compile would raise; the model carries that as
  \<open>Inl ReError\<close>, and the table is shown to raise never.
\<close>

datatype access_level = owner_only | arc_review | community_public | board_only | staff_only

text \<open>The string the source stores for each level.\<close>

fun level_name :: "access_level \<Rightarrow> string" where
  "level_name owner_only = ''owner_only''"
| "level_name arc_review = ''arc_review''"
| "level_name community_public = ''community_public''"
| "level_name board_only = ''board_only''"
| "level_name staff_only = ''staff_only''"

record rule =
  category :: string
  level :: access_level
  path_patterns :: "string list"
  name_patterns :: "string list"

text \<open>Backslashes cannot occur in a HOL string literal; the patterns that contain
  one are written as concatenations with \<open>backslash\<close>.\<close>

definition CLASSIFICATION_RULES :: "rule list" where
  "CLASSIFICATION_RULES = [
    \<lparr>category = ''owner_statement'', level = owner_only,
     path_patterns = [''/Statement/'', ''/Statements/'', ''/Billing/''],
     name_patterns = [''^'' @ backslash @ ''d+.*statement'', ''statement.*'' @ backslash @ ''.pdf$'',
                      ''^R'' @ backslash @ ''d+L'' @ backslash @ ''d+'']\<rparr>,
    \<lparr>category = ''owner_ledger'', level = owner_only,
     path_patterns = [''/Ledger/'', ''/Account History/''],
     name_patterns = [''ledger'', ''account.*history'']\<rparr>,
    \<lparr>category = ''owner_letter'', level = owner_only,
     path_patterns = [''/Owner Letters/'', ''/Homeowner Letters/''],
     name_patterns = [''letter.*to.*'', ''demand.*letter'', ''collection.*letter'', ''notice.*to.*owner'']\<rparr>,
    \<lparr>category = ''owner_arc_submission'', level = arc_review,
     path_patterns = [''/ARC.*Submission/'', ''/ARC.*Application/'', ''/Architectural.*Request/''],
     name_patterns = [''arc.*application'', ''arc.*request'', ''architectural.*submission'']\<rparr>,
    \<lparr>category = ''governing_ccr'', level = community_public,
     path_patterns = [''/Govern/'', ''/Governing/'', ''/CCR/''],
     name_patterns = [''ccr'', ''cc&r'', ''covenants?'', ''declaration'', ''deed.*restriction'', ''restrictions'']\<rparr>,
    \<lparr>category = ''governing_bylaws'', level = community_public,
     path_patterns = [''/Govern/'', ''/Governing/'', ''/Bylaws/''],
     name_patterns = [''bylaw'', ''by-law'', ''by'' @ backslash @ ''s+law'']\<rparr>,
    \<lparr>category = ''governing_rules'', level = community_public,
     path_patterns = [''/Govern/'', ''/Governing/'', ''/Rules/''],
     name_patterns = [''rules?.*regulation'', ''regulation'', ''policies'', ''policy(?!.*insurance)'',
                      ''guidelines?(?!.*arc)'']\<rparr>,
    \<lparr>category = ''governing_arc_guidelines'', level = community_public,
     path_patterns = [''/ARC/'', ''/Architectural/'', ''/Design/''],
     name_patterns = [''arc.*guide'', ''architectural.*guide'', ''architectural.*standard'', ''design.*guide'',
                      ''design.*standard'']\<rparr>,
    \<lparr>category = ''community_minutes'', level = community_public,
     path_patterns = [''/Minutes/'', ''/Meeting Minutes/'', ''/Board Meeting/''],
     name_patterns = [''minutes'', ''meeting.*notes'', ''board.*meeting'']\<rparr>,
    \<lparr>category = ''community_newsletter'', level = community_public,
     path_patterns = [''/Newsletter/'', ''/Communications/''],
     name_patterns = [''newsletter'', ''bulletin'', ''community.*update'']\<rparr>,
    \<lparr>category = ''community_announcement'', level = community_public,
     path_patterns = [''/Notices/'', ''/Announcements/''],
     name_patterns = [''announcement'', ''notice(?!.*violation)'', ''alert'', ''advisory'']\<rparr>,
    \<lparr>category = ''community_directory'', level = board_only,
     path_patterns = [''/Directory/'', ''/Contact/''],
     name_patterns = [''directory'', ''contact.*list'', ''phone.*list'', ''resident.*list'']\<rparr>,
    \<lparr>category = ''board_financial'', level = board_only,
     path_patterns = [''/Financial/'', ''/Budget/'', ''/Audit/'', ''/Reserve/''],
     name_patterns = [''budget'', ''financial.*statement'', ''balance.*sheet'', ''income.*statement'',
                      ''audit'', ''reserve.*study'', ''reserve.*analysis'', ''bank.*statement'']\<rparr>,
    \<lparr>category = ''board_delinquency'', level = board_only,
     path_patterns = [''/Delinquency/'', ''/Collections/'', ''/Aging/''],
     name_patterns = [''delinquen'', ''aging.*report'', ''collection.*report'', ''past.*due'']\<rparr>,
    \<lparr>category = ''board_insurance'', level = board_only,
     path_patterns = [''/Insurance/''],
     name_patterns = [''insurance.*polic'', ''certificate.*insurance'', ''coi'', ''coverage'', ''liability.*policy'']\<rparr>,
    \<lparr>category = ''board_contracts'', level = board_only,
     path_patterns = [''/Contract/'', ''/Agreement/'', ''/Service Agreement/''],
     name_patterns = [''contract'', ''agreement(?!.*arc)'', ''service.*contract'', ''maintenance.*agreement'']\<rparr>,
    \<lparr>category = ''board_legal'', level = board_only,
     path_patterns = [''/Legal/'', ''/Attorney/'', ''/Litigation/''],
     name_patterns = [''legal'', ''attorney'', ''lawsuit'', ''litigation'', ''lien(?!.*release)'', ''judgment'', ''court'']\<rparr>,
    \<lparr>category = ''staff_bids'', level = staff_only,
     path_patterns = [''/Bid/'', ''/Bids/'', ''/Proposal/'', ''/Proposals/'', ''/Quote/''],
     name_patterns = [''bid'', ''proposal'', ''estimate'', ''quote'', ''pricing'']\<rparr>,
    \<lparr>category = ''staff_violations'', level = staff_only,
     path_patterns = [''/Violation/'', ''/Compliance/''],
     name_patterns = [''violation'', ''compliance.*notice'', ''warning.*letter'', ''fine.*notice'']\<rparr>,
    \<lparr>category = ''staff_work_orders'', level = staff_only,
     path_patterns = [''/Work.*Order/'', ''/Maintenance.*Request/'', ''/Service.*Request/''],
     name_patterns = [''work.*order'', ''service.*request'', ''maintenance.*request'', ''repair.*request'']\<rparr>,
    \<lparr>category = ''staff_correspondence'', level = staff_only,
     path_patterns = [''/Internal/'', ''/Staff.*Notes/'', ''/Correspondence/''],
     name_patterns = [''internal.*memo'', ''staff.*note'', ''correspondence(?!.*owner)'']\<rparr>,
    \<lparr>category = ''staff_vendor'', level = staff_only,
     path_patterns = [''/Vendor/'', ''/W9/'', ''/W-9/''],
     name_patterns = [''w-?9'', ''vendor.*info'', ''vendor.*contact'', ''vendor.*setup'']\<rparr>
  ]"

subsection \<open>classify_document\<close>

text \<open>\<open>for pattern in patterns: if re.search(pattern, text, re.IGNORECASE): matched =
  True; break\<close>.\<close>

fun first_hit :: "string list \<Rightarrow> string \<Rightarrow> py_error + bool" where
  "first_hit [] w = Inr False"
| "first_hit (p # ps) w =
     (case py_re_search p w of
        Inl e \<Rightarrow> Inl e
      | Inr True \<Rightarrow> Inr True
      | Inr False \<Rightarrow> first_hit ps w)"

text \<open>One iteration of the rule loop: the path patterns first, the name patterns only
  when no path pattern matched.\<close>

definition rule_matches :: "rule \<Rightarrow> string \<Rightarrow> string \<Rightarrow> py_error + bool" where
  "rule_matches r path_lower name_lower =
     (case first_hit (path_patterns r) path_lower of
        Inl e \<Rightarrow> Inl e
      | Inr True \<Rightarrow> Inr True
      | Inr False \<Rightarrow> first_hit (name_patterns r) name_lower)"

fun classify_rules :: "rule list \<Rightarrow> string \<Rightarrow> string \<Rightarrow> py_error + (string \<times> access_level)" where
  "classify_rules [] pl nl = Inr (''uncategorized'', staff_only)"
| "classify_rules (r # rs) pl nl =
     (case rule_matches r pl nl of
        Inl e \<Rightarrow> Inl e
      | Inr True \<Rightarrow> Inr (category r, level r)
      | Inr False \<Rightarrow> classify_rules rs pl nl)"

text \<open>\<open>path.lower() if path else ''\<close>: \<open>None\<close> is a missing or null field.\<close>

definition lower_or_empty :: "string option \<Rightarrow> string" where
  "lower_or_empty s = (case s of None \<Rightarrow> [] | Some t \<Rightarrow> py_lower t)"

definition classify_document :: "string option \<Rightarrow> string option \<Rightarrow> py_error + (string \<times> access_level)" where
  "classify_document path name = classify_rules CLASSIFICATION_RULES (lower_or_empty path) (lower_or_empty name)"

subsection \<open>Abstract specification of the rule engine\<close>

text \<open>A rule hits when one of its path patterns is found in the path or one of its
  name patterns in the name; the classification is the first rule in the table that
  hits.  The loop's staging (name patterns only after every path pattern failed) is an
  evaluation order, not a different outcome: \<open>classify_rules_refines\<close> shows that it
  computes this flat first-hit function whenever every pattern compiles.\<close>

definition pattern_hit :: "string \<Rightarrow> string \<Rightarrow> bool" where
  "pattern_hit p w = (py_re_search p w = Inr True)"

definition rule_hit :: "rule \<Rightarrow> string \<Rightarrow> string \<Rightarrow> bool" where
  "rule_hit r pl nl = ((\<exists>p \<in> set (path_patterns r). pattern_hit p pl) \<or> (\<exists>p \<in> set (name_patterns r). pattern_hit p nl))"

definition default_class :: "string \<times> access_level" where
  "default_class = (''uncategorized'', staff_only)"

definition classify_spec :: "rule list \<Rightarrow> string \<Rightarrow> string \<Rightarrow> string \<times> access_level" where
  "classify_spec rs pl nl =
     (case find (\<lambda>r. rule_hit r pl nl) rs of None \<Rightarrow> default_class | Some r \<Rightarrow> (category r, level r))"

definition rules_compile :: "rule list \<Rightarrow> bool" where
  "rules_compile rs = (\<forall>r \<in> set rs. \<forall>p \<in> set (path_patterns r @ name_patterns r). parse_re p \<noteq> None)"

lemma py_re_search_compiled:
  "parse_re p \<noteq> None \<Longrightarrow> py_re_search p w = Inr (pattern_hit p w)"
  by (auto simp: py_re_search_def pattern_hit_def)

lemma first_hit_compiled:
  "\<forall>p \<in> set ps. parse_re p \<noteq> None \<Longrightarrow> first_hit ps w = Inr (\<exists>p \<in> set ps. pattern_hit p w)"
  by (induction ps) (auto simp: py_re_search_compiled split: bool.split)

lemma rule_matches_compiled:
  "\<forall>p \<in> set (path_patterns r @ name_patterns r). parse_re p \<noteq> None \<Longrightarrow>
   rule_matches r pl nl = Inr (rule_hit r pl nl)"
  by (simp add: rule_matches_def rule_hit_def first_hit_compiled split: bool.split)

lemma rules_compile_Cons [simp]:
  "rules_compile (r # rs) \<longleftrightarrow> (\<forall>p \<in> set (path_patterns r @ name_patterns r). parse_re p \<noteq> None) \<and> rules_compile rs"
  by (simp add: rules_compile_def)

lemma rules_compile_append [simp]: "rules_compile (xs @ ys) \<longleftrightarrow> rules_compile xs \<and> rules_compile ys"
  by (auto simp: rules_compile_def)

lemma classify_rules_refines:
  "rules_compile rs \<Longrightarrow> classify_rules rs pl nl = Inr (classify_spec rs pl nl)"
  by (induction rs) (auto simp: classify_spec_def default_class_def rule_matches_compiled split: bool.split)

lemma classify_spec_append:
  "\<not> (\<exists>x \<in> set xs. rule_hit x pl nl) \<Longrightarrow> classify_spec (xs @ ys) pl nl = classify_spec ys pl nl"
  by (induction xs) (auto simp: classify_spec_def)

lemma classify_spec_range:
  "classify_spec rs pl nl \<in> insert default_class ((\<lambda>r. (category r, level r)) ` set rs)"
  by (auto simp: classify_spec_def split: option.splits dest: find_Some_iff [THEN iffD1] nth_mem)

lemma CLASSIFICATION_RULES_compile: "rules_compile CLASSIFICATION_RULES"
  unfolding rules_compile_def by code_simp


lemma classify_spec_hit:
  "rule_hit r pl nl \<Longrightarrow> classify_spec (r # ys) pl nl = (category r, level r)"
  by (simp add: classify_spec_def)

lemma classify_spec_miss:
  "\<forall>r \<in> set rs. \<not> rule_hit r pl nl \<Longrightarrow> classify_spec rs pl nl = default_class"
proof -
  assume "\<forall>r \<in> set rs. \<not> rule_hit r pl nl"
  then have "find (\<lambda>r. rule_hit r pl nl) rs = None" by (simp add: find_None_iff)
  then show ?thesis by (simp add: classify_spec_def)
qed

lemma distinct_categories: "distinct (map category CLASSIFICATION_RULES)"
  by (simp add: CLASSIFICATION_RULES_def)

lemma classify_document_range:
  "classify_document path name = Inr (c, a) \<Longrightarrow>
   (c, a) \<in> insert default_class ((\<lambda>r. (category r, level r)) ` set CLASSIFICATION_RULES)"
proof -
  assume "classify_document path name = Inr (c, a)"
  then have "classify_spec CLASSIFICATION_RULES (lower_or_empty path) (lower_or_empty name) = (c, a)"
    by (simp add: classify_document_def classify_rules_refines [OF CLASSIFICATION_RULES_compile])
  then show ?thesis
    using classify_spec_range [of CLASSIFICATION_RULES "lower_or_empty path" "lower_or_empty name"]
    by simp
qed

lemma classify_document_never_raises: "\<exists>c. classify_document path name = Inr c"
  by (simp add: classify_document_def classify_rules_refines [OF CLASSIFICATION_RULES_compile])

subsection \<open>Properties of the rule engine\<close>

text \<open>C1. First match wins: whatever the rules after it, a rule that hits decides the
  classification as soon as no rule before it hits; later rules that also hit are never
  consulted.\<close>

theorem classify_first_match_wins:
  assumes "rules_compile (xs @ r # ys)"
    and "rule_hit r pl nl"
    and "\<forall>x \<in> set xs. \<not> rule_hit x pl nl"
  shows "classify_rules (xs @ r # ys) pl nl = Inr (category r, level r)"
proof -
  have "classify_spec (xs @ r # ys) pl nl = classify_spec (r # ys) pl nl"
    using assms(3) by (auto intro: classify_spec_append)
  also have "\<dots> = (category r, level r)"
    using assms(2) by (rule classify_spec_hit)
  finally show ?thesis
    using assms(1) by (simp add: classify_rules_refines)
qed

text \<open>C1 at the rule table: the directory rule and the financial rule both hit
  \<open>/directory/\<close> with a name mentioning a budget; the directory rule comes first.\<close>

theorem classify_first_match_wins_witness:
  "classify_rules (take 11 CLASSIFICATION_RULES @ CLASSIFICATION_RULES ! 11 # drop 12 CLASSIFICATION_RULES)
     ''/directory/'' ''budget.pdf'' = Inr (''community_directory'', board_only)
   \<and> rule_hit (CLASSIFICATION_RULES ! 12) ''/directory/'' ''budget.pdf''"
proof -
  have split: "take 11 CLASSIFICATION_RULES @ CLASSIFICATION_RULES ! 11 # drop 12 CLASSIFICATION_RULES
      = CLASSIFICATION_RULES"
    by (simp add: CLASSIFICATION_RULES_def)
  have hit: "rule_hit (CLASSIFICATION_RULES ! 11) ''/directory/'' ''budget.pdf''"
    by code_simp
  have before: "\<forall>x \<in> set (take 11 CLASSIFICATION_RULES). \<not> rule_hit x ''/directory/'' ''budget.pdf''"
    by code_simp
  have cat: "(category (CLASSIFICATION_RULES ! 11), level (CLASSIFICATION_RULES ! 11))
      = (''community_directory'', board_only)"
    by (simp add: CLASSIFICATION_RULES_def)
  have later: "rule_hit (CLASSIFICATION_RULES ! 12) ''/directory/'' ''budget.pdf''"
    by code_simp
  show ?thesis
    using classify_first_match_wins [of "take 11 CLASSIFICATION_RULES" "CLASSIFICATION_RULES ! 11"
        "drop 12 CLASSIFICATION_RULES" "''/directory/''" "''budget.pdf''"]
      split hit before cat later CLASSIFICATION_RULES_compile
    by simp
qed

text \<open>C2. Default fallback: when no rule hits, the result is \<open>uncategorized\<close> with the
  strictest level, \<open>staff_only\<close>.\<close>

theorem classify_default_fallback:
  assumes "rules_compile rs"
    and "\<forall>r \<in> set rs. \<not> rule_hit r pl nl"
  shows "classify_rules rs pl nl = Inr (''uncategorized'', staff_only)"
  using assms by (simp add: classify_rules_refines classify_spec_miss default_class_def)

theorem classify_default_fallback_witness:
  "classify_rules CLASSIFICATION_RULES '''' ''random_file.pdf'' = Inr (''uncategorized'', staff_only)"
proof -
  have "\<forall>r \<in> set CLASSIFICATION_RULES. \<not> rule_hit r '''' ''random_file.pdf''"
    by code_simp
  then show ?thesis
    using classify_default_fallback [OF CLASSIFICATION_RULES_compile] by blast
qed

text \<open>C3. \<open>classify_document\<close> never raises, whatever the path and name (missing
  ones included), and computes the flat specification: the first rule of the table with
  a path pattern found in the lower-cased path or a name pattern found in the
  lower-cased name.\<close>

theorem classify_document_spec:
  "classify_document path name =
     Inr (classify_spec CLASSIFICATION_RULES (lower_or_empty path) (lower_or_empty name))"
  by (simp add: classify_document_def classify_rules_refines CLASSIFICATION_RULES_compile)

text \<open>C4. The access level is a function of the category: two documents that receive
  the same category receive the same access level.\<close>

theorem classify_level_determined_by_category:
  assumes "classify_document p n = Inr (c, a)"
    and "classify_document p' n' = Inr (c, a')"
  shows "a = a'"
proof -
  have inj: "inj_on category (set CLASSIFICATION_RULES)"
    using distinct_categories by (simp add: distinct_map)
  have unc: "''uncategorized'' \<notin> category ` set CLASSIFICATION_RULES"
    by (simp add: CLASSIFICATION_RULES_def)
  have "(c, a) = default_class \<or> (\<exists>r \<in> set CLASSIFICATION_RULES. c = category r \<and> a = level r)"
    using classify_document_range [OF assms(1)] by auto
  moreover have "(c, a') = default_class \<or> (\<exists>r \<in> set CLASSIFICATION_RULES. c = category r \<and> a' = level r)"
    using classify_document_range [OF assms(2)] by auto
  ultimately show ?thesis
  proof (elim disjE bexE conjE)
    fix r1 r2
    assume "r1 \<in> set CLASSIFICATION_RULES" "c = category r1" "a = level r1"
      and "r2 \<in> set CLASSIFICATION_RULES" "c = category r2" "a' = level r2"
    with inj have "r1 = r2" by (metis inj_on_eq_iff)
    with \<open>a = level r1\<close> \<open>a' = level r2\<close> show ?thesis by simp
  qed (use unc in \<open>auto simp: default_class_def image_iff\<close>)
qed


theorem classify_level_determined_by_category_witness:
  "classify_document (Some ''/Financial/2024/'') (Some ''report.pdf'') = Inr (''board_financial'', board_only)
   \<and> classify_document None (Some ''Budget 2024.pdf'') = Inr (''board_financial'', board_only)
   \<and> board_only = board_only"
proof -
  have h1: "classify_document (Some ''/Financial/2024/'') (Some ''report.pdf'') = Inr (''board_financial'', board_only)"
    by code_simp
  have h2: "classify_document None (Some ''Budget 2024.pdf'') = Inr (''board_financial'', board_only)"
    by code_simp
  show ?thesis using h1 h2 classify_level_determined_by_category [OF h1 h2] by simp
qed

end
