(* ===== verification/Extractors.thy ===== *)
theory Extractors
  imports PyRegex "HOL-Library.Sublist"
begin

text \<open>
  The metadata extractors of \<open>src/scripts/classify_documents.py\<close>:
  \<open>COMMUNITY_PATTERNS\<close> and \<open>extract_community_name\<close> (first pattern whose group 1
  is found in the path, then \<open>%20\<close> decoded, whitespace runs collapsed, ends
  stripped), \<open>OWNER_ACCOUNT_PATTERNS\<close> and \<open>extract_owner_account\<close> (group 1 of
  the first pattern found in \<open>f"{name} {path}"\<close>, or in the name alone when the
  path is empty).  A missing field is \<open>None\<close>; where the code would call a string
  method on it the model returns the exception.  The lemmas show that a community
  name comes out normalised and that normalising is idempotent.
\<close>

definition COMMUNITY_PATTERNS :: "string list" where
  "COMMUNITY_PATTERNS = [
     ''/(?:Round Rock|North Austin|South Austin) Office/([^/]+)/'',
     ''/sites/AssociationDocs/([^/]+)/'']"

definition OWNER_ACCOUNT_PATTERNS :: "string list" where
  "OWNER_ACCOUNT_PATTERNS = [
     ''^(R'' @ backslash @ ''d+L'' @ backslash @ ''d+)'',
     ''Account[:'' @ backslash @ ''s#]*('' @ backslash @ ''d+)'',
     ''Acct[:'' @ backslash @ ''s#]*('' @ backslash @ ''d+)'']"

text \<open>The loop shared by both extractors: the group 1 of the first pattern that is
  found; \<open>None\<close> when no pattern is found, \<open>Some None\<close> when the pattern is found
  but its group took no part in the match.\<close>

fun first_group_match :: "string list \<Rightarrow> string \<Rightarrow> py_error + string option option" where
  "first_group_match [] w = Inr None"
| "first_group_match (p # ps) w =
     (case py_re_group1 p w of
        Inl e \<Rightarrow> Inl e
      | Inr None \<Rightarrow> first_group_match ps w
      | Inr (Some g) \<Rightarrow> Inr (Some g))"

text \<open>\<open>community.replace('%20', ' ')\<close>, \<open>re.sub(r'\s+', ' ', community).strip()\<close>.\<close>

definition clean_community :: "string \<Rightarrow> string" where
  "clean_community c = py_strip (collapse_ws (py_replace c ''%20'' '' ''))"

definition extract_community_name :: "string option \<Rightarrow> py_error + string option" where
  "extract_community_name path =
     (case path of
        None \<Rightarrow> Inr None
      | Some p \<Rightarrow>
          if p = [] then Inr None
          else (case first_group_match COMMUNITY_PATTERNS p of
                  Inl e \<Rightarrow> Inl e
                | Inr None \<Rightarrow> Inr None
                | Inr (Some None) \<Rightarrow> Inl AttributeError
                | Inr (Some (Some g)) \<Rightarrow> Inr (Some (clean_community g))))"

text \<open>\<open>f"{name}"\<close>: a string as it is, \<open>None\<close> as the text \<open>None\<close>.\<close>

definition py_format :: "string option \<Rightarrow> string" where
  "py_format s = (case s of None \<Rightarrow> ''None'' | Some t \<Rightarrow> t)"

text \<open>\<open>text = f"{name} {path}" if path else name\<close>; \<open>re.search\<close> on a \<open>None\<close>
  text raises \<open>TypeError\<close>.\<close>

definition owner_text :: "string option \<Rightarrow> string option \<Rightarrow> py_error + string" where
  "owner_text name path =
     (case path of
        Some p \<Rightarrow> if p \<noteq> [] then Inr (py_format name @ '' '' @ p)
                  else (case name of None \<Rightarrow> Inl TypeError | Some n \<Rightarrow> Inr n)
      | None \<Rightarrow> (case name of None \<Rightarrow> Inl TypeError | Some n \<Rightarrow> Inr n))"

definition extract_owner_account :: "string option \<Rightarrow> string option \<Rightarrow> py_error + string option" where
  "extract_owner_account name path =
     (case owner_text name path of
        Inl e \<Rightarrow> Inl e
      | Inr t \<Rightarrow>
          (case first_group_match OWNER_ACCOUNT_PATTERNS t of
             Inl e \<Rightarrow> Inl e
           | Inr None \<Rightarrow> Inr None
           | Inr (Some g) \<Rightarrow> Inr g))"

subsection \<open>Shape of a cleaned community name\<close>

text \<open>Every whitespace character is a space and no two are adjacent.\<close>

fun single_spaced :: "string \<Rightarrow> bool" where
  "single_spaced [] = True"
| "single_spaced (c # s) =
     ((py_isspace c \<longrightarrow> c = CHR '' '' \<and> (s = [] \<or> \<not> py_isspace (hd s))) \<and> single_spaced s)"

definition trimmed :: "string \<Rightarrow> bool" where
  "trimmed s = (s = [] \<or> \<not> py_isspace (hd s) \<and> \<not> py_isspace (last s))"

definition community_normal :: "string \<Rightarrow> bool" where
  "community_normal c = (single_spaced c \<and> trimmed c \<and> \<not> sublist ''%20'' c)"

lemma single_spaced_append:
  "single_spaced (xs @ ys) \<Longrightarrow> single_spaced xs \<and> single_spaced ys"
  by (induction xs) (auto simp: hd_append split: if_splits)

lemma strip_decomp: "\<exists>a b. s = a @ py_strip s @ b"
proof -
  let ?u = "dropWhile py_isspace s"
  have s: "s = takeWhile py_isspace s @ ?u" by simp
  have "rev ?u = takeWhile py_isspace (rev ?u) @ dropWhile py_isspace (rev ?u)" by simp
  then have "?u = py_strip s @ rev (takeWhile py_isspace (rev ?u))"
    by (metis py_strip_def rev_append rev_rev_ident)
  with s show ?thesis by metis
qed

lemma sublist_strip: "sublist p (py_strip s) \<Longrightarrow> sublist p s"
  by (metis strip_decomp sublist_appendI sublist_order.dual_order.trans)

lemma single_spaced_strip: "single_spaced s \<Longrightarrow> single_spaced (py_strip s)"
  by (metis single_spaced_append strip_decomp)

lemma trimmed_strip: "trimmed (py_strip s)"
proof -
  let ?u = "dropWhile py_isspace s"
  let ?v = "dropWhile py_isspace (rev ?u)"
  show ?thesis
  proof (cases "?v = []")
    case True
    then show ?thesis by (simp add: trimmed_def py_strip_def)
  next
    case False
    have last: "\<not> py_isspace (last (py_strip s))"
      using False hd_dropWhile [OF False] by (simp add: py_strip_def last_rev)
    have "?u \<noteq> []" using False by (metis dropWhile.simps(1) rev.simps(1))
    moreover obtain w where "?u = py_strip s @ w"
      by (metis py_strip_def rev_append rev_rev_ident takeWhile_dropWhile_id)
    moreover have "py_strip s \<noteq> []" using False by (simp add: py_strip_def)
    ultimately have "hd (py_strip s) = hd ?u" by (metis hd_append)
    with hd_dropWhile [OF \<open>?u \<noteq> []\<close>] last show ?thesis by (simp add: trimmed_def)
  qed
qed

lemma strip_trimmed_id: "trimmed s \<Longrightarrow> py_strip s = s"
proof (cases s rule: rev_cases)
  case (snoc ys y)
  assume "trimmed s"
  with snoc have "\<not> py_isspace (hd s)" and "\<not> py_isspace y" by (auto simp: trimmed_def)
  then show ?thesis
    using snoc by (cases ys) (auto simp: py_strip_def)
qed (simp add: py_strip_def)

lemma collapse_ws_Nil_iff [simp]: "collapse_ws s = [] \<longleftrightarrow> s = []"
  by (cases s) auto

lemma hd_collapse_ws: "s \<noteq> [] \<Longrightarrow> \<not> py_isspace (hd s) \<Longrightarrow> hd (collapse_ws s) = hd s"
  by (cases s) auto

lemma py_isspace_space [simp]: "py_isspace (CHR '' '')"
  by (simp add: py_isspace_def)

lemma single_spaced_collapse: "single_spaced (collapse_ws s)"
proof (induction s rule: collapse_ws.induct)
  case (2 c s)
  show ?case
  proof (cases "py_isspace c")
    case True
    let ?t = "dropWhile py_isspace s"
    have h: "collapse_ws ?t = [] \<or> \<not> py_isspace (hd (collapse_ws ?t))"
    proof (cases "?t = []")
      case False
      then have "\<not> py_isspace (hd ?t)" by (rule hd_dropWhile)
      with False have "hd (collapse_ws ?t) = hd ?t" by (rule hd_collapse_ws)
      with \<open>\<not> py_isspace (hd ?t)\<close> show ?thesis by simp
    qed simp
    from "2.IH"(1) [OF True] h True show ?thesis by simp
  next
    case False
    with "2.IH"(2) show ?thesis by simp
  qed
qed simp

lemma collapse_single_spaced_id: "single_spaced s \<Longrightarrow> collapse_ws s = s"
proof (induction s rule: collapse_ws.induct)
  case (2 c s)
  show ?case
  proof (cases "py_isspace c")
    case True
    with "2.prems" have "dropWhile py_isspace s = s"
      by (cases s) auto
    with True "2.prems" "2.IH"(1) show ?thesis by simp
  next
    case False
    with "2.prems" "2.IH"(2) show ?thesis by simp
  qed
qed simp


lemma sublist_collapse_ws: "sublist ''%20'' (collapse_ws t) \<Longrightarrow> sublist ''%20'' t"
proof (induction t rule: collapse_ws.induct)
  case (2 c s)
  show ?case
  proof (cases "py_isspace c")
    case True
    with "2.prems" have "sublist ''%20'' (collapse_ws (dropWhile py_isspace s))"
      by (simp add: sublist_Cons_right)
    then have "sublist ''%20'' (dropWhile py_isspace s)" by (rule "2.IH"(1) [OF True])
    then have "sublist ''%20'' s" by (meson sublist_dropWhile sublist_order.dual_order.trans)
    then show ?thesis by (simp add: sublist_Cons_right)
  next
    case False
    show ?thesis
    proof (cases "prefix ''%20'' (c # collapse_ws s)")
      case True
      then obtain r where "collapse_ws s = CHR ''2'' # CHR ''0'' # r" and c: "c = CHR ''%''"
        by (auto simp: prefix_def)
      then obtain s1 where "s = CHR ''2'' # s1" "collapse_ws s1 = CHR ''0'' # r"
        by (cases s) (auto split: if_splits simp: py_isspace_def)
      moreover then obtain s2 where "s1 = CHR ''0'' # s2"
        by (cases s1) (auto split: if_splits simp: py_isspace_def)
      ultimately show ?thesis using c by (simp add: sublist_Cons_right)
    next
      case False
      with \<open>\<not> py_isspace c\<close> "2.prems" have "sublist ''%20'' (collapse_ws s)"
        by (auto simp: sublist_Cons_right)
      then show ?thesis by (simp add: "2.IH"(2) [OF \<open>\<not> py_isspace c\<close>] sublist_Cons_right)
    qed
  qed
qed simp

lemma prefix_20_replace:
  "prefix ''20'' (py_replace s ''%20'' '' '') \<Longrightarrow> prefix ''20'' s"
proof (cases s)
  case (Cons x s1)
  assume p: "prefix ''20'' (py_replace s ''%20'' '' '')"
  show ?thesis
  proof (cases s1)
    case Nil
    with Cons p show ?thesis by (auto split: if_splits)
  next
    case (Cons y s2)
    with \<open>s = x # s1\<close> p show ?thesis by (auto split: if_splits)
  qed
qed simp

lemma no_pct20_replace_gen:
  "old = ''%20'' \<Longrightarrow> new = '' '' \<Longrightarrow> \<not> sublist ''%20'' (py_replace s old new)"
proof (induction s old new rule: py_replace.induct)
  case (2 c s old new)
  show ?case
  proof (cases "take (length old) (c # s) = old")
    case True
    with "2.IH"(1) "2.prems" show ?thesis by (simp add: sublist_Cons_right)
  next
    case False
    have "\<not> prefix ''%20'' (c # py_replace s ''%20'' '' '')"
    proof
      assume "prefix ''%20'' (c # py_replace s ''%20'' '' '')"
      then have "c = CHR ''%''" and "prefix ''20'' s" by (auto intro: prefix_20_replace)
      with False "2.prems" show False by (auto simp: prefix_def)
    qed
    with False "2.IH"(2) "2.prems" show ?thesis by (auto simp: sublist_Cons_right)
  qed
qed simp

lemma no_pct20_replace: "\<not> sublist ''%20'' (py_replace s ''%20'' '' '')"
  by (rule no_pct20_replace_gen) simp_all

lemma replace_absent_id: "\<not> sublist old s \<Longrightarrow> py_replace s old new = s"
proof (induction s old new rule: py_replace.induct)
  case (2 c s old new)
  have "take (length old) (c # s) \<noteq> old"
    using "2.prems" by (metis append_take_drop_id sublist_append_rightI)
  moreover have "\<not> sublist old s" using "2.prems" by (auto simp: sublist_Cons_right)
  ultimately show ?case using "2.IH"(2) by simp
qed simp


lemma clean_community_normal: "community_normal (clean_community c)"
proof -
  let ?r = "py_replace c ''%20'' '' ''"
  have "single_spaced (py_strip (collapse_ws ?r))"
    by (rule single_spaced_strip [OF single_spaced_collapse])
  moreover have "trimmed (py_strip (collapse_ws ?r))"
    by (rule trimmed_strip)
  moreover have "\<not> sublist ''%20'' (py_strip (collapse_ws ?r))"
    using no_pct20_replace [of c] sublist_collapse_ws [of ?r] sublist_strip [of "''%20''" "collapse_ws ?r"]
    by blast
  ultimately show ?thesis by (simp add: community_normal_def clean_community_def)
qed

subsection \<open>Patterns whose group 1 always takes part\<close>

definition group1_pattern :: "string \<Rightarrow> bool" where
  "group1_pattern p = (case parse_re p of None \<Rightarrow> False | Some r \<Rightarrow> mandatory 1 r)"

lemma extractor_patterns_group1:
  "\<forall>p \<in> set (COMMUNITY_PATTERNS @ OWNER_ACCOUNT_PATTERNS). group1_pattern p"
  unfolding group1_pattern_def by code_simp

lemma first_group_match_total:
  "\<forall>p \<in> set ps. group1_pattern p \<Longrightarrow> \<exists>r. first_group_match ps w = Inr r \<and> r \<noteq> Some None"
proof (induction ps)
  case (Cons p ps)
  then obtain r where r: "parse_re p = Some r" and m: "mandatory 1 r"
    by (auto simp: group1_pattern_def split: option.splits)
  have "re_search_group r 1 w \<noteq> Some None" using m by (rule re_search_group_mandatory)
  with r Cons show ?case
    by (auto simp: py_re_group1_def split: option.splits)
qed simp

lemma first_group_match_community:
  "\<exists>r. first_group_match COMMUNITY_PATTERNS w = Inr r \<and> r \<noteq> Some None"
  using extractor_patterns_group1 by (intro first_group_match_total) simp

lemma first_group_match_owner:
  "\<exists>r. first_group_match OWNER_ACCOUNT_PATTERNS w = Inr r \<and> r \<noteq> Some None"
  using extractor_patterns_group1 by (intro first_group_match_total) simp

lemma extract_owner_account_named:
  "name \<noteq> None \<Longrightarrow> \<exists>r. extract_owner_account name path = Inr r"
proof -
  assume "name \<noteq> None"
  then have "\<exists>t. owner_text name path = Inr t"
    by (cases path) (auto simp: owner_text_def)
  then obtain t where t: "owner_text name path = Inr t" ..
  obtain r where "first_group_match OWNER_ACCOUNT_PATTERNS t = Inr r"
    using first_group_match_owner by blast
  with t show ?thesis by (auto simp: extract_owner_account_def split: option.splits)
qed

subsection \<open>Properties of the extractors\<close>

text \<open>C5. A community name returned by \<open>extract_community_name\<close> is normalised: every
  whitespace character in it is a single space between non-space characters, it has no
  whitespace at either end, and it contains no \<open>%20\<close>.\<close>

theorem extract_community_normalized:
  "extract_community_name path = Inr (Some c) \<Longrightarrow> community_normal c"
  by (auto simp: extract_community_name_def clean_community_normal
           split: option.splits sum.splits if_splits)

theorem extract_community_normalized_witness:
  "extract_community_name (Some ''/sites/x/North Austin Office/Falcon%20Pointe%20%20HOA /docs/a.pdf'')
     = Inr (Some ''Falcon Pointe HOA'')
   \<and> community_normal ''Falcon Pointe HOA''"
proof -
  have h: "extract_community_name (Some ''/sites/x/North Austin Office/Falcon%20Pointe%20%20HOA /docs/a.pdf'')
     = Inr (Some ''Falcon Pointe HOA'')"
    by code_simp
  show ?thesis using h extract_community_normalized [OF h] by simp
qed

text \<open>C6. The clean-up of a community name is idempotent: cleaning a cleaned name
  changes nothing, so a name written back to the index and extracted again is stable.\<close>

theorem clean_community_idempotent: "clean_community (clean_community c) = clean_community c"
proof -
  let ?x = "clean_community c"
  have n: "community_normal ?x" by (rule clean_community_normal)
  then have "py_replace ?x ''%20'' '' '' = ?x"
    by (simp add: community_normal_def replace_absent_id)
  moreover have "collapse_ws ?x = ?x"
    using n by (simp add: community_normal_def collapse_single_spaced_id)
  moreover have "py_strip ?x = ?x"
    using n by (simp add: community_normal_def strip_trimmed_id)
  ultimately show ?thesis by (simp add: clean_community_def [of ?x])
qed

text \<open>C7. \<open>extract_community_name\<close> never raises: its patterns compile and their
  group 1 takes part in every match, so the clean-up never runs on \<open>None\<close>.\<close>

theorem extract_community_name_total: "\<exists>r. extract_community_name path = Inr r"
proof -
  show ?thesis
  proof (cases path)
    case (Some p)
    obtain r where "first_group_match COMMUNITY_PATTERNS p = Inr r" "r \<noteq> Some None"
      using first_group_match_community by blast
    with Some show ?thesis
      by (cases r) (auto simp: extract_community_name_def split: option.splits)
  qed (simp add: extract_community_name_def)
qed

text \<open>C8. \<open>extract_owner_account\<close> raises exactly when the name is missing and the path
  is missing or empty (\<open>re.search\<close> on \<open>None\<close>); with a non-empty path a missing
  name is formatted as the text \<open>None\<close> and searched like any other.\<close>

theorem extract_owner_account_raises_iff:
  "(\<exists>e. extract_owner_account name path = Inl e) \<longleftrightarrow> name = None \<and> (path = None \<or> path = Some [])"
proof -
  show ?thesis
  proof (cases "owner_text name path")
    case (Inl e)
    then show ?thesis
      by (auto simp: extract_owner_account_def owner_text_def split: option.splits if_splits)
  next
    case (Inr t)
    obtain r where "first_group_match OWNER_ACCOUNT_PATTERNS t = Inr r"
      using first_group_match_owner by blast
    with Inr show ?thesis
      by (auto simp: extract_owner_account_def owner_text_def split: option.splits if_splits)
  qed
qed


theorem extract_owner_account_raises_iff_witness:
  "(\<exists>e. extract_owner_account None (Some '''') = Inl e)
   \<and> \<not> (\<exists>e. extract_owner_account None (Some ''/Statements/Acct 42/'') = Inl e)"
  using extract_owner_account_raises_iff [of None "Some ''''"]
    extract_owner_account_raises_iff [of None "Some ''/Statements/Acct 42/''"]
  by simp

end
