(* ===== verification/IndexClient.thy ===== *)
theory IndexClient
  imports Prelude "HOL-Library.Multiset"
begin

text \<open>
  The index client of \<open>src/scripts/classify_documents.py\<close> (\<open>search_documents\<close>,
  \<open>update_document\<close>, \<open>update_documents_batch\<close>, \<open>get_classification_stats\<close>) over
  a model of the search service it calls.  The service is outside the repository and
  is modelled from the spec and the service's REST contract: an \<open>index\<close> holds the
  documents in the order searches return them, the requests sent so far, and a fault
  schedule saying which request (by its ordinal) fails and how: with an HTTP error
  status, or with a connection failure, which \<open>requests.post\<close> raises.  A search
  filters (unclassified scope), skips and takes; an indexing request merges each item
  into the document with its key and answers 200 when every item succeeded and 207
  (Multi-Status) otherwise.
\<close>

subsection \<open>Documents, updates and requests\<close>

text \<open>A document as the index stores it; \<open>None\<close> is a null field.\<close>

record idx_doc =
  doc_id :: string
  item_name :: "string option"
  item_path :: "string option"
  doc_category :: "string option"
  doc_access_level :: "string option"
  doc_community :: "string option"
  doc_owner_account :: "string option"
  doc_classified_at :: "string option"

text \<open>The dictionary \<open>update\<close> built for one document: the key \<open>id\<close> (\<open>doc.get('id')\<close>,
  possibly \<open>None\<close>), the three fields always present, and the two present only when
  truthy (\<open>None\<close> here means the key is absent).\<close>

record doc_update =
  upd_id :: "string option"
  upd_category :: string
  upd_level :: string
  upd_classified_at :: string
  upd_community :: "string option"
  upd_owner :: "string option"

text \<open>The requests posted: a search page (\<open>skip\<close>, \<open>top\<close>, unclassified only), an
  indexing batch, and a zero-row count query with facets, each facet \<open>"field,count:k"\<close>
  as the pair of its field and \<open>k\<close>.\<close>

datatype request = SearchReq int int bool | IndexReq "doc_update list" | FacetReq "(string \<times> nat) list"

datatype fault = HttpStatus nat | ConnectionFailure

record index =
  docs :: "idx_doc list"
  faults :: "(nat \<times> fault) list"
  sent :: "request list"

definition send :: "request \<Rightarrow> index \<Rightarrow> index" where
  "send q ix = ix\<lparr>sent := sent ix @ [q]\<rparr>"

definition fault_of :: "index \<Rightarrow> fault option" where
  "fault_of ix = map_of (faults ix) (length (sent ix))"

subsection \<open>The service\<close>

text \<open>\<open>document_category eq null or document_category eq ''\<close>.\<close>

definition unclassified :: "idx_doc \<Rightarrow> bool" where
  "unclassified d = (doc_category d = None \<or> doc_category d = Some [])"

definition scope :: "bool \<Rightarrow> idx_doc list \<Rightarrow> idx_doc list" where
  "scope unclassified_only ds = (if unclassified_only then filter unclassified ds else ds)"

text \<open>A search answer: status, the \<open>value\<close> list and \<open>@odata.count\<close>.  Negative
  \<open>skip\<close> or \<open>top\<close> is a 400 Bad Request.\<close>

definition svc_search :: "index \<Rightarrow> int \<Rightarrow> int \<Rightarrow> bool \<Rightarrow> py_error + (nat \<times> idx_doc list \<times> nat)" where
  "svc_search ix sk tp unc =
     (case fault_of ix of
        Some ConnectionFailure \<Rightarrow> Inl ConnectionError
      | Some (HttpStatus c) \<Rightarrow> Inr (c, [], 0)
      | None \<Rightarrow>
          if sk < 0 \<or> tp < 0 then Inr (400, [], 0)
          else (let ds = scope unc (docs ix) in Inr (200, take (nat tp) (drop (nat sk) ds), length ds)))"

text \<open>A merge of one item: the fields it carries overwrite the document with its key;
  an item without a key, or whose key names no document, fails.\<close>

definition apply_update :: "doc_update \<Rightarrow> idx_doc \<Rightarrow> idx_doc" where
  "apply_update u d =
     d\<lparr>doc_category := Some (upd_category u), doc_access_level := Some (upd_level u),
       doc_classified_at := Some (upd_classified_at u),
       doc_community := (case upd_community u of None \<Rightarrow> doc_community d | Some c \<Rightarrow> Some c),
       doc_owner_account := (case upd_owner u of None \<Rightarrow> doc_owner_account d | Some a \<Rightarrow> Some a)\<rparr>"

definition merge_item :: "idx_doc list \<Rightarrow> doc_update \<Rightarrow> idx_doc list \<times> bool" where
  "merge_item ds u =
     (case upd_id u of
        None \<Rightarrow> (ds, False)
      | Some k \<Rightarrow>
          if k \<in> doc_id ` set ds
          then (map (\<lambda>d. if doc_id d = k then apply_update u d else d) ds, True)
          else (ds, False))"

fun merge_items :: "idx_doc list \<Rightarrow> doc_update list \<Rightarrow> idx_doc list \<times> bool list" where
  "merge_items ds [] = (ds, [])"
| "merge_items ds (u # us) =
     (let (ds', ok) = merge_item ds u; (ds'', oks) = merge_items ds' us in (ds'', ok # oks))"

text \<open>An indexing request: the new documents, the status (200 when every item
  succeeded, 207 otherwise) and the per-item \<open>status\<close> flags.\<close>

definition svc_index :: "index \<Rightarrow> doc_update list \<Rightarrow> py_error + (index \<times> nat \<times> bool list)" where
  "svc_index ix us =
     (case fault_of ix of
        Some ConnectionFailure \<Rightarrow> Inl ConnectionError
      | Some (HttpStatus c) \<Rightarrow> Inr (ix, c, [])
      | None \<Rightarrow>
          (let (ds', oks) = merge_items (docs ix) us
           in Inr (ix\<lparr>docs := ds'\<rparr>, if list_all id oks then 200 else 207, oks)))"

subsection \<open>The client functions\<close>

text \<open>What \<open>search_documents\<close> returns: the bare list \<open>[]\<close> on a non-200 answer,
  the pair \<open>(value, count)\<close> otherwise.\<close>

datatype search_result = EmptyList | ValueCount "idx_doc list" nat

definition search_documents ::
  "index \<Rightarrow> int \<Rightarrow> int \<Rightarrow> bool \<Rightarrow> index \<times> (py_error + search_result)" where
  "search_documents ix sk tp unclassified_only =
     (let ix' = send (SearchReq sk tp unclassified_only) ix
      in (ix', case svc_search ix sk tp unclassified_only of
                 Inl e \<Rightarrow> Inl e
               | Inr (status, value, cnt) \<Rightarrow>
                   if status \<noteq> 200 then Inr EmptyList else Inr (ValueCount value cnt)))"

text \<open>The callers unpack the result into two names: \<open>docs, _ = ...\<close>.  Unpacking the
  empty list raises \<open>ValueError\<close>.\<close>

definition unpack2 :: "search_result \<Rightarrow> py_error + (idx_doc list \<times> nat)" where
  "unpack2 r = (case r of EmptyList \<Rightarrow> Inl ValueError | ValueCount v c \<Rightarrow> Inr (v, c))"

definition update_document :: "index \<Rightarrow> string \<Rightarrow> doc_update \<Rightarrow> index \<times> (py_error + bool)" where
  "update_document ix k u =
     (let u' = u\<lparr>upd_id := Some k\<rparr>
      in case svc_index ix [u'] of
           Inl e \<Rightarrow> (send (IndexReq [u']) ix, Inl e)
         | Inr (ix', status, _) \<Rightarrow> (send (IndexReq [u']) ix', Inr (status = 200)))"

text \<open>On a 200 answer, \<open>succeeded\<close> counts the items acknowledged with a true
  \<open>status\<close> and \<open>failed = len(updates) - succeeded\<close>; on any other status the whole
  batch is counted as failed.  Python integers: \<open>failed\<close> is an \<open>int\<close>.\<close>

definition update_documents_batch ::
  "index \<Rightarrow> doc_update list \<Rightarrow> index \<times> (py_error + int \<times> int)" where
  "update_documents_batch ix us =
     (case svc_index ix us of
        Inl e \<Rightarrow> (send (IndexReq us) ix, Inl e)
      | Inr (ix', status, oks) \<Rightarrow>
          (send (IndexReq us) ix',
           if status = 200
           then (let succeeded = int (length (filter id oks)) in Inr (succeeded, int (length us) - succeeded))
           else Inr (0, int (length us))))"


subsection \<open>Facet statistics\<close>

text \<open>A facet of the service: the values a field takes (nulls are not faceted) with
  their counts, the most frequent first (ties in order of first occurrence), at most
  \<open>k\<close> of them (\<open>"document_category,count:50"\<close>).\<close>

definition value_counts :: "(idx_doc \<Rightarrow> string option) \<Rightarrow> idx_doc list \<Rightarrow> (string \<times> nat) list" where
  "value_counts f ds = fold (\<lambda>d t. case f d of None \<Rightarrow> t | Some v \<Rightarrow> dict_incr t v) ds []"

definition facet :: "(idx_doc \<Rightarrow> string option) \<Rightarrow> nat \<Rightarrow> idx_doc list \<Rightarrow> (string \<times> nat) list" where
  "facet f k ds = take k (sort_key (\<lambda>(v, c). - int c) (value_counts f ds))"

text \<open>The facetable fields of the index.\<close>

definition facet_field :: "string \<Rightarrow> (idx_doc \<Rightarrow> string option) option" where
  "facet_field f =
     (if f = ''document_category'' then Some doc_category
      else if f = ''access_level'' then Some doc_access_level else None)"

text \<open>The zero-row search with \<open>count\<close> and the requested facets: status,
  \<open>@odata.count\<close> and \<open>@search.facets\<close>, each requested field with its value list.
  A field that is not facetable is a 400 Bad Request.\<close>

definition svc_facets ::
  "index \<Rightarrow> (string \<times> nat) list \<Rightarrow> py_error + (nat \<times> nat \<times> (string \<times> (string \<times> nat) list) list)" where
  "svc_facets ix fs =
     (case fault_of ix of
        Some ConnectionFailure \<Rightarrow> Inl ConnectionError
      | Some (HttpStatus c) \<Rightarrow> Inr (c, 0, [])
      | None \<Rightarrow>
          if \<forall>(f, k) \<in> set fs. facet_field f \<noteq> None
          then Inr (200, length (docs ix), map (\<lambda>(f, k). (f, facet (the (facet_field f)) k (docs ix))) fs)
          else Inr (400, 0, []))"

text \<open>The request body of \<open>get_classification_stats\<close>:
  \<open>"facets": ["document_category,count:50", "access_level,count:10"]\<close>.\<close>

definition STATS_FACETS :: "(string \<times> nat) list" where
  "STATS_FACETS = [(''document_category'', 50), (''access_level'', 10)]"

text \<open>\<open>{f['value']: f['count'] for f in data.get('@search.facets', {}).get(field, [])}\<close>.\<close>

definition facet_dict :: "(string \<times> (string \<times> nat) list) list \<Rightarrow> string \<Rightarrow> (string \<times> nat) list" where
  "facet_dict facets field =
     fold (\<lambda>(v, c) d. dict_set d v c) (case map_of facets field of None \<Rightarrow> [] | Some l \<Rightarrow> l) []"

text \<open>The dictionary \<open>get_classification_stats\<close> returns; \<open>None\<close> is the empty
  dictionary \<open>{}\<close> returned on a non-200 answer.\<close>

record class_stats =
  total_documents :: nat
  st_by_category :: "(string \<times> nat) list"
  st_by_access_level :: "(string \<times> nat) list"

definition get_classification_stats :: "index \<Rightarrow> index \<times> (py_error + class_stats option)" where
  "get_classification_stats ix =
     (send (FacetReq STATS_FACETS) ix,
      case svc_facets ix STATS_FACETS of
        Inl e \<Rightarrow> Inl e
      | Inr (status, total_count, facets) \<Rightarrow>
          if status \<noteq> 200 then Inr None
          else Inr (Some \<lparr>total_documents = total_count, st_by_category = facet_dict facets ''document_category'',
                          st_by_access_level = facet_dict facets ''access_level''\<rparr>))"

subsection \<open>Facts about the service and the client\<close>

lemma length_merge_items [simp]: "length (snd (merge_items ds us)) = length us"
  by (induction ds us rule: merge_items.induct) (auto split: prod.splits)

lemma search_documents_sent:
  "fst (search_documents ix sk tp u) = send (SearchReq sk tp u) ix"
  by (simp add: search_documents_def Let_def)

lemma search_documents_docs [simp]: "docs (fst (search_documents ix sk tp u)) = docs ix"
  by (simp add: search_documents_def send_def Let_def)

lemma search_nonempty_top:
  "search_documents ix sk tp u = (ix', Inr (ValueCount ds c)) \<Longrightarrow> ds \<noteq> [] \<Longrightarrow> 0 < tp"
  by (auto simp: search_documents_def svc_search_def Let_def split: option.splits fault.splits if_splits)


lemma svc_index_acks:
  "svc_index ix us = Inr (ix', status, oks) \<Longrightarrow> length oks \<le> length us"
  by (auto simp: svc_index_def split: option.splits fault.splits prod.splits)
     (metis length_merge_items order_refl snd_conv)

lemma merge_item_present:
  "k \<in> doc_id ` set ds \<Longrightarrow> merge_item ds (u\<lparr>upd_id := Some k\<rparr>) =
     (map (\<lambda>d. if doc_id d = k then apply_update (u\<lparr>upd_id := Some k\<rparr>) d else d) ds, True)"
  by (simp add: merge_item_def)

lemma merge_item_absent:
  "upd_id u = None \<Longrightarrow> merge_item ds u = (ds, False)"
  by (simp add: merge_item_def)

lemma apply_update_fields [simp]:
  "doc_id (apply_update u d) = doc_id d"
  "doc_category (apply_update u d) = Some (upd_category u)"
  "doc_access_level (apply_update u d) = Some (upd_level u)"
  "item_name (apply_update u d) = item_name d"
  "item_path (apply_update u d) = item_path d"
  by (simp_all add: apply_update_def)

lemma svc_index_fault_free:
  "fault_of ix = None \<Longrightarrow> merge_items (docs ix) us = (ds, oks) \<Longrightarrow>
   svc_index ix us = Inr (ix\<lparr>docs := ds\<rparr>, if list_all id oks then 200 else 207, oks)"
  by (simp add: svc_index_def)

lemma update_documents_batch_not_ok:
  "svc_index ix us = Inr (i, c, oks) \<Longrightarrow> c \<noteq> 200 \<Longrightarrow>
   update_documents_batch ix us = (send (IndexReq us) i, Inr (0, int (length us)))"
  by (simp add: update_documents_batch_def)

lemma update_documents_batch_counts:
  assumes "update_documents_batch ix us = (ix', Inr (s, f))"
  shows "s + f = int (length us) \<and> 0 \<le> s \<and> 0 \<le> f"
proof (cases "svc_index ix us")
  case (Inr r)
  obtain i status oks where r: "r = (i, status, oks)" by (cases r) auto
  have "length (filter id oks) \<le> length us"
    using svc_index_acks [of ix us i status oks] Inr r length_filter_le order_trans by blast
  with assms Inr r show ?thesis
    by (auto simp: update_documents_batch_def Let_def split: if_splits)
qed (use assms in \<open>simp add: update_documents_batch_def\<close>)

lemma svc_index_sent: "svc_index ix us = Inr (i, c, oks) \<Longrightarrow> sent i = sent ix"
  by (auto simp: svc_index_def split: option.splits fault.splits prod.splits)

lemma update_documents_batch_sent:
  "sent (fst (update_documents_batch ix us)) = sent ix @ [IndexReq us]"
  by (auto simp: update_documents_batch_def send_def dest: svc_index_sent split: sum.splits prod.splits)

lemma update_documents_batch_faults [simp]:
  "faults (fst (update_documents_batch ix us)) = faults ix"
  by (auto simp: update_documents_batch_def send_def svc_index_def split: sum.splits prod.splits option.splits fault.splits)

subsection \<open>Properties of the index client\<close>

text \<open>C9. Batch accounting: whatever the service answers, \<open>update_documents_batch\<close>
  sends the batch as one indexing request and returns counts that are non-negative and
  add up to the number of updates sent.\<close>

theorem update_documents_batch_accounting:
  assumes "update_documents_batch ix us = (ix', Inr (s, f))"
  shows "s + f = int (length us) \<and> 0 \<le> s \<and> 0 \<le> f \<and> sent ix' = sent ix @ [IndexReq us]"
  using update_documents_batch_counts [OF assms] update_documents_batch_sent [of ix us] assms
  by simp

theorem update_documents_batch_accounting_witness:
  "update_documents_batch \<lparr>docs = [], faults = [(0, HttpStatus 503)], sent = []\<rparr> [\<lparr>upd_id = Some ''7'', upd_category = ''board_legal'', upd_level = ''board_only'',
        upd_classified_at = ''t'', upd_community = None, upd_owner = None\<rparr>]
     = (\<lparr>docs = [], faults = [(0, HttpStatus 503)], sent = [IndexReq [\<lparr>upd_id = Some ''7'', upd_category = ''board_legal'', upd_level = ''board_only'',
        upd_classified_at = ''t'', upd_community = None, upd_owner = None\<rparr>]]\<rparr>, Inr (0, 1))
   \<and> (0::int) + 1 = int (length [\<lparr>upd_id = Some ''7'', upd_category = ''board_legal'', upd_level = ''board_only'',
        upd_classified_at = ''t'', upd_community = None, upd_owner = None\<rparr>])
   \<and> sent \<lparr>docs = [], faults = [(0, HttpStatus 503)], sent = [IndexReq [\<lparr>upd_id = Some ''7'', upd_category = ''board_legal'', upd_level = ''board_only'',
        upd_classified_at = ''t'', upd_community = None, upd_owner = None\<rparr>]]\<rparr>
       = sent \<lparr>docs = [], faults = [(0, HttpStatus 503)], sent = []\<rparr> @ [IndexReq [\<lparr>upd_id = Some ''7'', upd_category = ''board_legal'', upd_level = ''board_only'',
        upd_classified_at = ''t'', upd_community = None, upd_owner = None\<rparr>]]"
proof -
  let ?u = "\<lparr>upd_id = Some ''7'', upd_category = ''board_legal'', upd_level = ''board_only'',
        upd_classified_at = ''t'', upd_community = None, upd_owner = None\<rparr>"
  have h: "update_documents_batch \<lparr>docs = [], faults = [(0, HttpStatus 503)], sent = []\<rparr> [?u]
     = (\<lparr>docs = [], faults = [(0, HttpStatus 503)], sent = [IndexReq [?u]]\<rparr>, Inr (0, 1))"
    by (simp add: update_documents_batch_def svc_index_def fault_of_def send_def)
  show ?thesis using update_documents_batch_accounting [OF h] h by simp
qed

text \<open>C10. A partially failed batch is counted as wholly failed although its good
  items are written: with one update for an existing document and one without a key,
  the service stores the first and answers 207, and \<open>update_documents_batch\<close>
  reports \<open>(0, 2)\<close>.  The spec's per-item accounting is not what the code does.\<close>

theorem update_documents_batch_partial_failure:
  assumes "fault_of ix = None"
    and "k \<in> doc_id ` set (docs ix)"
    and "upd_id v = None"
    and "update_documents_batch ix [u\<lparr>upd_id := Some k\<rparr>, v] = (ix', r)"
  shows "r = Inr (0, 2)
    \<and> (\<forall>d \<in> set (docs ix'). doc_id d = k \<longrightarrow> doc_category d = Some (upd_category u))"
proof -
  let ?u = "u\<lparr>upd_id := Some k\<rparr>"
  let ?ds = "map (\<lambda>d. if doc_id d = k then apply_update ?u d else d) (docs ix)"
  have "merge_items (docs ix) [?u, v] = (?ds, [True, False])"
    using assms(2,3) by (simp add: merge_item_present merge_item_absent)
  then have "svc_index ix [?u, v] = Inr (ix\<lparr>docs := ?ds\<rparr>, 207, [True, False])"
    using svc_index_fault_free [OF assms(1)] by simp
  then have "update_documents_batch ix [?u, v] = (send (IndexReq [?u, v]) (ix\<lparr>docs := ?ds\<rparr>), Inr (0, 2))"
    by (simp add: update_documents_batch_not_ok)
  with assms(4) have r: "r = Inr (0, 2)" and i: "ix' = send (IndexReq [?u, v]) (ix\<lparr>docs := ?ds\<rparr>)"
    by simp_all
  from i have d: "docs ix' = ?ds" by (simp add: send_def)
  have "\<forall>d \<in> set ?ds. doc_id d = k \<longrightarrow> doc_category d = Some (upd_category u)"
    by (simp add: ball_Un)
  with r d show ?thesis by simp
qed

theorem update_documents_batch_partial_failure_witness:
  "snd (update_documents_batch
     \<lparr>docs = [\<lparr>doc_id = ''7'', item_name = None, item_path = None, doc_category = None, doc_access_level = None,
               doc_community = None, doc_owner_account = None, doc_classified_at = None\<rparr>],
      faults = [], sent = []\<rparr>
     [\<lparr>upd_id = Some ''7'', upd_category = ''board_legal'', upd_level = ''board_only'', upd_classified_at = ''t'',
       upd_community = None, upd_owner = None\<rparr>,
      \<lparr>upd_id = None, upd_category = ''uncategorized'', upd_level = ''staff_only'', upd_classified_at = ''t'',
       upd_community = None, upd_owner = None\<rparr>]) = Inr (0, 2)"
proof -
  let ?d = "\<lparr>doc_id = ''7'', item_name = None, item_path = None, doc_category = None, doc_access_level = None,
               doc_community = None, doc_owner_account = None, doc_classified_at = None\<rparr>"
  let ?u = "\<lparr>upd_id = Some ''7'', upd_category = ''board_legal'', upd_level = ''board_only'', upd_classified_at = ''t'',
       upd_community = None, upd_owner = None\<rparr>"
  let ?v = "\<lparr>upd_id = None, upd_category = ''uncategorized'', upd_level = ''staff_only'', upd_classified_at = ''t'',
       upd_community = None, upd_owner = None\<rparr>"
  let ?ix = "\<lparr>docs = [?d], faults = [], sent = []\<rparr>"
  have u: "?u = ?u\<lparr>upd_id := Some ''7''\<rparr>" by simp
  have "fault_of ?ix = None" by (simp add: fault_of_def)
  moreover have "''7'' \<in> doc_id ` set (docs ?ix)" by simp
  moreover have "upd_id ?v = None" by simp
  ultimately show ?thesis
    using update_documents_batch_partial_failure [of ?ix "''7''" ?v ?u, OF _ _ _ surjective_pairing]
    by (simp only: u [symmetric])
qed


subsection \<open>Facet statistics\<close>

lemma value_counts_fold:
  "dict_get0 (fold (\<lambda>d t. case f d of None \<Rightarrow> t | Some v \<Rightarrow> dict_incr t v) ds t0) w
     = dict_get0 t0 w + length (filter (\<lambda>d. f d = Some w) ds)"
  by (induction ds arbitrary: t0) (auto split: option.splits)

lemma value_counts_distinct:
  "distinct (map fst t0) \<Longrightarrow> distinct (map fst (fold (\<lambda>d t. case f d of None \<Rightarrow> t | Some v \<Rightarrow> dict_incr t v) ds t0))"
  by (induction ds arbitrary: t0) (auto split: option.splits)

lemma dict_get0_sort_key:
  assumes "distinct (map fst t)"
  shows "dict_get0 (sort_key g t) w = dict_get0 t w"
proof -
  have "mset (map fst (sort_key g t)) = mset (map fst t)" by simp
  then have "distinct (map fst (sort_key g t))" using assms by (metis mset_eq_imp_distinct_iff)
  then have "map_of (sort_key g t) = map_of t" using assms by (simp add: map_of_inject_set)
  then show ?thesis by (simp add: dict_get0_def)
qed

lemma facet_counts:
  "length (value_counts f ds) \<le> k \<Longrightarrow> dict_get0 (facet f k ds) w = length (filter (\<lambda>d. f d = Some w) ds)"
  using value_counts_fold [of f ds "[]" w] value_counts_distinct [of "[]" f ds]
    dict_get0_sort_key [of "value_counts f ds" "\<lambda>(v, c). - int c" w]
  by (simp add: facet_def value_counts_def dict_get0_def)

lemma dict_set_absent: "k \<notin> set (map fst d) \<Longrightarrow> dict_set d k v = d @ [(k, v)]"
  by (induction d) auto

lemma fold_dict_set_append:
  "distinct (map fst l) \<Longrightarrow> set (map fst l) \<inter> set (map fst d) = {} \<Longrightarrow>
   fold (\<lambda>(v, c) d. dict_set d v c) l d = d @ l"
proof (induction l arbitrary: d)
  case (Cons p l)
  obtain v c where p: "p = (v, c)" by fastforce
  with Cons.prems have "dict_set d v c = d @ [(v, c)]" by (intro dict_set_absent) auto
  with Cons p show ?case by simp
qed simp

lemma distinct_facet: "distinct (map fst (facet f k ds))"
proof -
  have d: "distinct (map fst (value_counts f ds))"
    using value_counts_distinct [of "[]" f ds] by (simp add: value_counts_def)
  have "mset (map fst (sort_key (\<lambda>(v, c). - int c) (value_counts f ds))) = mset (map fst (value_counts f ds))" by simp
  then have "distinct (map fst (sort_key (\<lambda>(v, c). - int c) (value_counts f ds)))"
    using d by (metis mset_eq_imp_distinct_iff)
  then show ?thesis by (simp add: facet_def take_map [symmetric] distinct_take)
qed

lemma facet_dict_lookup:
  "map_of facets field = Some l \<Longrightarrow> distinct (map fst l) \<Longrightarrow> facet_dict facets field = l"
  using fold_dict_set_append [of l "[]"] by (simp add: facet_dict_def)

lemma get_classification_stats_answered:
  "fault_of ix = None \<Longrightarrow>
   snd (get_classification_stats ix) = Inr (Some \<lparr>total_documents = length (docs ix),
     st_by_category = facet doc_category 50 (docs ix), st_by_access_level = facet doc_access_level 10 (docs ix)\<rparr>)"
  by (simp add: get_classification_stats_def svc_facets_def STATS_FACETS_def facet_field_def
      facet_dict_lookup distinct_facet)

text \<open>C23. \<open>get_classification_stats\<close> returns the empty dictionary exactly when the
  service answers with an HTTP error, and raises exactly on a connection failure; the
  spec's "never raises" does not hold for the latter.\<close>

theorem get_classification_stats_failure:
  "(snd (get_classification_stats ix) = Inr None \<longleftrightarrow> (\<exists>c. fault_of ix = Some (HttpStatus c) \<and> c \<noteq> 200))
   \<and> ((\<exists>e. snd (get_classification_stats ix) = Inl e) \<longleftrightarrow> fault_of ix = Some ConnectionFailure)"
  by (auto simp: get_classification_stats_def svc_facets_def STATS_FACETS_def facet_field_def
      split: option.splits fault.splits)

theorem get_classification_stats_failure_witness:
  "snd (get_classification_stats \<lparr>docs = [], faults = [(0, HttpStatus 503)], sent = []\<rparr>) = Inr None
   \<and> (\<exists>e. snd (get_classification_stats \<lparr>docs = [], faults = [(0, ConnectionFailure)], sent = []\<rparr>) = Inl e)"
  using get_classification_stats_failure [of "\<lparr>docs = [], faults = [(0, HttpStatus 503)], sent = []\<rparr>"]
    get_classification_stats_failure [of "\<lparr>docs = [], faults = [(0, ConnectionFailure)], sent = []\<rparr>"]
  by (simp add: fault_of_def)

end
