(* ===== verification/Orchestrator.thy ===== *)
theory Orchestrator
  imports Rules Extractors IndexClient
begin

text \<open>
  \<open>run_classification\<close> of \<open>src/scripts/classify_documents.py\<close>: count the documents
  in scope, page through them with \<open>skip\<close> advancing by \<open>batch_size\<close>, classify and
  extract each document into an update, tally the statistics, flush the accumulated
  updates whenever a page leaves at least \<open>batch_size\<close> of them (never in a dry run),
  flush the rest at the end.  The state is the record of the function's locals; the
  index is threaded through every call.  An exception ends the run: the result is the
  exception with the index as it stands then (the writes already made stay).
\<close>

record run_cfg =
  reclassify_all :: bool
  dry_run :: bool
  batch_size :: int
  clock :: "nat \<Rightarrow> string"

record run_stats =
  processed :: nat
  updated :: int
  failed :: int
  by_category :: "(string \<times> nat) list"
  by_access_level :: "(string \<times> nat) list"

record run_state =
  ix :: index
  stats :: run_stats
  skip :: int
  batch_updates :: "doc_update list"

type_synonym 'a run_result = "(py_error \<times> index) + 'a"

definition init_stats :: run_stats where
  "init_stats = \<lparr>processed = 0, updated = 0, failed = 0, by_category = [], by_access_level = []\<rparr>"

definition init_state :: "index \<Rightarrow> run_state" where
  "init_state i = \<lparr>ix = i, stats = init_stats, skip = 0, batch_updates = []\<rparr>"

subsection \<open>One document\<close>

text \<open>Python's \<open>x or y\<close> on optional strings, and the test \<open>if x:\<close>.\<close>

definition py_or :: "string option \<Rightarrow> string option \<Rightarrow> string option" where
  "py_or x y = (case x of Some s \<Rightarrow> if s \<noteq> [] then Some s else y | None \<Rightarrow> y)"

definition truthy :: "string option \<Rightarrow> string option" where
  "truthy x = (case x of Some s \<Rightarrow> if s \<noteq> [] then Some s else None | None \<Rightarrow> None)"

text \<open>The body of the document loop up to \<open>batch_updates.append(update)\<close>: classify,
  extract the community (falling back to the stored value), extract the owner account
  for \<open>owner_\<close> categories only, build the update.  \<open>k\<close> is the number of
  documents processed before, which fixes the timestamp.\<close>

definition build_update ::
  "run_cfg \<Rightarrow> nat \<Rightarrow> idx_doc \<Rightarrow> py_error + (doc_update \<times> string \<times> access_level)" where
  "build_update cfg k d =
     (case classify_document (item_path d) (item_name d) of
        Inl e \<Rightarrow> Inl e
      | Inr (cat, lvl) \<Rightarrow>
          (case extract_community_name (item_path d) of
             Inl e \<Rightarrow> Inl e
           | Inr ext \<Rightarrow>
               (case (if py_startswith cat ''owner_'' then extract_owner_account (item_name d) (item_path d)
                      else Inr None) of
                  Inl e \<Rightarrow> Inl e
                | Inr owner \<Rightarrow>
                    Inr (\<lparr>upd_id = Some (doc_id d), upd_category = cat, upd_level = level_name lvl,
                          upd_classified_at = clock cfg k,
                          upd_community = truthy (py_or ext (doc_community d)),
                          upd_owner = truthy owner\<rparr>, cat, lvl))))"

text \<open>The whole loop body: the update is appended and both tables counted; for the
  first ten documents the sample line prints \<open>name[:50]\<close>, which raises
  \<open>TypeError\<close> on a null name; then \<open>processed\<close> is incremented.\<close>

definition process_doc :: "run_cfg \<Rightarrow> run_state \<Rightarrow> idx_doc \<Rightarrow> run_state run_result" where
  "process_doc cfg st d =
     (case build_update cfg (processed (stats st)) d of
        Inl e \<Rightarrow> Inl (e, ix st)
      | Inr (u, cat, lvl) \<Rightarrow>
          if processed (stats st) < 10 \<and> item_name d = None then Inl (TypeError, ix st)
          else Inr (st\<lparr>batch_updates := batch_updates st @ [u],
                       stats := (stats st)\<lparr>by_category := dict_incr (by_category (stats st)) cat,
                                           by_access_level := dict_incr (by_access_level (stats st)) (level_name lvl),
                                           processed := Suc (processed (stats st))\<rparr>\<rparr>))"

fun process_docs :: "run_cfg \<Rightarrow> run_state \<Rightarrow> idx_doc list \<Rightarrow> run_state run_result" where
  "process_docs cfg st [] = Inr st"
| "process_docs cfg st (d # ds) =
     (case process_doc cfg st d of Inl err \<Rightarrow> Inl err | Inr st' \<Rightarrow> process_docs cfg st' ds)"

subsection \<open>Flushing\<close>

definition flush :: "run_state \<Rightarrow> run_state run_result" where
  "flush st =
     (case update_documents_batch (ix st) (batch_updates st) of
        (i, Inl e) \<Rightarrow> Inl (e, i)
      | (i, Inr (s, f)) \<Rightarrow>
          Inr (st\<lparr>ix := i, batch_updates := [],
                  stats := (stats st)\<lparr>updated := updated (stats st) + s, failed := failed (stats st) + f\<rparr>\<rparr>))"

text \<open>\<open>if not dry_run and len(batch_updates) >= batch_size\<close>.\<close>

definition maybe_flush :: "run_cfg \<Rightarrow> run_state \<Rightarrow> run_state run_result" where
  "maybe_flush cfg st =
     (if \<not> dry_run cfg \<and> batch_size cfg \<le> int (length (batch_updates st)) then flush st else Inr st)"

subsection \<open>The paging loop\<close>

text \<open>\<open>while skip < total_count\<close>: search the page, stop on an empty page, process it,
  maybe flush, advance \<open>skip\<close>.  The loop ends because a non-empty page needs a positive
  \<open>top\<close>, so \<open>skip\<close> grows towards \<open>total_count\<close>.\<close>

function page_loop :: "run_cfg \<Rightarrow> nat \<Rightarrow> run_state \<Rightarrow> run_state run_result" where
  "page_loop cfg total_count st =
     (if skip st < int total_count then
        (case search_documents (ix st) (skip st) (batch_size cfg) (\<not> reclassify_all cfg) of
           (i, Inl e) \<Rightarrow> Inl (e, i)
         | (i, Inr res) \<Rightarrow>
             (case res of
                EmptyList \<Rightarrow> Inl (ValueError, i)
              | ValueCount ds _ \<Rightarrow>
                  if ds = [] then Inr (st\<lparr>ix := i\<rparr>)
                  else (case process_docs cfg (st\<lparr>ix := i\<rparr>) ds of
                          Inl err \<Rightarrow> Inl err
                        | Inr st2 \<Rightarrow>
                            (case maybe_flush cfg st2 of
                               Inl err \<Rightarrow> Inl err
                             | Inr st3 \<Rightarrow> page_loop cfg total_count (st3\<lparr>skip := skip st + batch_size cfg\<rparr>)))))
      else Inr st)"
  by pat_completeness auto
termination
  by (relation "measure (\<lambda>(cfg, total_count, st). nat (int total_count - skip st))")
     (auto dest: search_nonempty_top [OF sym])

declare page_loop.simps [simp del]

subsection \<open>The run\<close>

datatype outcome = NothingToDo index | Completed run_state

definition final_flush :: "run_cfg \<Rightarrow> run_state \<Rightarrow> run_state run_result" where
  "final_flush cfg st = (if \<not> dry_run cfg \<and> batch_updates st \<noteq> [] then flush st else Inr st)"

definition run_classification :: "run_cfg \<Rightarrow> index \<Rightarrow> outcome run_result" where
  "run_classification cfg ix0 =
     (case search_documents ix0 0 1 (\<not> reclassify_all cfg) of
        (i, Inl e) \<Rightarrow> Inl (e, i)
      | (i, Inr EmptyList) \<Rightarrow> Inl (ValueError, i)
      | (i, Inr (ValueCount _ total_count)) \<Rightarrow>
          if total_count = 0 then Inr (NothingToDo i)
          else (case page_loop cfg total_count (init_state i) of
                  Inl err \<Rightarrow> Inl err
                | Inr st \<Rightarrow> (case final_flush cfg st of Inl err \<Rightarrow> Inl err | Inr st' \<Rightarrow> Inr (Completed st'))))"

text \<open>The report: both tables \<open>sorted(..., key=lambda x: -x[1])\<close>, a stable sort.\<close>

definition report_table :: "(string \<times> nat) list \<Rightarrow> (string \<times> nat) list" where
  "report_table t = sort_key (\<lambda>(k, c). - int c) t"

definition outcome_index :: "outcome run_result \<Rightarrow> index" where
  "outcome_index r = (case r of Inl (_, i) \<Rightarrow> i | Inr (NothingToDo i) \<Rightarrow> i | Inr (Completed st) \<Rightarrow> ix st)"


subsection \<open>Invariants of a run\<close>

text \<open>The statistics of a state are consistent: both tables have distinct keys and
  count every processed document once, and every processed document is either
  counted as updated or failed by a flush, or still waits in \<open>batch_updates\<close>.\<close>

definition stats_ok :: "run_state \<Rightarrow> bool" where
  "stats_ok st =
     (sum_list (map snd (by_category (stats st))) = processed (stats st)
      \<and> sum_list (map snd (by_access_level (stats st))) = processed (stats st)
      \<and> distinct (map fst (by_category (stats st))) \<and> distinct (map fst (by_access_level (stats st)))
      \<and> 0 \<le> updated (stats st) \<and> 0 \<le> failed (stats st)
      \<and> updated (stats st) + failed (stats st) + int (length (batch_updates st)) = int (processed (stats st)))"

text \<open>The index a result ends in, whether the run raised or returned.\<close>

definition res_index :: "run_state run_result \<Rightarrow> index" where
  "res_index r = (case r of Inl (_, i) \<Rightarrow> i | Inr st \<Rightarrow> ix st)"

definition is_search :: "request \<Rightarrow> bool" where
  "is_search q = (case q of SearchReq _ _ _ \<Rightarrow> True | _ \<Rightarrow> False)"

text \<open>\<open>i\<close> is \<open>i0\<close> after searches only: the documents and the fault schedule are the
  same and every request sent since is a search.\<close>

definition searched_only :: "index \<Rightarrow> index \<Rightarrow> bool" where
  "searched_only i0 i = (docs i = docs i0 \<and> faults i = faults i0
     \<and> (\<exists>qs. sent i = sent i0 @ qs \<and> list_all is_search qs))"

subsection \<open>Sample inputs\<close>

text \<open>Documents and runs on which the properties below are exercised.\<close>

definition sample_doc :: "string \<Rightarrow> string option \<Rightarrow> string option \<Rightarrow> string option \<Rightarrow> idx_doc" where
  "sample_doc k name path community =
     \<lparr>doc_id = k, item_name = name, item_path = path, doc_category = None, doc_access_level = None,
      doc_community = community, doc_owner_account = None, doc_classified_at = None\<rparr>"

definition sample_index :: "(nat \<times> fault) list \<Rightarrow> idx_doc list \<Rightarrow> index" where
  "sample_index fs ds = \<lparr>docs = ds, faults = fs, sent = []\<rparr>"

definition sample_cfg :: "bool \<Rightarrow> bool \<Rightarrow> int \<Rightarrow> run_cfg" where
  "sample_cfg all dry bs = \<lparr>reclassify_all = all, dry_run = dry, batch_size = bs, clock = (\<lambda>_. ''2025-01-01T00:00:00Z'')\<rparr>"

subsection \<open>Unfolding the loop\<close>

lemma page_loop_done: "\<not> skip st < int n \<Longrightarrow> page_loop cfg n st = Inr st"
  by (subst page_loop.simps) simp

lemma page_loop_step:
  "skip st < int n \<Longrightarrow> search_documents (ix st) (skip st) (batch_size cfg) (\<not> reclassify_all cfg) = (i, r) \<Longrightarrow>
   page_loop cfg n st =
     (case r of
        Inl e \<Rightarrow> Inl (e, i)
      | Inr EmptyList \<Rightarrow> Inl (ValueError, i)
      | Inr (ValueCount ds _) \<Rightarrow>
          if ds = [] then Inr (st\<lparr>ix := i\<rparr>)
          else (case process_docs cfg (st\<lparr>ix := i\<rparr>) ds of
                  Inl err \<Rightarrow> Inl err
                | Inr st2 \<Rightarrow>
                    (case maybe_flush cfg st2 of
                       Inl err \<Rightarrow> Inl err
                     | Inr st3 \<Rightarrow> page_loop cfg n (st3\<lparr>skip := skip st + batch_size cfg\<rparr>))))"
  by (subst page_loop.simps) (simp split: sum.splits search_result.splits)

text \<open>The proof rule of the loop: an invariant \<open>P\<close> kept by every non-empty page, and
  an exit property \<open>Q\<close> established by an empty page or by \<open>skip\<close> reaching the count.
  The induction is on the measure of the termination proof.\<close>

lemma page_loop_rule:
  assumes "page_loop cfg n st = Inr st'" and "P st"
    and step: "\<And>st i ds c st2 st3. P st \<Longrightarrow> skip st < int n \<Longrightarrow>
        search_documents (ix st) (skip st) (batch_size cfg) (\<not> reclassify_all cfg) = (i, Inr (ValueCount ds c)) \<Longrightarrow>
        ds \<noteq> [] \<Longrightarrow> process_docs cfg (st\<lparr>ix := i\<rparr>) ds = Inr st2 \<Longrightarrow> maybe_flush cfg st2 = Inr st3 \<Longrightarrow>
        P (st3\<lparr>skip := skip st + batch_size cfg\<rparr>)"
    and stop: "\<And>st i c. P st \<Longrightarrow> skip st < int n \<Longrightarrow>
        search_documents (ix st) (skip st) (batch_size cfg) (\<not> reclassify_all cfg) = (i, Inr (ValueCount [] c)) \<Longrightarrow>
        Q (st\<lparr>ix := i\<rparr>)"
    and finish: "\<And>st. P st \<Longrightarrow> \<not> skip st < int n \<Longrightarrow> Q st"
  shows "Q st'"
  using assms(1,2)
proof (induction "nat (int n - skip st)" arbitrary: st rule: less_induct)
  case less
  show ?case
  proof (cases "skip st < int n")
    case False
    with less.prems show ?thesis by (simp add: page_loop_done finish)
  next
    case lt: True
    obtain i r where s: "search_documents (ix st) (skip st) (batch_size cfg) (\<not> reclassify_all cfg) = (i, r)"
      by (metis prod.exhaust)
    note run = less.prems(1) [unfolded page_loop_step [OF lt s]]
    from run obtain ds c where r: "r = Inr (ValueCount ds c)"
      by (auto split: sum.splits search_result.splits)
    show ?thesis
    proof (cases "ds = []")
      case True
      with run r have "st' = st\<lparr>ix := i\<rparr>" by simp
      with True stop [OF less.prems(2) lt] s r show ?thesis by simp
    next
      case False
      with run r obtain st2 st3 where p: "process_docs cfg (st\<lparr>ix := i\<rparr>) ds = Inr st2"
        and m: "maybe_flush cfg st2 = Inr st3"
        and rec: "page_loop cfg n (st3\<lparr>skip := skip st + batch_size cfg\<rparr>) = Inr st'"
        by (auto split: sum.splits)
      have "0 < batch_size cfg" using search_nonempty_top s r False by blast
      with lt have "nat (int n - skip (st3\<lparr>skip := skip st + batch_size cfg\<rparr>)) < nat (int n - skip st)"
        by simp
      from less.hyps [OF this rec] step [OF less.prems(2) lt s [unfolded r] False p m]
      show ?thesis by simp
    qed
  qed
qed


subsection \<open>The statistics invariant\<close>

lemma stats_ok_init [simp]: "stats_ok (init_state i)"
  by (simp add: stats_ok_def init_state_def init_stats_def)

lemma stats_ok_ix_skip [simp]:
  "stats_ok (st\<lparr>ix := i\<rparr>) = stats_ok st" "stats_ok (st\<lparr>skip := k\<rparr>) = stats_ok st"
  by (simp_all add: stats_ok_def)

lemma process_doc_stats_ok:
  "process_doc cfg st d = Inr st' \<Longrightarrow> stats_ok st \<Longrightarrow> stats_ok st'"
  by (auto simp: process_doc_def stats_ok_def split: sum.splits prod.splits if_splits)

lemma process_docs_stats_ok:
  "process_docs cfg st ds = Inr st' \<Longrightarrow> stats_ok st \<Longrightarrow> stats_ok st'"
  by (induction ds arbitrary: st) (auto dest: process_doc_stats_ok split: sum.splits)

lemma flush_stats_ok: "flush st = Inr st' \<Longrightarrow> stats_ok st \<Longrightarrow> stats_ok st'"
  by (auto simp: flush_def stats_ok_def dest!: update_documents_batch_counts split: prod.splits sum.splits)

lemma maybe_flush_stats_ok: "maybe_flush cfg st = Inr st' \<Longrightarrow> stats_ok st \<Longrightarrow> stats_ok st'"
  by (auto simp: maybe_flush_def dest: flush_stats_ok split: if_splits)

lemma final_flush_stats_ok: "final_flush cfg st = Inr st' \<Longrightarrow> stats_ok st \<Longrightarrow> stats_ok st'"
  by (auto simp: final_flush_def dest: flush_stats_ok split: if_splits)

lemma page_loop_stats_ok: "page_loop cfg n st = Inr st' \<Longrightarrow> stats_ok st \<Longrightarrow> stats_ok st'"
  by (erule page_loop_rule [where P = stats_ok])
     (auto dest: process_docs_stats_ok maybe_flush_stats_ok)

lemma flush_empties: "flush st = Inr st' \<Longrightarrow> batch_updates st' = []"
  by (auto simp: flush_def split: prod.splits sum.splits)

lemma final_flush_live: "final_flush cfg st = Inr st' \<Longrightarrow> \<not> dry_run cfg \<Longrightarrow> batch_updates st' = []"
  by (auto simp: final_flush_def dest: flush_empties split: if_splits)

lemma run_classification_Completed:
  "run_classification cfg ix0 = Inr (Completed st) \<Longrightarrow>
   \<exists>i n st1. page_loop cfg n (init_state i) = Inr st1 \<and> final_flush cfg st1 = Inr st"
  by (auto simp: run_classification_def split: prod.splits sum.splits search_result.splits if_splits)

lemma run_classification_stats_ok:
  "run_classification cfg ix0 = Inr (Completed st) \<Longrightarrow> stats_ok st"
  by (auto dest!: run_classification_Completed page_loop_stats_ok intro: final_flush_stats_ok)

end
