(* ===== verification/Runs.thy ===== *)
theory Runs
  imports Orchestrator
begin

text \<open>
  Properties of \<open>run_classification\<close> and of the update built for one document:
  owner-account gating, community preservation and well-formedness of an update; the
  statistics tables and the live accounting of a completed run; dry-run non-mutation;
  the \<open>ValueError\<close> after a search error; completeness over the whole index; the
  documents skipped in the unclassified-only scope; the bound on the pages of the loop.
  The proofs use the loop rule and the invariants of \<open>Orchestrator\<close>.
\<close>

subsection \<open>Properties of one document's update\<close>

text \<open>C11. Owner-account gating: an update carries an owner account only when the
  document was classified into an \<open>owner_\<close> category, and the category it carries is
  the classification.\<close>

theorem build_update_owner_gated:
  assumes "build_update cfg k d = Inr (u, c, l)" and "upd_owner u \<noteq> None"
  shows "upd_category u = c \<and> py_startswith c ''owner_''"
  using assms
  by (auto simp: build_update_def truthy_def split: sum.splits prod.splits if_splits)

theorem build_update_owner_gated_witness:
  "upd_owner (fst (projr (build_update (sample_cfg False False 100) 0
       (sample_doc ''1'' (Some ''R0460131L0199873.pdf'') (Some ''/Statements/'') None))))
     = Some ''R0460131L0199873''
   \<and> py_startswith ''owner_statement'' ''owner_''"
proof -
  let ?u = "\<lparr>upd_id = Some ''1'', upd_category = ''owner_statement'', upd_level = ''owner_only'',
             upd_classified_at = ''2025-01-01T00:00:00Z'', upd_community = None,
             upd_owner = Some ''R0460131L0199873''\<rparr>"
  have h: "build_update (sample_cfg False False 100) 0
       (sample_doc ''1'' (Some ''R0460131L0199873.pdf'') (Some ''/Statements/'') None)
     = Inr (?u, ''owner_statement'', owner_only)"
    unfolding sample_cfg_def sample_doc_def by code_simp
  have "upd_owner ?u \<noteq> None" by simp
  from build_update_owner_gated [OF h this] h show ?thesis by simp
qed

text \<open>C12. Community preservation: after the update is merged, the document's
  community is the extracted name when one is found and the stored one otherwise
  (\<open>extract_community_name(path) or doc.get('community_name')\<close>, written only when
  truthy); a stored community is never erased.\<close>

theorem build_update_community:
  assumes "build_update cfg k d = Inr (u, c, l)"
    and "extract_community_name (item_path d) = Inr ext"
  shows "doc_community (apply_update u d) = py_or ext (doc_community d)"
  using assms
  by (auto simp: build_update_def apply_update_def truthy_def py_or_def
           split: sum.splits prod.splits option.splits if_splits)

theorem build_update_community_witness:
  "doc_community (apply_update (fst (projr (build_update (sample_cfg False False 100) 0
       (sample_doc ''1'' (Some ''minutes.pdf'') None (Some ''Falcon Pointe'')))))
     (sample_doc ''1'' (Some ''minutes.pdf'') None (Some ''Falcon Pointe''))) = Some ''Falcon Pointe''"
proof -
  let ?d = "sample_doc ''1'' (Some ''minutes.pdf'') None (Some ''Falcon Pointe'')"
  let ?u = "\<lparr>upd_id = Some ''1'', upd_category = ''community_minutes'', upd_level = ''community_public'',
             upd_classified_at = ''2025-01-01T00:00:00Z'', upd_community = Some ''Falcon Pointe'',
             upd_owner = None\<rparr>"
  have h: "build_update (sample_cfg False False 100) 0 ?d = Inr (?u, ''community_minutes'', community_public)"
    unfolding sample_cfg_def sample_doc_def by code_simp
  have e: "extract_community_name (item_path ?d) = Inr None"
    by (simp add: sample_doc_def extract_community_name_def)
  from build_update_community [OF h e] h show ?thesis by (simp add: sample_doc_def py_or_def)
qed


subsection \<open>Properties of a completed run\<close>

lemma run_classification_Completed_ex:
  "(case r of Inr (Completed st) \<Rightarrow> P st | _ \<Rightarrow> False) \<Longrightarrow> \<exists>st. r = Inr (Completed st) \<and> P st"
  by (auto split: sum.splits outcome.splits)

text \<open>C13. The statistics tables of a completed run are consistent: their keys are
  distinct and each table's counts add up to the number of documents processed, so the
  report lists every processed document once per table.\<close>

theorem run_classification_tables:
  assumes "run_classification cfg ix0 = Inr (Completed st)"
  shows "sum_list (map snd (by_category (stats st))) = processed (stats st)
    \<and> sum_list (map snd (by_access_level (stats st))) = processed (stats st)
    \<and> distinct (map fst (by_category (stats st))) \<and> distinct (map fst (by_access_level (stats st)))"
  using run_classification_stats_ok [OF assms] by (simp add: stats_ok_def)

theorem run_classification_tables_witness:
  "\<exists>st. run_classification (sample_cfg True False 1)
          (sample_index [] [sample_doc ''1'' (Some ''budget.pdf'') None None,
                            sample_doc ''2'' (Some ''audit 2024.pdf'') None None])
        = Inr (Completed st)
     \<and> by_category (stats st) = [(''board_financial'', 2)] \<and> processed (stats st) = 2
     \<and> sum_list (map snd (by_category (stats st))) = processed (stats st)
     \<and> sum_list (map snd (by_access_level (stats st))) = processed (stats st)
     \<and> distinct (map fst (by_category (stats st))) \<and> distinct (map fst (by_access_level (stats st)))"
proof -
  have "case run_classification (sample_cfg True False 1)
          (sample_index [] [sample_doc ''1'' (Some ''budget.pdf'') None None,
                            sample_doc ''2'' (Some ''audit 2024.pdf'') None None])
        of Inr (Completed st) \<Rightarrow> by_category (stats st) = [(''board_financial'', 2)] \<and> processed (stats st) = 2
         | _ \<Rightarrow> False"
    unfolding sample_cfg_def sample_index_def sample_doc_def by code_simp
  then obtain st where r: "run_classification (sample_cfg True False 1)
          (sample_index [] [sample_doc ''1'' (Some ''budget.pdf'') None None,
                            sample_doc ''2'' (Some ''audit 2024.pdf'') None None]) = Inr (Completed st)"
    and c: "by_category (stats st) = [(''board_financial'', 2)] \<and> processed (stats st) = 2"
    by (blast dest: run_classification_Completed_ex)
  show ?thesis using run_classification_tables [OF r] r c by blast
qed

text \<open>C14. Accounting of a live run: when a run that is not a dry run completes, every
  processed document has been sent in a batch and counted once, as updated or as
  failed (\<open>updated + failed = processed\<close>), and neither count is negative.\<close>

theorem run_classification_live_accounting:
  assumes "\<not> dry_run cfg" and "run_classification cfg ix0 = Inr (Completed st)"
  shows "updated (stats st) + failed (stats st) = int (processed (stats st))
    \<and> 0 \<le> updated (stats st) \<and> 0 \<le> failed (stats st)"
proof -
  obtain i n st1 where "page_loop cfg n (init_state i) = Inr st1" and f: "final_flush cfg st1 = Inr st"
    using run_classification_Completed [OF assms(2)] by blast
  have "batch_updates st = []" using final_flush_live [OF f assms(1)] .
  with run_classification_stats_ok [OF assms(2)] show ?thesis by (simp add: stats_ok_def)
qed

theorem run_classification_live_accounting_witness:
  "\<exists>st. run_classification (sample_cfg True False 1)
          (sample_index [(4, HttpStatus 503)] [sample_doc ''1'' (Some ''budget.pdf'') None None,
                                              sample_doc ''2'' (Some ''minutes.pdf'') None None])
        = Inr (Completed st)
     \<and> updated (stats st) = 1 \<and> failed (stats st) = 1 \<and> processed (stats st) = 2
     \<and> updated (stats st) + failed (stats st) = int (processed (stats st))
     \<and> 0 \<le> updated (stats st) \<and> 0 \<le> failed (stats st)"
proof -
  have "\<not> dry_run (sample_cfg True False 1)" by (simp add: sample_cfg_def)
  moreover have "case run_classification (sample_cfg True False 1)
          (sample_index [(4, HttpStatus 503)] [sample_doc ''1'' (Some ''budget.pdf'') None None,
                                              sample_doc ''2'' (Some ''minutes.pdf'') None None])
        of Inr (Completed st) \<Rightarrow> updated (stats st) = 1 \<and> failed (stats st) = 1 \<and> processed (stats st) = 2
         | _ \<Rightarrow> False"
    unfolding sample_cfg_def sample_index_def sample_doc_def by code_simp
  then obtain st where r: "run_classification (sample_cfg True False 1)
          (sample_index [(4, HttpStatus 503)] [sample_doc ''1'' (Some ''budget.pdf'') None None,
                                              sample_doc ''2'' (Some ''minutes.pdf'') None None]) = Inr (Completed st)"
    and c: "updated (stats st) = 1 \<and> failed (stats st) = 1 \<and> processed (stats st) = 2"
    by (blast dest: run_classification_Completed_ex)
  ultimately show ?thesis using run_classification_live_accounting [OF _ r] c by blast
qed


subsection \<open>Dry runs\<close>

lemma searched_only_refl [simp]: "searched_only i i"
  by (auto simp: searched_only_def intro: exI [of _ "[]"])

lemma searched_only_trans: "searched_only a b \<Longrightarrow> searched_only b c \<Longrightarrow> searched_only a c"
  by (auto simp: searched_only_def)

lemma search_documents_searched: "searched_only i (fst (search_documents i sk tp u))"
  by (auto simp: searched_only_def search_documents_def send_def Let_def is_search_def)

lemma process_doc_index: "res_index (process_doc cfg st d) = ix st"
  by (auto simp: process_doc_def res_index_def split: sum.splits prod.splits)

lemma process_docs_index: "res_index (process_docs cfg st ds) = ix st"
proof (induction ds arbitrary: st)
  case (Cons d ds)
  show ?case
  proof (cases "process_doc cfg st d")
    case (Inl err)
    then show ?thesis using process_doc_index [of cfg st d] by simp
  next
    case (Inr st')
    then have "ix st' = ix st" using process_doc_index [of cfg st d] by (simp add: res_index_def)
    with Inr Cons.IH [of st'] show ?thesis by simp
  qed
qed (simp add: res_index_def)

lemma maybe_flush_dry: "dry_run cfg \<Longrightarrow> maybe_flush cfg st = Inr st"
  by (simp add: maybe_flush_def)

lemma page_loop_dry:
  "dry_run cfg \<Longrightarrow> searched_only (ix st) (res_index (page_loop cfg n st))"
proof (induction "nat (int n - skip st)" arbitrary: st rule: less_induct)
  case less
  show ?case
  proof (cases "skip st < int n")
    case False
    then show ?thesis by (simp add: page_loop_done res_index_def)
  next
    case lt: True
    obtain i r where s: "search_documents (ix st) (skip st) (batch_size cfg) (\<not> reclassify_all cfg) = (i, r)"
      by (metis prod.exhaust)
    have si: "searched_only (ix st) i"
      using search_documents_searched [of "ix st" "skip st" "batch_size cfg" "\<not> reclassify_all cfg"] s by simp
    note step = page_loop_step [OF lt s]
    show ?thesis
    proof (cases "\<exists>ds c. r = Inr (ValueCount ds c) \<and> ds \<noteq> []")
      case False
      with si show ?thesis
        by (auto simp: step res_index_def split: sum.splits search_result.splits)
    next
      case True
      then obtain ds c where r: "r = Inr (ValueCount ds c)" and ne: "ds \<noteq> []" by blast
      show ?thesis
      proof (cases "process_docs cfg (st\<lparr>ix := i\<rparr>) ds")
        case (Inl err)
        with si r ne process_docs_index [of cfg "st\<lparr>ix := i\<rparr>" ds] show ?thesis
          by (simp add: step res_index_def)
      next
        case (Inr st2)
        then have i2: "ix st2 = i" using process_docs_index [of cfg "st\<lparr>ix := i\<rparr>" ds] by (simp add: res_index_def)
        have "0 < batch_size cfg" using search_nonempty_top s r ne by blast
        with lt have dec: "nat (int n - skip (st2\<lparr>skip := skip st + batch_size cfg\<rparr>)) < nat (int n - skip st)"
          by simp
        let ?st4 = "st2\<lparr>skip := skip st + batch_size cfg\<rparr>"
        have "maybe_flush cfg st2 = Inr st2" using less.prems by (rule maybe_flush_dry)
        then have eq: "page_loop cfg n st = page_loop cfg n ?st4" using Inr r ne by (simp add: step)
        have "searched_only (ix ?st4) (res_index (page_loop cfg n ?st4))"
          using less.hyps [OF dec less.prems] .
        then have "searched_only i (res_index (page_loop cfg n st))" using i2 eq by simp
        with si show ?thesis by (rule searched_only_trans)
      qed
    qed
  qed
qed

text \<open>C15. A dry run never writes: whatever its outcome, including an exception part
  way through, the index ends with the documents it started with, and every request
  the run sent is a search.\<close>

theorem run_classification_dry_run:
  assumes "dry_run cfg"
  shows "docs (outcome_index (run_classification cfg ix0)) = docs ix0
    \<and> (\<exists>qs. sent (outcome_index (run_classification cfg ix0)) = sent ix0 @ qs \<and> list_all is_search qs)"
proof -
  obtain i r where s: "search_documents ix0 0 1 (\<not> reclassify_all cfg) = (i, r)" by (metis prod.exhaust)
  have si: "searched_only ix0 i"
    using search_documents_searched [of ix0 0 1 "\<not> reclassify_all cfg"] s by simp
  have pl: "searched_only ix0 (res_index p)" if "page_loop cfg n (init_state i) = p" for n p
    using page_loop_dry [OF assms, where n = n and st = "init_state i"] that si
    by (auto simp: init_state_def intro: searched_only_trans)
  have "searched_only ix0 (outcome_index (run_classification cfg ix0))"
    using si assms
    by (auto simp: run_classification_def s outcome_index_def final_flush_def
             split: sum.splits search_result.splits dest!: pl simp: res_index_def)
  then show ?thesis by (simp add: searched_only_def)
qed

theorem run_classification_dry_run_witness:
  "sent (outcome_index (run_classification (sample_cfg False True 2)
          (sample_index [] [sample_doc ''1'' (Some ''budget.pdf'') None None])))
     = [SearchReq 0 1 True, SearchReq 0 2 True]
   \<and> docs (outcome_index (run_classification (sample_cfg False True 2)
          (sample_index [] [sample_doc ''1'' (Some ''budget.pdf'') None None])))
     = [sample_doc ''1'' (Some ''budget.pdf'') None None]"
proof -
  have "dry_run (sample_cfg False True 2)" by (simp add: sample_cfg_def)
  from run_classification_dry_run [OF this,
      of "sample_index [] [sample_doc ''1'' (Some ''budget.pdf'') None None]"]
  have "docs (outcome_index (run_classification (sample_cfg False True 2)
          (sample_index [] [sample_doc ''1'' (Some ''budget.pdf'') None None])))
     = [sample_doc ''1'' (Some ''budget.pdf'') None None]"
    by (simp add: sample_index_def)
  moreover have "sent (outcome_index (run_classification (sample_cfg False True 2)
          (sample_index [] [sample_doc ''1'' (Some ''budget.pdf'') None None])))
     = [SearchReq 0 1 True, SearchReq 0 2 True]"
    unfolding sample_cfg_def sample_index_def sample_doc_def by code_simp
  ultimately show ?thesis by simp
qed

subsection \<open>Errors of the search service\<close>

text \<open>C16. An HTTP error on the first search ends the run with \<open>ValueError\<close>:
  \<open>search_documents\<close> returns the bare list \<open>[]\<close> on a non-200 status, and the caller's
  \<open>_, total_count = ...\<close> cannot unpack it.  The spec's "returns an empty list" is
  not an empty result to the caller.\<close>

theorem run_classification_http_error:
  assumes "fault_of ix0 = Some (HttpStatus c)" and "c \<noteq> 200"
  shows "run_classification cfg ix0 = Inl (ValueError, send (SearchReq 0 1 (\<not> reclassify_all cfg)) ix0)"
  using assms by (simp add: run_classification_def search_documents_def svc_search_def)

theorem run_classification_http_error_witness:
  "run_classification (sample_cfg True False 100) (sample_index [(0, HttpStatus 503)] [])
     = Inl (ValueError, \<lparr>docs = [], faults = [(0, HttpStatus 503)], sent = [SearchReq 0 1 False]\<rparr>)"
proof -
  have "fault_of (sample_index [(0, HttpStatus 503)] []) = Some (HttpStatus 503)"
    by (simp add: fault_of_def sample_index_def)
  from run_classification_http_error [OF this] show ?thesis
    by (simp add: sample_cfg_def sample_index_def send_def)
qed


subsection \<open>Runs over the whole index\<close>

lemma search_documents_all:
  "faults i = [] \<Longrightarrow> 0 \<le> sk \<Longrightarrow> 0 \<le> tp \<Longrightarrow>
   search_documents i sk tp False =
     (send (SearchReq sk tp False) i, Inr (ValueCount (take (nat tp) (drop (nat sk) (docs i))) (length (docs i))))"
  by (simp add: search_documents_def svc_search_def fault_of_def scope_def Let_def)

lemma build_update_named:
  assumes "item_name d \<noteq> None"
  shows "\<exists>u c l. build_update cfg k d = Inr (u, c, l)"
proof -
  obtain cl where cl: "classify_document (item_path d) (item_name d) = Inr cl"
    using classify_document_never_raises by blast
  have "\<exists>ext. extract_community_name (item_path d) = Inr ext"
    using first_group_match_community [of "the (item_path d)"]
    by (auto simp: extract_community_name_def split: option.splits sum.splits)
  then obtain ext where ext: "extract_community_name (item_path d) = Inr ext" ..
  obtain own where own: "extract_owner_account (item_name d) (item_path d) = Inr own"
    using extract_owner_account_named [OF assms] by blast
  show ?thesis using cl ext own by (auto simp: build_update_def split: prod.splits)
qed

lemma process_docs_named:
  "\<forall>d \<in> set ds. item_name d \<noteq> None \<Longrightarrow>
   \<exists>st'. process_docs cfg st ds = Inr st' \<and> processed (stats st') = processed (stats st) + length ds
     \<and> ix st' = ix st \<and> skip st' = skip st"
proof (induction ds arbitrary: st)
  case (Cons d ds)
  obtain u c l where "build_update cfg (processed (stats st)) d = Inr (u, c, l)"
    using build_update_named Cons.prems by (meson list.set_intros(1))
  then obtain st1 where p: "process_doc cfg st d = Inr st1" and "processed (stats st1) = Suc (processed (stats st))"
    and "ix st1 = ix st" and "skip st1 = skip st"
    using Cons.prems by (simp add: process_doc_def)
  with Cons.IH [of st1] Cons.prems show ?case by (auto simp: p)
qed simp

lemma merge_items_names: "map item_name (fst (merge_items ds us)) = map item_name ds"
  by (induction ds us rule: merge_items.induct)
     (auto simp: merge_item_def comp_def split: prod.splits option.splits if_splits)

lemma flush_fault_free:
  assumes "faults (ix st) = []"
  shows "\<exists>st'. flush st = Inr st' \<and> faults (ix st') = []
     \<and> map item_name (docs (ix st')) = map item_name (docs (ix st))
     \<and> processed (stats st') = processed (stats st) \<and> skip st' = skip st"
proof -
  obtain ds oks where m: "merge_items (docs (ix st)) (batch_updates st) = (ds, oks)" by (metis prod.exhaust)
  have "svc_index (ix st) (batch_updates st) = Inr ((ix st)\<lparr>docs := ds\<rparr>, if list_all id oks then 200 else 207, oks)"
    using assms m by (simp add: svc_index_fault_free fault_of_def)
  moreover have "map item_name ds = map item_name (docs (ix st))"
    using merge_items_names [of "docs (ix st)" "batch_updates st"] m by simp
  ultimately show ?thesis using assms
    by (auto simp: flush_def update_documents_batch_def send_def Let_def)
qed

lemma maybe_flush_fault_free:
  "faults (ix st) = [] \<Longrightarrow>
   \<exists>st'. maybe_flush cfg st = Inr st' \<and> faults (ix st') = []
     \<and> map item_name (docs (ix st')) = map item_name (docs (ix st))
     \<and> processed (stats st') = processed (stats st) \<and> skip st' = skip st"
  using flush_fault_free [of st] by (auto simp: maybe_flush_def)

lemma final_flush_fault_free:
  "faults (ix st) = [] \<Longrightarrow> \<exists>st'. final_flush cfg st = Inr st' \<and> processed (stats st') = processed (stats st)"
  using flush_fault_free [of st] by (auto simp: final_flush_def)


lemma page_loop_complete:
  assumes "reclassify_all cfg" and "0 < batch_size cfg"
  shows "faults (ix st) = [] \<Longrightarrow> map item_name (docs (ix st)) = ns \<Longrightarrow> None \<notin> set ns \<Longrightarrow>
    length ns = n \<Longrightarrow> 0 \<le> skip st \<Longrightarrow> processed (stats st) = min (nat (skip st)) n \<Longrightarrow>
    \<exists>st'. page_loop cfg n st = Inr st' \<and> processed (stats st') = n \<and> faults (ix st') = []"
proof (induction "nat (int n - skip st)" arbitrary: st rule: less_induct)
  case less
  show ?case
  proof (cases "skip st < int n")
    case False
    then have "processed (stats st) = n" using less.prems(6) by simp
    with False less.prems(1) show ?thesis by (simp add: page_loop_done)
  next
    case lt: True
    let ?page = "take (nat (batch_size cfg)) (drop (nat (skip st)) (docs (ix st)))"
    let ?i = "send (SearchReq (skip st) (batch_size cfg) False) (ix st)"
    have s: "search_documents (ix st) (skip st) (batch_size cfg) (\<not> reclassify_all cfg)
               = (?i, Inr (ValueCount ?page (length (docs (ix st)))))"
      using search_documents_all [OF less.prems(1) less.prems(5)] assms by simp
    have len: "length (docs (ix st)) = n" using less.prems(2,4) by (metis length_map)
    have ne: "?page \<noteq> []" using lt len assms(2) less.prems(5) by simp
    have "\<forall>d \<in> set (docs (ix st)). item_name d \<noteq> None"
      using less.prems(2,3) by (metis imageI list.set_map)
    then have named: "\<forall>d \<in> set ?page. item_name d \<noteq> None"
      by (blast dest: in_set_takeD in_set_dropD)
    obtain st2 where p: "process_docs cfg (st\<lparr>ix := ?i\<rparr>) ?page = Inr st2"
      and p2: "processed (stats st2) = processed (stats st) + length ?page"
      and i2: "ix st2 = ?i"
      using process_docs_named [OF named, of cfg "st\<lparr>ix := ?i\<rparr>"] by auto
    obtain st3 where m: "maybe_flush cfg st2 = Inr st3" and f3: "faults (ix st3) = []"
      and n3: "map item_name (docs (ix st3)) = ns" and p3: "processed (stats st3) = processed (stats st2)"
      using maybe_flush_fault_free [of st2 cfg] less.prems(1,2) i2 by (auto simp: send_def)
    let ?st4 = "st3\<lparr>skip := skip st + batch_size cfg\<rparr>"
    have dec: "nat (int n - skip ?st4) < nat (int n - skip st)" using lt assms(2) by simp
    have "processed (stats ?st4) = min (nat (skip ?st4)) n"
      using p2 p3 less.prems(5,6) lt len assms(2) by (simp add: min_def nat_add_distrib) arith
    moreover have "0 \<le> skip ?st4" using less.prems(5) assms(2) by simp
    ultimately obtain st' where "page_loop cfg n ?st4 = Inr st'" "processed (stats st') = n" "faults (ix st') = []"
      using less.hyps [OF dec] f3 n3 less.prems(3,4) by fastforce
    then show ?thesis using ne p m by (simp add: page_loop_step [OF lt s])
  qed
qed

text \<open>C17. A run over the whole index (\<open>--all\<close>) processes every document: when the
  service answers every request, the batch size is positive and every document has a
  name, the run completes and \<open>processed\<close> is the number of documents in the index.
  Here the updates do not move documents out of the searched scope, so the pages
  advance over a fixed list.\<close>

theorem run_classification_complete:
  assumes "reclassify_all cfg" and "0 < batch_size cfg" and "faults ix0 = []"
    and "\<forall>d \<in> set (docs ix0). item_name d \<noteq> None" and "docs ix0 \<noteq> []"
  shows "\<exists>st. run_classification cfg ix0 = Inr (Completed st) \<and> processed (stats st) = length (docs ix0)"
proof -
  let ?i = "send (SearchReq 0 1 False) ix0"
  have s: "search_documents ix0 0 1 (\<not> reclassify_all cfg)
             = (?i, Inr (ValueCount (take 1 (docs ix0)) (length (docs ix0))))"
    using search_documents_all [OF assms(3)] assms(1) by simp
  have "None \<notin> set (map item_name (docs ix0))" using assms(4) by auto
  then obtain st1 where pl: "page_loop cfg (length (docs ix0)) (init_state ?i) = Inr st1"
    and p1: "processed (stats st1) = length (docs ix0)" and f1: "faults (ix st1) = []"
    using page_loop_complete [OF assms(1,2), of "init_state ?i" "map item_name (docs ix0)" "length (docs ix0)"] assms(3)
    by (auto simp: init_state_def init_stats_def send_def)
  obtain st where "final_flush cfg st1 = Inr st" "processed (stats st) = processed (stats st1)"
    using final_flush_fault_free [OF f1] by blast
  with pl p1 s assms(5) show ?thesis by (simp add: run_classification_def)
qed

theorem run_classification_complete_witness:
  "\<exists>st. run_classification (sample_cfg True False 2)
          (sample_index [] [sample_doc ''1'' (Some ''a.pdf'') None None, sample_doc ''2'' (Some ''b.pdf'') None None,
                            sample_doc ''3'' (Some ''c.pdf'') None None])
        = Inr (Completed st) \<and> processed (stats st) = 3"
  using run_classification_complete [of "sample_cfg True False 2"
      "sample_index [] [sample_doc ''1'' (Some ''a.pdf'') None None, sample_doc ''2'' (Some ''b.pdf'') None None,
                        sample_doc ''3'' (Some ''c.pdf'') None None]"]
  by (simp add: sample_cfg_def sample_index_def sample_doc_def numeral_3_eq_3)


subsection \<open>Runs over the unclassified documents\<close>

text \<open>A computation behind a finding.  Paging over a shrinking scope skips documents.  In the default mode
  (unclassified only, live) every flush removes the written documents from the
  filtered result set, but \<open>skip\<close> still advances by \<open>batch_size\<close>: with five
  unclassified documents and batches of two, the live run completes having processed
  three documents, the third and fourth stay unclassified, and it sends two writes
  (of two and one updates) where the pages of the spec would give three.  A dry run
  over the same index processes all five, so its tables are not those of the live run.\<close>

lemma run_classification_unclassified_skips:
  "\<exists>st. run_classification (sample_cfg False False 2)
          (sample_index [] (map (\<lambda>k. sample_doc k (Some ''a.pdf'') None None) [''1'', ''2'', ''3'', ''4'', ''5'']))
        = Inr (Completed st)
     \<and> processed (stats st) = 3
     \<and> map doc_category (docs (ix st))
         = [Some ''uncategorized'', Some ''uncategorized'', None, None, Some ''uncategorized'']
     \<and> map (\<lambda>q. case q of IndexReq us \<Rightarrow> length us | _ \<Rightarrow> 0) (filter (Not \<circ> is_search) (sent (ix st))) = [2, 1]
   \<and> (\<exists>st'. run_classification (sample_cfg False True 2)
          (sample_index [] (map (\<lambda>k. sample_doc k (Some ''a.pdf'') None None) [''1'', ''2'', ''3'', ''4'', ''5'']))
        = Inr (Completed st') \<and> processed (stats st') = 5)"
proof -
  have h1: "case run_classification (sample_cfg False False 2)
          (sample_index [] (map (\<lambda>k. sample_doc k (Some ''a.pdf'') None None) [''1'', ''2'', ''3'', ''4'', ''5'']))
        of Inr (Completed st) \<Rightarrow> processed (stats st) = 3
             \<and> map doc_category (docs (ix st))
                 = [Some ''uncategorized'', Some ''uncategorized'', None, None, Some ''uncategorized'']
             \<and> map (\<lambda>q. case q of IndexReq us \<Rightarrow> length us | _ \<Rightarrow> 0) (filter (Not \<circ> is_search) (sent (ix st))) = [2, 1]
         | _ \<Rightarrow> False"
    unfolding sample_cfg_def sample_index_def sample_doc_def is_search_def by code_simp
  have h2: "case run_classification (sample_cfg False True 2)
          (sample_index [] (map (\<lambda>k. sample_doc k (Some ''a.pdf'') None None) [''1'', ''2'', ''3'', ''4'', ''5'']))
        of Inr (Completed st) \<Rightarrow> processed (stats st) = 5
         | _ \<Rightarrow> False"
    unfolding sample_cfg_def sample_index_def sample_doc_def by code_simp
  show ?thesis
    using run_classification_Completed_ex [OF h1] run_classification_Completed_ex [OF h2] by auto
qed


subsection \<open>How long the loop runs\<close>

lemma pages_step:
  fixes n s b :: int
  assumes "0 < b" and "s < n"
  shows "nat ((n - s + b - 1) div b) = Suc (nat ((n - (s + b) + b - 1) div b))"
proof -
  let ?y = "n - s - 1"
  have e1: "n - s + b - 1 = ?y + b" and e2: "n - (s + b) + b - 1 = ?y" by simp_all
  have "0 \<le> ?y div b" using assms by (simp add: pos_imp_zdiv_nonneg_iff)
  moreover have "(?y + b) div b = ?y div b + 1" using assms by (simp only: div_add_self2)
  ultimately show ?thesis unfolding e1 e2 by simp
qed

lemma maybe_flush_sent:
  "length (sent (res_index (maybe_flush cfg st))) \<le> Suc (length (sent (ix st)))"
  using update_documents_batch_sent [of "ix st" "batch_updates st"]
  by (auto simp: maybe_flush_def flush_def res_index_def split: prod.splits sum.splits)

lemma process_docs_Inl_index: "process_docs cfg st ds = Inl (e, j) \<Longrightarrow> j = ix st"
  using process_docs_index [of cfg st ds] by (simp add: res_index_def)

text \<open>C22. The loop stops after at most \<open>\<lceil>(total_count - skip) / batch_size\<rceil>\<close>
  pages, and sends at most two requests per page (the search and one flush), whatever
  the service answers, exceptions included.\<close>

theorem page_loop_requests:
  assumes "0 < batch_size cfg"
  shows "length (sent (res_index (page_loop cfg n st)))
           \<le> length (sent (ix st)) + 2 * nat ((int n - skip st + batch_size cfg - 1) div batch_size cfg)"
proof (induction "nat (int n - skip st)" arbitrary: st rule: less_induct)
  case less
  let ?B = "\<lambda>st. nat ((int n - skip st + batch_size cfg - 1) div batch_size cfg)"
  show ?case
  proof (cases "skip st < int n")
    case False
    then show ?thesis by (simp add: page_loop_done res_index_def)
  next
    case lt: True
    obtain i r where s: "search_documents (ix st) (skip st) (batch_size cfg) (\<not> reclassify_all cfg) = (i, r)"
      by (metis prod.exhaust)
    have si: "length (sent i) = Suc (length (sent (ix st)))"
      using search_documents_sent [of "ix st" "skip st" "batch_size cfg" "\<not> reclassify_all cfg"] s
      by (simp add: send_def)
    let ?st' = "\<lambda>st3. st3\<lparr>skip := skip st + batch_size cfg\<rparr>"
    have B: "?B st = Suc (?B (?st' st3))" for st3
      using pages_step [OF assms lt] by simp
    note step = page_loop_step [OF lt s]
    show ?thesis
    proof (cases "\<exists>ds c st2 st3. r = Inr (ValueCount ds c) \<and> ds \<noteq> []
                    \<and> process_docs cfg (st\<lparr>ix := i\<rparr>) ds = Inr st2 \<and> maybe_flush cfg st2 = Inr st3")
      case True
      then obtain ds c st2 st3 where r: "r = Inr (ValueCount ds c)" and ne: "ds \<noteq> []"
        and p: "process_docs cfg (st\<lparr>ix := i\<rparr>) ds = Inr st2" and m: "maybe_flush cfg st2 = Inr st3"
        by blast
      have "ix st2 = i" using process_docs_index [of cfg "st\<lparr>ix := i\<rparr>" ds] p by (simp add: res_index_def)
      then have f: "length (sent (ix st3)) \<le> Suc (length (sent i))"
        using maybe_flush_sent [of cfg st2] m by (simp add: res_index_def)
      have dec: "nat (int n - skip (?st' st3)) < nat (int n - skip st)" using lt assms by simp
      have "length (sent (res_index (page_loop cfg n (?st' st3)))) \<le> length (sent (ix st3)) + 2 * ?B (?st' st3)"
        using less.hyps [OF dec] by simp
      moreover have "page_loop cfg n st = page_loop cfg n (?st' st3)" using r ne p m by (simp add: step)
      ultimately show ?thesis using f si B [of st3] by simp
    next
      case False
      have "length (sent (res_index (page_loop cfg n st))) \<le> Suc (Suc (length (sent (ix st))))"
      proof (cases "\<exists>ds c st2. r = Inr (ValueCount ds c) \<and> ds \<noteq> [] \<and> process_docs cfg (st\<lparr>ix := i\<rparr>) ds = Inr st2")
        case True
        then obtain ds c st2 where r: "r = Inr (ValueCount ds c)" and ne: "ds \<noteq> []"
          and p: "process_docs cfg (st\<lparr>ix := i\<rparr>) ds = Inr st2" by blast
        with False obtain err where m: "maybe_flush cfg st2 = Inl err" by (cases "maybe_flush cfg st2") auto
        have "ix st2 = i" using process_docs_index [of cfg "st\<lparr>ix := i\<rparr>" ds] p by (simp add: res_index_def)
        then have "length (sent (res_index (Inl err))) \<le> Suc (length (sent i))"
          using maybe_flush_sent [of cfg st2] m by simp
        then show ?thesis using r ne p m si by (simp add: step)
      next
        case False
        then have "res_index (page_loop cfg n st) = i"
          by (auto simp: step res_index_def dest: process_docs_Inl_index split: sum.splits search_result.splits)
        then show ?thesis using si by simp
      qed
      then show ?thesis using B [of st] by simp
    qed
  qed
qed

theorem page_loop_requests_witness:
  "length (sent (res_index (page_loop (sample_cfg False False 2) 5
      (init_state (sample_index [] (map (\<lambda>k. sample_doc k (Some ''a.pdf'') None None) [''1'', ''2'', ''3'', ''4'', ''5''])))))) \<le> 6"
  using page_loop_requests [of "sample_cfg False False 2" 5
      "init_state (sample_index [] (map (\<lambda>k. sample_doc k (Some ''a.pdf'') None None) [''1'', ''2'', ''3'', ''4'', ''5'']))"]
  by (simp add: sample_cfg_def init_state_def sample_index_def)

end
