(* ===== verification/Answers.thy ===== *)
theory Answers
  imports PyRegex "HOL-Library.Sublist"
begin

text \<open>
  The pure helpers of \<open>src/src/optimized_extraction.py\<close>, the answer-extraction module:
  the keyword tables \<open>STOP_WORDS\<close>, \<open>FOLLOW_UP_SUGGESTIONS\<close> and
  \<open>CATEGORY_KEYWORDS\<close>, \<open>detect_query_category\<close>, \<open>get_follow_up_questions\<close>,
  \<open>calculate_confidence_score\<close>, \<open>build_document_context\<close> and
  \<open>generate_not_found_response\<close>.  Dictionaries are association lists in their
  literal order (the order \<open>dict.items()\<close> and \<open>max\<close> see); a JSON field read with
  \<open>dict.get\<close> is a \<open>jval\<close>: absent, \<open>null\<close> or a string.  The HTTP call to the
  language model (\<open>extract_answer_with_claude_v2\<close>) is not modelled.
\<close>

subsection \<open>Python string operations used here\<close>

text \<open>\<open>needle in haystack\<close> on strings: a substring test.\<close>

fun py_contains :: "string \<Rightarrow> string \<Rightarrow> bool" where
  "py_contains n [] = (n = [])"
| "py_contains n (c # s) = (py_startswith (c # s) n \<or> py_contains n s)"

text \<open>\<open>str.split()\<close> without arguments: the maximal runs of non-whitespace.\<close>

function py_split :: "string \<Rightarrow> string list" where
  "py_split s =
     (let t = dropWhile py_isspace s
      in if t = [] then [] else takeWhile (Not \<circ> py_isspace) t # py_split (dropWhile (Not \<circ> py_isspace) t))"
  by pat_completeness auto
termination
proof (relation "measure length")
  fix s t
  assume t: "t = dropWhile py_isspace s" and ne: "t \<noteq> []"
  then have "\<not> py_isspace (hd t)" using hd_dropWhile by blast
  then have "length (dropWhile (Not \<circ> py_isspace) t) < length t"
    using ne by (cases t) (auto simp: le_imp_less_Suc length_dropWhile_le)
  then show "(dropWhile (Not \<circ> py_isspace) t, s) \<in> measure length"
    using t length_dropWhile_le [of py_isspace s] by simp
qed simp

declare py_split.simps [simp del]

definition apostrophe :: string where
  "apostrophe = [CHR 0x27]"

text \<open>A field read with \<open>dict.get(key, default)\<close>.\<close>

datatype jval = JAbsent | JNull | JStr string

text \<open>\<open>d.get(key, default) or default\<close> on a string field.\<close>

definition get_or :: "jval \<Rightarrow> string \<Rightarrow> string" where
  "get_or v dflt = (case v of JStr s \<Rightarrow> if s = [] then dflt else s | _ \<Rightarrow> dflt)"

text \<open>\<open>d.get(key, '')\<close> used as a string: \<open>None\<close> where it is \<open>null\<close>.\<close>

definition get_str :: "jval \<Rightarrow> string option" where
  "get_str v = (case v of JAbsent \<Rightarrow> Some [] | JNull \<Rightarrow> None | JStr s \<Rightarrow> Some s)"

text \<open>\<open>if d.get(key):\<close>.\<close>

definition jtruthy :: "jval \<Rightarrow> bool" where
  "jtruthy v = (case v of JStr s \<Rightarrow> s \<noteq> [] | _ \<Rightarrow> False)"

text \<open>An f-string field \<open>{d.get(key, default)}\<close>: \<open>None\<close> is printed as \<open>None\<close>.\<close>

definition fmt_get :: "jval \<Rightarrow> string \<Rightarrow> string" where
  "fmt_get v dflt = (case v of JAbsent \<Rightarrow> dflt | JNull \<Rightarrow> ''None'' | JStr s \<Rightarrow> s)"

subsection \<open>Tables\<close>

definition STOP_WORDS :: "string list" where
  "STOP_WORDS = [''what'', ''is'', ''the'', ''are'', ''for'', ''in'', ''at'', ''a'', ''an'', ''how'', ''can'',
    ''i'', ''my'', ''do'', ''does'', ''about'', ''where'', ''when'', ''why'', ''which'', ''who'',
    ''there'', ''that'', ''this'', ''be'', ''to'', ''of'', ''and'', ''or'', ''on'', ''it'']"

definition FOLLOW_UP_SUGGESTIONS :: "(string \<times> string list) list" where
  "FOLLOW_UP_SUGGESTIONS = [
    (''fence'', [''What fence materials are approved?'', ''Is ARC approval required for fence installation?'',
       ''Can I have a fence in my front yard?'', ''What is the setback requirement for fences?'',
       ''Can I have a chain-link fence?'']),
    (''pool'', [''What are the pool guest policies?'', ''How do I get a pool key or fob?'',
       ''Are glass containers allowed at the pool?'', ''Can I reserve the pool area for a party?'',
       ''What are the pool supervision requirements?'']),
    (''parking'', [''How long can guests park in the community?'', ''Where is guest parking located?'',
       ''Can I park an RV or trailer on my property?'', ''What vehicles are prohibited?'',
       ''Can I park a commercial vehicle at my home?'']),
    (''pet'', [''How many pets are allowed per household?'', ''What is the pet weight limit?'',
       ''Are there breed restrictions?'', ''What are the leash requirements?'', ''Are exotic pets allowed?'']),
    (''architectural'', [''What modifications require ARC approval?'', ''How long does ARC approval take?'',
       ''What is the ARC submission process?'', ''Can I paint my house a different color?'',
       ''What exterior changes need approval?'']),
    (''assessment'', [''When are assessments due?'', ''What payment methods are accepted?'',
       ''Is there a late fee for overdue assessments?'', ''What does my assessment cover?'',
       ''Can I set up automatic payments?'']),
    (''rental'', [''What is the minimum lease term?'', ''Do I need to register my tenant?'',
       ''Are short-term rentals (Airbnb) allowed?'', ''What are landlord responsibilities?'',
       ''Is there a rental cap in the community?'']),
    (''general'', [''What are the CC&Rs for this community?'', ''How do I contact my community manager?'',
       ''Where can I find community documents?'', ''What is the violation process?'',
       ''How do I submit an ARC request?''])]"

definition CATEGORY_KEYWORDS :: "(string \<times> string list) list" where
  "CATEGORY_KEYWORDS = [
    (''fence'', [''fence'', ''fencing'', ''height'', ''stain'', ''color'', ''wrought iron'', ''chain link'',
       ''wood fence'', ''privacy fence'', ''barrier'']),
    (''pool'', [''pool'', ''swimming'', ''hours'', ''guest'', ''lifeguard'', ''hot tub'', ''spa'', ''pool key'',
       ''pool fob'', ''swim'']),
    (''parking'', [''parking'', ''vehicle'', ''tow'', ''rv'', ''boat'', ''trailer'', ''commercial vehicle'',
       ''guest parking'', ''overnight'', ''driveway'']),
    (''pet'', [''pet'', ''dog'', ''cat'', ''animal'', ''breed'', ''leash'', ''barking'', ''exotic'', ''weight limit'',
       ''pets allowed'']),
    (''architectural'', [''arc'', ''architectural'', ''modification'', ''approval'', ''exterior'', ''paint'', ''roof'',
       ''solar'', ''pergola'', ''deck'', ''patio'']),
    (''rental'', [''rental'', ''rent'', ''lease'', ''tenant'', ''airbnb'', ''short-term'', ''subletting'', ''landlord'',
       ''renter'']),
    (''assessment'', [''assessment'', ''dues'', ''fee'', ''payment'', ''late fee'', ''transfer fee'',
       ''special assessment'', ''hoa fee'', ''annual fee''])]"


subsection \<open>Query category\<close>

text \<open>\<open>sum(1 for kw in keywords if kw in query_lower)\<close>.\<close>

definition kw_score :: "string list \<Rightarrow> string \<Rightarrow> nat" where
  "kw_score kws ql = length (filter (\<lambda>kw. py_contains kw ql) kws)"

text \<open>The dictionary \<open>scores\<close>: the categories with a positive score, in table order.\<close>

definition category_scores :: "string \<Rightarrow> (string \<times> nat) list" where
  "category_scores ql =
     filter (\<lambda>(c, n). 0 < n) (map (\<lambda>(c, kws). (c, kw_score kws ql)) CATEGORY_KEYWORDS)"

text \<open>\<open>max(scores, key=scores.get)\<close>: \<open>max\<close> keeps the first of equal maxima.\<close>

definition py_max_key :: "(string \<times> nat) list \<Rightarrow> string" where
  "py_max_key xs = fst (foldl (\<lambda>(bk, bv) (k, v). if bv < v then (k, v) else (bk, bv)) (hd xs) (tl xs))"

definition detect_query_category :: "string \<Rightarrow> string" where
  "detect_query_category q =
     (let scores = category_scores (py_lower q) in if scores \<noteq> [] then py_max_key scores else ''general'')"

subsection \<open>Follow-up questions\<close>

text \<open>\<open>if not category: category = detect_query_category(query)\<close>.\<close>

definition resolve_category :: "string \<Rightarrow> string option \<Rightarrow> string" where
  "resolve_category q cat =
     (case cat of Some c \<Rightarrow> if c = [] then detect_query_category q else c | None \<Rightarrow> detect_query_category q)"

text \<open>\<open>FOLLOW_UP_SUGGESTIONS.get(category, FOLLOW_UP_SUGGESTIONS['general'])\<close>.\<close>

definition suggestions_for :: "string \<Rightarrow> string list" where
  "suggestions_for c =
     (case map_of FOLLOW_UP_SUGGESTIONS c of Some qs \<Rightarrow> qs | None \<Rightarrow> the (map_of FOLLOW_UP_SUGGESTIONS ''general''))"

text \<open>\<open>len(set(q.lower().split()[:4]) & query_words)\<close>.\<close>

definition word_overlap :: "string \<Rightarrow> string list \<Rightarrow> nat" where
  "word_overlap s qws = length (remdups (filter (\<lambda>w. w \<in> set qws) (take 4 (py_split (py_lower s)))))"

definition get_follow_up_questions :: "string \<Rightarrow> string option \<Rightarrow> string list" where
  "get_follow_up_questions q cat =
     (let c = resolve_category q cat;
          query_words = py_split (py_lower q)
      in take 3 (filter (\<lambda>s. word_overlap s query_words \<le> 2) (suggestions_for c)))"

subsection \<open>Confidence\<close>

text \<open>The model's answer as \<open>extract_answer_with_claude_v2\<close> parses it.\<close>

record extraction =
  er_quote :: jval
  er_answer :: jval
  er_source_section :: jval
  er_source_document :: jval

definition numeric_questions :: "string list" where
  "numeric_questions = [''how many'', ''limit'', ''height'', ''fee'', ''how much'', ''how long'', ''maximum'', ''minimum'']"

text \<open>Factor 1: \<open>set(query.lower().split()) - STOP_WORDS\<close>, each keyword found in the
  lower-cased quote worth 10 points, at most 30.\<close>

definition quote_points :: "string \<Rightarrow> string \<Rightarrow> int" where
  "quote_points q quote =
     (if quote = [] then 0
      else (let kws = remdups (filter (\<lambda>w. w \<notin> set STOP_WORDS) (py_split (py_lower q)));
                matches = length (filter (\<lambda>kw. py_contains kw (py_lower quote)) kws)
            in min 30 (int matches * 10)))"

text \<open>Factor 4: the document's name.\<close>

definition document_points :: "string \<Rightarrow> int" where
  "document_points doc_name =
     (if py_contains ''ccr'' doc_name \<or> py_contains ''declaration'' doc_name \<or> py_contains ''covenant'' doc_name then 20
      else if py_contains ''rule'' doc_name \<or> py_contains ''regulation'' doc_name then 15
      else if py_contains ''guideline'' doc_name \<or> py_contains ''policy'' doc_name then 10
      else if doc_name \<noteq> [] then 5 else 0)"

text \<open>Factor 5: the answer's length in words.\<close>

definition length_points :: "nat \<Rightarrow> int" where
  "length_points wc = (if 5 \<le> wc \<and> wc \<le> 30 then 15 else if wc < 5 then 5 else 8)"

definition confidence_level :: "int \<Rightarrow> string" where
  "confidence_level score = (if 70 \<le> score then ''high'' else if 40 \<le> score then ''medium'' else ''low'')"

text \<open>The whole function.  A \<open>null\<close> answer reaches \<open>re.search\<close> (\<open>TypeError\<close>) when
  the question is numeric, and \<open>None.split()\<close> (\<open>AttributeError\<close>) otherwise.\<close>

definition confidence_points :: "extraction \<Rightarrow> string \<Rightarrow> py_error + int" where
  "confidence_points er q =
     (let p1 = quote_points q (get_or (er_quote er) []);
          numeric = (\<exists>kw \<in> set numeric_questions. py_contains kw (py_lower q))
      in case (if numeric then (case get_str (er_answer er) of
                                  None \<Rightarrow> Inl TypeError
                                | Some a \<Rightarrow> (case py_re_search (backslash @ ''d+'') a of
                                              Inl e \<Rightarrow> Inl e
                                            | Inr found \<Rightarrow> Inr (if found then 20 else -10)))
               else Inr 0) of
           Inl e \<Rightarrow> Inl e
         | Inr p2 \<Rightarrow>
             (let p3 = (if jtruthy (er_source_section er) then 15 else 0);
                  p4 = document_points (py_lower (get_or (er_source_document er) []))
              in case get_str (er_answer er) of
                   None \<Rightarrow> Inl AttributeError
                 | Some a \<Rightarrow> Inr (p1 + p2 + p3 + p4 + length_points (length (py_split a)))))"

definition calculate_confidence_score :: "extraction \<Rightarrow> string \<Rightarrow> py_error + string" where
  "calculate_confidence_score er q =
     (case confidence_points er q of Inl e \<Rightarrow> Inl e | Inr s \<Rightarrow> Inr (confidence_level s))"


subsection \<open>Document context\<close>

text \<open>The field \<open>doc_type_info\<close> of a document, as
  \<open>doc.get('doc_type_info', {}).get('label', 'Document')\<close> reads it: absent (the
  default \<open>{}\<close>), a dictionary with its \<open>label\<close> field, or any other value
  (\<open>null\<close>, a string, a list, a number), which has no \<open>get\<close> and raises
  \<open>AttributeError\<close>.\<close>

datatype doc_type_info = DtiAbsent | DtiDict jval | DtiOther

text \<open>A retrieved document as the caller passes it.\<close>

record ctx_doc =
  ctx_title :: jval
  ctx_content :: jval
  ctx_doc_type :: doc_type_info
  ctx_community :: jval
  ctx_url :: jval
  ctx_archived :: bool

definition rule60 :: string where
  "rule60 = replicate 60 (CHR ''='')"

text \<open>The header and text of document \<open>i\<close> (0-based): \<open>content\<close> is
  \<open>doc.get('content', '').strip()\<close>, which raises on \<open>null\<close> (line 314), cut to
  \<open>max_chars_per_doc\<close> characters and marked when longer; the type label is read next
  (line 315) and raises when \<open>doc_type_info\<close> is not a dictionary.\<close>

definition doc_type_label :: "doc_type_info \<Rightarrow> py_error + string" where
  "doc_type_label t =
     (case t of DtiAbsent \<Rightarrow> Inr ''Document'' | DtiDict l \<Rightarrow> Inr (fmt_get l ''Document'') | DtiOther \<Rightarrow> Inl AttributeError)"

definition doc_part :: "nat \<Rightarrow> nat \<Rightarrow> ctx_doc \<Rightarrow> py_error + string" where
  "doc_part max_chars i d =
     (case get_str (ctx_content d) of
        None \<Rightarrow> Inl AttributeError
      | Some raw \<Rightarrow>
       (case doc_type_label (ctx_doc_type d) of
         Inl e \<Rightarrow> Inl e
       | Inr doc_type \<Rightarrow>
          (let content0 = py_strip raw;
               header = py_newline @ rule60 @ py_newline @ ''DOCUMENT '' @ py_str_nat (i + 1) @ '': ''
                          @ fmt_get (ctx_title d) ''Unknown Document''
                        @ (if ctx_archived d then '' [ARCHIVED - may be outdated]'' else [])
                        @ (if jtruthy (ctx_community d) then py_newline @ ''Community: '' @ fmt_get (ctx_community d) [] else [])
                        @ py_newline @ ''Type: '' @ doc_type
                        @ (if jtruthy (ctx_url d) then py_newline @ ''URL: '' @ fmt_get (ctx_url d) [] else []);
               content = (if max_chars < length content0 then take max_chars content0 @ ''...[truncated]'' else content0)
           in Inr (if content \<noteq> []
                   then header @ py_newline @ py_newline @ ''CONTENT:'' @ py_newline @ content @ py_newline
                   else header @ py_newline @ py_newline @ ''(No text content available)'' @ py_newline))))"

text \<open>\<open>for i, doc in enumerate(documents[:5])\<close>, the parts joined.\<close>

fun context_parts :: "nat \<Rightarrow> nat \<Rightarrow> ctx_doc list \<Rightarrow> py_error + string" where
  "context_parts max_chars i [] = Inr []"
| "context_parts max_chars i (d # ds) =
     (case doc_part max_chars i d of
        Inl e \<Rightarrow> Inl e
      | Inr p \<Rightarrow> (case context_parts max_chars (Suc i) ds of Inl e \<Rightarrow> Inl e | Inr rest \<Rightarrow> Inr (p @ rest)))"

definition build_document_context :: "ctx_doc list \<Rightarrow> nat \<Rightarrow> py_error + string" where
  "build_document_context ds max_chars = context_parts max_chars 0 (take 5 ds)"

text \<open>The exceptions of one document: a \<open>null\<close> content or a \<open>doc_type_info\<close> that
  is not a dictionary.\<close>

definition doc_raises :: "ctx_doc \<Rightarrow> bool" where
  "doc_raises d = (ctx_content d = JNull \<or> ctx_doc_type d = DtiOther)"

subsection \<open>The not-found answer\<close>

record nf_response =
  nf_found :: bool
  nf_answer :: string
  nf_confidence :: string
  nf_quote :: "string option"
  nf_source_document :: "string option"
  nf_source_section :: "string option"
  nf_answer_type :: string
  nf_related_info :: string
  nf_recommended_action :: string
  nf_follow_ups :: "string list"

definition NEXT_STEPS :: "(string \<times> string) list" where
  "NEXT_STEPS = [
    (''assessment'', ''Check your homeowner portal at psprop.net or your latest statement for current amounts.''),
    (''pool'', ''Pool hours are typically posted at the facility and may vary seasonally. Check the homeowner portal or contact your manager.''),
    (''architectural'', ''For ARC submissions and approvals, contact your community manager directly.''),
    (''rental'', ''Rental policies may have specific requirements. Contact your community manager for details.''),
    (''parking'', ''Parking policies are often enforced on-site. Check community signage or contact your manager.''),
    (''general'', ''Visit the homeowner portal at psprop.net or contact your community manager.'')]"

definition generate_not_found_response :: "string \<Rightarrow> 'a list \<Rightarrow> string option \<Rightarrow> nf_response" where
  "generate_not_found_response q searched cat =
     (let c = resolve_category q cat;
          next_step = (case map_of NEXT_STEPS c of Some s \<Rightarrow> s | None \<Rightarrow> the (map_of NEXT_STEPS ''general''));
          follow_ups = get_follow_up_questions q (Some c)
      in \<lparr>nf_found = False,
          nf_answer = ''I couldn'' @ apostrophe @ ''t find specific information about that in the available documents. '' @ next_step,
          nf_confidence = ''low'', nf_quote = None, nf_source_document = None, nf_source_section = None,
          nf_answer_type = ''not_found'',
          nf_related_info = ''Searched '' @ py_str_nat (length searched) @ '' documents but no direct answer was found.'',
          nf_recommended_action = next_step,
          nf_follow_ups = follow_ups\<rparr>)"


subsection \<open>Specification of the category\<close>

text \<open>What \<open>detect_query_category\<close> promises: the category with the most keyword
  hits, the first in table order among equals, and \<open>general\<close> when no keyword occurs.\<close>

definition category_spec :: "string \<Rightarrow> string" where
  "category_spec ql =
     (let sc = map (\<lambda>(c, kws). (c, kw_score kws ql)) CATEGORY_KEYWORDS;
          m = Max (set (map snd sc))
      in if m = 0 then ''general'' else fst (the (find (\<lambda>p. snd p = m) sc)))"


subsection \<open>Facts about the helpers\<close>

definition max_step :: "string \<times> nat \<Rightarrow> string \<times> nat \<Rightarrow> string \<times> nat" where
  "max_step b x = (if snd b < snd x then x else b)"

lemma py_max_key_foldl: "py_max_key (b # xs) = fst (foldl max_step b xs)"
proof -
  have "(\<lambda>(bk, bv) (k, v). if bv < v then (k, v) else (bk, bv)) = max_step"
    by (auto simp: max_step_def fun_eq_iff)
  then show ?thesis by (simp add: py_max_key_def)
qed

lemma find_append_Some: "find P xs = Some y \<Longrightarrow> find P (xs @ ys) = Some y"
  by (induction xs) auto

lemma find_append_None: "find P xs = None \<Longrightarrow> find P (xs @ ys) = find P ys"
  by (induction xs) auto

lemma foldl_max_step:
  "find (\<lambda>p. snd p = snd (foldl max_step b xs)) (b # xs) = Some (foldl max_step b xs)
   \<and> snd (foldl max_step b xs) = Max (snd ` set (b # xs))"
proof (induction xs rule: rev_induct)
  case (snoc x xs)
  let ?r = "foldl max_step b xs"
  have ih1: "find (\<lambda>p. snd p = snd ?r) (b # xs) = Some ?r"
    and ih2: "snd ?r = Max (snd ` set (b # xs))" using snoc.IH by auto
  have le: "\<forall>p \<in> set (b # xs). snd p \<le> snd ?r" using ih2 by simp
  have "Max (snd ` set (b # xs)) \<in> snd ` set (b # xs)" by (rule Max_in) auto
  then have mem: "snd ?r \<in> snd ` set (b # xs)" using ih2 by simp
  show ?case
  proof (cases "snd ?r < snd x")
    case True
    then have f: "foldl max_step b (xs @ [x]) = x" by (simp add: max_step_def)
    from le True have "find (\<lambda>p. snd p = snd x) (b # xs) = None" by (auto simp: find_None_iff)
    then have "find (\<lambda>p. snd p = snd x) ((b # xs) @ [x]) = Some x" by (simp only: find_append_None) simp
    moreover have "Max (snd ` set (b # xs @ [x])) = snd x"
      using le True by (intro Max_eqI) auto
    ultimately show ?thesis using f by simp
  next
    case False
    then have f: "foldl max_step b (xs @ [x]) = ?r" by (simp add: max_step_def)
    have "find (\<lambda>p. snd p = snd ?r) ((b # xs) @ [x]) = Some ?r" using ih1 by (rule find_append_Some)
    moreover have "Max (snd ` set (b # xs @ [x])) = snd ?r"
      using le False mem by (intro Max_eqI) auto
    ultimately show ?thesis using f by simp
  qed
qed simp

lemma py_max_key_first_max:
  assumes "xs \<noteq> []"
  shows "py_max_key xs = fst (the (find (\<lambda>p. snd p = Max (snd ` set xs)) xs))"
proof -
  let ?r = "foldl max_step (hd xs) (tl xs)"
  have e: "hd xs # tl xs = xs" using assms by simp
  note fm = foldl_max_step [of "hd xs" "tl xs", unfolded e]
  have a: "find (\<lambda>p. snd p = snd ?r) xs = Some ?r" and b: "snd ?r = Max (snd ` set xs)"
    using fm by blast+
  from a have "find (\<lambda>p. snd p = Max (snd ` set xs)) xs = Some ?r" by (simp only: b)
  then show ?thesis using py_max_key_foldl [of "hd xs" "tl xs"] assms by simp
qed

lemma find_filter_weaker: "(\<And>x. P x \<Longrightarrow> Q x) \<Longrightarrow> find P (filter Q xs) = find P xs"
  by (induction xs) auto


lemma snd_le_Max: "p \<in> set xs \<Longrightarrow> snd p \<le> Max (snd ` set xs)"
  by (intro Max_ge) auto

lemma Max_nonpos_zero:
  "xs \<noteq> [] \<Longrightarrow> filter (\<lambda>p. 0 < snd p) xs = [] \<Longrightarrow> Max (set (map snd xs)) = (0::nat)"
  by (intro Max_eqI) (auto simp: filter_empty_conv, metis imageI neq_Nil_conv list.set_intros(1) snd_conv)

lemma py_max_key_positive:
  assumes ne: "filter (\<lambda>p. 0 < snd p) xs \<noteq> []"
  shows "py_max_key (filter (\<lambda>p. 0 < snd p) xs) = fst (the (find (\<lambda>p. snd p = Max (set (map snd xs))) xs))"
proof -
  let ?ys = "filter (\<lambda>p. 0 < snd p) xs"
  let ?m = "Max (set (map snd xs))"
  have fin: "finite (set (map snd xs))" and nx: "set (map snd xs) \<noteq> {}" using ne by auto
  obtain p where p: "p \<in> set ?ys" using ne by (metis list.set_intros(1) neq_Nil_conv)
  then have px: "p \<in> set xs" "0 < snd p" by auto
  have pos: "0 < ?m" using snd_le_Max [OF px(1)] px(2) by simp
  have "?m \<in> set (map snd xs)" using fin nx by (rule Max_in)
  with pos have inys: "?m \<in> snd ` set ?ys" by auto
  have "Max (snd ` set ?ys) = ?m"
    using inys by (intro Max_eqI) (auto dest: snd_le_Max)
  moreover have "find (\<lambda>p. snd p = ?m) ?ys = find (\<lambda>p. snd p = ?m) xs"
    using pos by (intro find_filter_weaker) simp
  ultimately show ?thesis using py_max_key_first_max [OF ne] by simp
qed

lemma quote_points_range: "0 \<le> quote_points q t \<and> quote_points q t \<le> 30"
  by (simp add: quote_points_def Let_def)

lemma document_points_range: "0 \<le> document_points n \<and> document_points n \<le> 20"
  by (simp add: document_points_def)

lemma length_points_range: "5 \<le> length_points n \<and> length_points n \<le> 15"
  by (simp add: length_points_def)

lemma digits_pattern_compiles: "parse_re (backslash @ ''d+'') \<noteq> None"
  unfolding backslash_def by code_simp

lemma numeric_points:
  "\<exists>p. (case py_re_search (backslash @ ''d+'') a of Inl e \<Rightarrow> Inl e
          | Inr found \<Rightarrow> Inr (if found then 20 else -10)) = Inr p \<and> (p = 20 \<or> p = (-10::int))"
  using digits_pattern_compiles by (auto simp: py_re_search_def)

lemma doc_part_raises: "(\<exists>e. doc_part m i d = Inl e) \<longleftrightarrow> doc_raises d"
  by (auto simp: doc_part_def doc_raises_def doc_type_label_def get_str_def Let_def
      split: jval.splits doc_type_info.splits)

lemma context_parts_raises:
  "(\<exists>e. context_parts m i ds = Inl e) \<longleftrightarrow> (\<exists>d \<in> set ds. doc_raises d)"
proof (induction ds arbitrary: i)
  case (Cons d ds)
  show ?case
  proof (cases "doc_part m i d")
    case (Inl e)
    then show ?thesis using doc_part_raises [of m i d] by auto
  next
    case (Inr p)
    then have "\<not> doc_raises d" using doc_part_raises [of m i d] by auto
    with Inr Cons.IH [of "Suc i"] show ?thesis by (auto split: sum.splits)
  qed
qed simp

subsection \<open>Properties of the answer helpers\<close>

text \<open>C18. \<open>detect_query_category\<close> implements its specification: the category whose
  keywords occur most often in the lower-cased query, the first in table order among
  equal scores (\<open>max\<close> keeps the first maximum of the dictionary it scans), and
  \<open>general\<close> when no keyword occurs.\<close>

theorem detect_query_category_refines: "detect_query_category q = category_spec (py_lower q)"
proof -
  let ?full = "map (\<lambda>(c, kws). (c, kw_score kws (py_lower q))) CATEGORY_KEYWORDS"
  have ne: "?full \<noteq> []" by (simp add: CATEGORY_KEYWORDS_def)
  have sc: "category_scores (py_lower q) = filter (\<lambda>p. 0 < snd p) ?full"
    by (simp add: category_scores_def case_prod_beta')
  show ?thesis
  proof (cases "filter (\<lambda>p. 0 < snd p) ?full = []")
    case True
    have m0: "Max (set (map snd ?full)) = 0" using Max_nonpos_zero [OF ne True] .
    have "category_spec (py_lower q) = ''general''"
      unfolding category_spec_def Let_def m0 by simp
    moreover have "detect_query_category q = ''general''"
      unfolding detect_query_category_def Let_def sc using True by simp
    ultimately show ?thesis by simp
  next
    case False
    have "\<exists>p \<in> set ?full. 0 < snd p" using False by (metis filter_False)
    then obtain p where p: "p \<in> set ?full" and pos: "0 < snd p" ..
    have "snd p \<le> Max (snd ` set ?full)" using p by (rule snd_le_Max)
    with pos have "Max (set (map snd ?full)) \<noteq> 0" unfolding set_map by linarith
    then have "category_spec (py_lower q) = fst (the (find (\<lambda>p. snd p = Max (set (map snd ?full))) ?full))"
      unfolding category_spec_def Let_def by simp
    moreover have "detect_query_category q = py_max_key (filter (\<lambda>p. 0 < snd p) ?full)"
      unfolding detect_query_category_def Let_def sc using False by simp
    ultimately show ?thesis using py_max_key_positive [OF False] by simp
  qed
qed

text \<open>A computation behind a finding.  Keywords are matched as substrings, not words: in "What is the current
  fee?" the \<open>rental\<close> keyword \<open>rent\<close> occurs inside "current" and ties with the
  \<open>assessment\<close> keyword \<open>fee\<close>; \<open>rental\<close> comes first in the table, so a question
  about a fee is answered as a rental question.\<close>

lemma detect_query_category_substring:
  "detect_query_category ''What is the current fee?'' = ''rental''
   \<and> kw_score (the (map_of CATEGORY_KEYWORDS ''rental'')) ''what is the current fee?'' = 1
   \<and> \<not> (\<exists>w \<in> set (py_split ''what is the current fee?''). w \<in> set (the (map_of CATEGORY_KEYWORDS ''rental'')))"
  by code_simp


text \<open>C19. The confidence points of \<open>calculate_confidence_score\<close> lie between -5 and
  100 (the quote gives 0 to 30, the number check -10 or 20, the section 0 or 15, the
  document name 0 to 20, the answer length 5 to 15), so each of the three levels is
  reachable only through its threshold.\<close>

theorem confidence_points_bounds:
  assumes "confidence_points er q = Inr s"
  shows "-5 \<le> s \<and> s \<le> 100"
proof -
  obtain p2 :: int where p2: "(if \<exists>kw \<in> set numeric_questions. py_contains kw (py_lower q) then
      (case get_str (er_answer er) of None \<Rightarrow> Inl TypeError
       | Some a \<Rightarrow> (case py_re_search (backslash @ ''d+'') a of Inl e \<Rightarrow> Inl e
                   | Inr found \<Rightarrow> Inr (if found then 20 else -10))) else Inr 0) = Inr p2"
    and r2: "p2 = 0 \<or> p2 = 20 \<or> p2 = -10"
    using assms numeric_points
    by (auto simp: confidence_points_def Let_def split: if_splits option.splits sum.splits)
  from assms p2 obtain a where "get_str (er_answer er) = Some a"
    and sv: "s = quote_points q (get_or (er_quote er) []) + p2 + (if jtruthy (er_source_section er) then 15 else 0)
           + document_points (py_lower (get_or (er_source_document er) [])) + length_points (length (py_split a))"
    by (auto simp: confidence_points_def Let_def split: option.splits)
  moreover have "0 \<le> (if jtruthy (er_source_section er) then 15 else 0::int)"
    and "(if jtruthy (er_source_section er) then 15 else 0::int) \<le> 15" by simp_all
  ultimately show ?thesis
    using r2 quote_points_range [of q "get_or (er_quote er) []"]
      document_points_range [of "py_lower (get_or (er_source_document er) [])"]
      length_points_range [of "length (py_split a)"]
    unfolding sv by linarith
qed

theorem confidence_points_bounds_witness:
  "confidence_points \<lparr>er_quote = JStr ''Fences shall not exceed six (6) feet in height'',
      er_answer = JStr ''6 feet maximum height from natural grade.'', er_source_section = JStr ''Article 7.3'',
      er_source_document = JStr ''Falcon Pointe CC&Rs.pdf''\<rparr> ''What is the fence height limit?'' = Inr 75
   \<and> -5 \<le> (75::int) \<and> (75::int) \<le> 100"
proof -
  have h: "confidence_points \<lparr>er_quote = JStr ''Fences shall not exceed six (6) feet in height'',
      er_answer = JStr ''6 feet maximum height from natural grade.'', er_source_section = JStr ''Article 7.3'',
      er_source_document = JStr ''Falcon Pointe CC&Rs.pdf''\<rparr> ''What is the fence height limit?'' = Inr 75"
    unfolding backslash_def by code_simp
  show ?thesis using confidence_points_bounds [OF h] h by simp
qed


text \<open>C20. \<open>calculate_confidence_score\<close> raises exactly when the model's JSON has
  \<open>"answer": null\<close>: with a numeric question \<open>re.search\<close> gets \<open>None\<close> and raises
  \<open>TypeError\<close>, otherwise \<open>None.split()\<close> raises \<open>AttributeError\<close>.  An absent
  answer is read as the empty string and scored.\<close>

theorem calculate_confidence_score_error:
  "calculate_confidence_score er q = Inl e \<longleftrightarrow>
     er_answer er = JNull
     \<and> e = (if \<exists>kw \<in> set numeric_questions. py_contains kw (py_lower q) then TypeError else AttributeError)"
proof (cases "er_answer er = JNull")
  case True
  then show ?thesis
    by (auto simp: calculate_confidence_score_def confidence_points_def get_str_def Let_def)
next
  case False
  then obtain a where a: "get_str (er_answer er) = Some a"
    by (cases "er_answer er") (auto simp: get_str_def)
  obtain p where "(case py_re_search (backslash @ ''d+'') a of Inl e \<Rightarrow> Inl e
          | Inr found \<Rightarrow> Inr (if found then 20 else -10)) = Inr (p::int)"
    using numeric_points by blast
  with a False show ?thesis
    by (auto simp: calculate_confidence_score_def confidence_points_def Let_def)
qed

theorem calculate_confidence_score_error_witness:
  "calculate_confidence_score \<lparr>er_quote = JAbsent, er_answer = JNull, er_source_section = JAbsent,
      er_source_document = JAbsent\<rparr> ''How many pets?'' = Inl TypeError
   \<and> calculate_confidence_score \<lparr>er_quote = JAbsent, er_answer = JNull, er_source_section = JAbsent,
      er_source_document = JAbsent\<rparr> ''Are dogs allowed?'' = Inl AttributeError
   \<and> \<not> (\<exists>e. calculate_confidence_score \<lparr>er_quote = JAbsent, er_answer = JAbsent, er_source_section = JAbsent,
      er_source_document = JAbsent\<rparr> ''How many pets?'' = Inl e)"
proof -
  have n1: "\<exists>kw \<in> set numeric_questions. py_contains kw (py_lower ''How many pets?'')"
    by code_simp
  have n2: "\<not> (\<exists>kw \<in> set numeric_questions. py_contains kw (py_lower ''Are dogs allowed?''))"
    by code_simp
  show ?thesis
    using calculate_confidence_score_error [of "\<lparr>er_quote = JAbsent, er_answer = JNull, er_source_section = JAbsent,
      er_source_document = JAbsent\<rparr>" "''How many pets?''" TypeError]
      calculate_confidence_score_error [of "\<lparr>er_quote = JAbsent, er_answer = JNull, er_source_section = JAbsent,
      er_source_document = JAbsent\<rparr>" "''Are dogs allowed?''" AttributeError]
      calculate_confidence_score_error [of "\<lparr>er_quote = JAbsent, er_answer = JAbsent, er_source_section = JAbsent,
      er_source_document = JAbsent\<rparr>" "''How many pets?''"]
      n1 n2
    by simp
qed


text \<open>C21. \<open>build_document_context\<close> raises exactly when one of the first five
  documents has \<open>"content": null\<close> (\<open>None.strip()\<close>, line 314) or a
  \<open>doc_type_info\<close> that is not a dictionary (\<open>.get('label', ...)\<close> on it, line 315);
  documents after the fifth are never read, and absent fields take their defaults.\<close>

theorem build_document_context_raises:
  "(\<exists>e. build_document_context ds m = Inl e) \<longleftrightarrow>
     (\<exists>d \<in> set (take 5 ds). ctx_content d = JNull \<or> ctx_doc_type d = DtiOther)"
  unfolding build_document_context_def context_parts_raises by (simp add: doc_raises_def)

theorem build_document_context_raises_witness:
  "\<not> (\<exists>e. build_document_context (replicate 5 \<lparr>ctx_title = JAbsent, ctx_content = JStr ''x'', ctx_doc_type = DtiAbsent, ctx_community = JAbsent,
          ctx_url = JAbsent, ctx_archived = False\<rparr> @ [\<lparr>ctx_title = JAbsent, ctx_content = JNull, ctx_doc_type = DtiAbsent, ctx_community = JAbsent,
          ctx_url = JAbsent, ctx_archived = False\<rparr>]) 3000 = Inl e)
   \<and> (\<exists>e. build_document_context [\<lparr>ctx_title = JAbsent, ctx_content = JNull, ctx_doc_type = DtiAbsent, ctx_community = JAbsent,
          ctx_url = JAbsent, ctx_archived = False\<rparr>] 3000 = Inl e)
   \<and> (\<exists>e. build_document_context [\<lparr>ctx_title = JAbsent, ctx_content = JStr ''x'', ctx_doc_type = DtiOther, ctx_community = JAbsent,
          ctx_url = JAbsent, ctx_archived = False\<rparr>] 3000 = Inl e)"
  using build_document_context_raises [of "replicate 5 \<lparr>ctx_title = JAbsent, ctx_content = JStr ''x'', ctx_doc_type = DtiAbsent, ctx_community = JAbsent,
          ctx_url = JAbsent, ctx_archived = False\<rparr> @ [\<lparr>ctx_title = JAbsent, ctx_content = JNull, ctx_doc_type = DtiAbsent, ctx_community = JAbsent,
          ctx_url = JAbsent, ctx_archived = False\<rparr>]" 3000]
    build_document_context_raises [of "[\<lparr>ctx_title = JAbsent, ctx_content = JNull, ctx_doc_type = DtiAbsent, ctx_community = JAbsent,
          ctx_url = JAbsent, ctx_archived = False\<rparr>]" 3000]
    build_document_context_raises [of "[\<lparr>ctx_title = JAbsent, ctx_content = JStr ''x'', ctx_doc_type = DtiOther, ctx_community = JAbsent,
          ctx_url = JAbsent, ctx_archived = False\<rparr>]" 3000]
  by (simp add: numeral_eq_Suc)

text \<open>A computation behind a finding.  The document-name factor looks for \<open>ccr\<close>, but the association's files
  are named with \<open>CC&Rs\<close>: the prompt's own example document, "Falcon Pointe
  CC&Rs.pdf", earns the 5 points of an unrecognised name instead of the 20 of a
  declaration.\<close>

lemma document_points_ccr_spelling:
  "document_points (py_lower ''Falcon Pointe CC&Rs.pdf'') = 5
   \<and> document_points (py_lower ''Falcon Pointe CCRs.pdf'') = 20"
  by code_simp

end
