(* ===== verification/Stats.thy ===== *)
theory Stats
  imports Orchestrator
begin

text \<open>
  The statistics report \<open>show_stats\<close> and the command-line entry point of
  \<open>src/scripts/classify_documents.py\<close>.  \<open>show_stats\<close> is modelled by the lines it
  prints (one element per \<open>print\<close> call), over the facet query
  \<open>get_classification_stats\<close> of the index client; the entry point dispatches on the
  parsed arguments (\<open>argparse\<close> itself is not modelled: its result is the record
  \<open>cli_args\<close>).
\<close>

definition rule_line :: string where
  "rule_line = replicate 60 (CHR ''='')"

text \<open>\<open>print(f"  {key or '(unclassified)'}: {count}")\<close> for each entry, most frequent
  first, or the given line when the table is empty.\<close>

definition table_lines :: "string \<Rightarrow> string \<Rightarrow> (string \<times> nat) list \<Rightarrow> string list" where
  "table_lines empty_key no_data t =
     (if t \<noteq> [] then map (\<lambda>(k, c). ''  '' @ (if k = [] then empty_key else k) @ '': '' @ py_str_nat c) (report_table t)
      else [no_data])"

text \<open>The result is the new index, the lines printed, and the exception that ended the
  function, if any: the three header lines are printed before the facet query, so they
  are printed even when it raises.\<close>

definition show_stats :: "index \<Rightarrow> index \<times> string list \<times> py_error option" where
  "show_stats i0 =
     (let header = [rule_line, ''Current Classification Statistics'', rule_line]
      in case get_classification_stats i0 of
        (i, Inl e) \<Rightarrow> (i, header, Some e)
      | (i, Inr so) \<Rightarrow>
          (let total_count = (case so of None \<Rightarrow> 0 | Some s \<Rightarrow> total_documents s);
               cats = (case so of None \<Rightarrow> [] | Some s \<Rightarrow> st_by_category s);
               lvls = (case so of None \<Rightarrow> [] | Some s \<Rightarrow> st_by_access_level s)
           in (i, header @ [py_newline @ ''Total documents: '' @ py_str_nat total_count,
                        py_newline @ ''By Category:'']
                       @ table_lines ''(unclassified)'' ''  No classification data yet'' cats
                       @ [py_newline @ ''By Access Level:'']
                       @ table_lines ''(none)'' ''  No access level data yet'' lvls, None)))"

text \<open>The parsed command line: \<open>--all\<close>, \<open>--dry-run\<close>, \<open>--stats\<close>, \<open>--batch-size\<close>.\<close>

record cli_args =
  arg_all :: bool
  arg_dry_run :: bool
  arg_stats :: bool
  arg_batch_size :: int

datatype cli_outcome = StatsShown index "string list" | RunDone outcome

definition cli_main :: "(nat \<Rightarrow> string) \<Rightarrow> cli_args \<Rightarrow> index \<Rightarrow> (py_error \<times> index) + cli_outcome" where
  "cli_main clk a i0 =
     (if arg_stats a
      then (case show_stats i0 of (i, ls, Some e) \<Rightarrow> Inl (e, i) | (i, ls, None) \<Rightarrow> Inr (StatsShown i ls))
      else (case run_classification \<lparr>reclassify_all = arg_all a, dry_run = arg_dry_run a,
                                     batch_size = arg_batch_size a, clock = clk\<rparr> i0 of
              Inl err \<Rightarrow> Inl err
            | Inr out \<Rightarrow> Inr (RunDone out)))"


subsection \<open>Properties of the entry point\<close>

text \<open>C24. \<open>--stats\<close> only reads: the entry point then sends the one facet query and
  leaves the documents as they are, whatever the service answers.\<close>

theorem cli_stats_read_only:
  assumes "arg_stats a"
  shows "(\<exists>e. cli_main clk a i0 = Inl (e, send (FacetReq STATS_FACETS) i0)) \<or> (\<exists>ls. cli_main clk a i0 = Inr (StatsShown (send (FacetReq STATS_FACETS) i0) ls))"
  using assms
  by (auto simp: cli_main_def show_stats_def get_classification_stats_def Let_def split: sum.splits option.splits)

theorem cli_stats_read_only_witness:
  "\<exists>ls. cli_main (\<lambda>_. ''t'') \<lparr>arg_all = False, arg_dry_run = False, arg_stats = True, arg_batch_size = 100\<rparr>
          \<lparr>docs = [], faults = [], sent = []\<rparr>
        = Inr (StatsShown \<lparr>docs = [], faults = [], sent = [FacetReq STATS_FACETS]\<rparr> ls)"
proof -
  have "cli_main (\<lambda>_. ''t'') \<lparr>arg_all = False, arg_dry_run = False, arg_stats = True, arg_batch_size = 100\<rparr>
          \<lparr>docs = [], faults = [], sent = []\<rparr> \<noteq> Inl (e, send (FacetReq STATS_FACETS) \<lparr>docs = [], faults = [], sent = []\<rparr>)" for e
    by (simp add: cli_main_def show_stats_def get_classification_stats_def svc_facets_def fault_of_def Let_def
        STATS_FACETS_def facet_field_def)
  then show ?thesis
    using cli_stats_read_only [of "\<lparr>arg_all = False, arg_dry_run = False, arg_stats = True, arg_batch_size = 100\<rparr>"
        "\<lambda>_. ''t''" "\<lparr>docs = [], faults = [], sent = []\<rparr>"]
    by (auto simp: send_def)
qed

end
