(* ===== verification/Sync.thy ===== *)
theory Sync
  imports Runs
begin

text \<open>
  The composition of the rule engine, the orchestrator and the index: what the index
  holds after a live run over the whole index, and what the statistics report then.
  The classification of a document is \<open>class_of\<close>, the flat specification of the
  rule engine applied to its path and name; an update is seen through its key and
  category \<open>ukey\<close>, a document through \<open>dkey\<close>.  The invariant of the paging loop
  (\<open>sync_inv\<close>) says that the documents keep their ids, names and paths, that their
  categories are those written by the updates flushed so far, that the flushed and
  pending updates are those of the documents before \<open>skip\<close>, and that the category
  table counts those documents.
\<close>

definition class_of :: "idx_doc \<Rightarrow> string \<times> access_level" where
  "class_of d = classify_spec CLASSIFICATION_RULES (lower_or_empty (item_path d)) (lower_or_empty (item_name d))"

definition ukey :: "doc_update \<Rightarrow> string option \<times> string" where
  "ukey u = (upd_id u, upd_category u)"

definition dkey :: "idx_doc \<Rightarrow> string option \<times> string" where
  "dkey d = (Some (doc_id d), fst (class_of d))"

text \<open>The category of a document after a sequence of merges: the last update with its
  key wins.\<close>

definition cat_step :: "string \<Rightarrow> string option \<Rightarrow> string option \<times> string \<Rightarrow> string option" where
  "cat_step k c p = (if fst p = Some k then Some (snd p) else c)"

definition cat_after :: "(string option \<times> string) list \<Rightarrow> idx_doc \<Rightarrow> string option" where
  "cat_after ps d = foldl (cat_step (doc_id d)) (doc_category d) ps"

text \<open>The documents keep their identity (id, name, path) from \<open>D\<close>.\<close>

definition same_docs :: "idx_doc list \<Rightarrow> idx_doc list \<Rightarrow> bool" where
  "same_docs xs D = (map doc_id xs = map doc_id D \<and> map item_name xs = map item_name D
                     \<and> map item_path xs = map item_path D)"

definition sync_inv :: "idx_doc list \<Rightarrow> run_state \<Rightarrow> bool" where
  "sync_inv D st =
     (faults (ix st) = [] \<and> same_docs (docs (ix st)) D \<and> 0 \<le> skip st
      \<and> (\<exists>F. map doc_category (docs (ix st)) = map (cat_after F) D
             \<and> F @ map ukey (batch_updates st) = map dkey (take (nat (skip st)) D))
      \<and> (\<forall>c. dict_get0 (by_category (stats st)) c = length (filter (\<lambda>d. fst (class_of d) = c) (take (nat (skip st)) D))))"

subsection \<open>Merging updates\<close>

definition merge_doc :: "idx_doc \<Rightarrow> doc_update \<Rightarrow> idx_doc" where
  "merge_doc d u = (if upd_id u = Some (doc_id d) then apply_update u d else d)"

lemma merge_item_map: "fst (merge_item ds u) = map (\<lambda>d. merge_doc d u) ds"
proof (cases "upd_id u")
  case (Some k)
  show ?thesis
  proof (cases "k \<in> doc_id ` set ds")
    case False
    then have "map (\<lambda>d. merge_doc d u) ds = ds"
      using Some by (intro map_idI) (auto simp: merge_doc_def)
    with Some False show ?thesis by (simp add: merge_item_def)
  qed (use Some in \<open>auto simp: merge_item_def merge_doc_def\<close>)
qed (simp add: merge_item_def merge_doc_def)

lemma merge_items_map: "fst (merge_items ds us) = map (\<lambda>d. foldl merge_doc d us) ds"
proof (induction ds us rule: merge_items.induct)
  case (2 ds u us)
  obtain ds' ok where m: "merge_item ds u = (ds', ok)" by fastforce
  have "fst (merge_items ds (u # us)) = fst (merge_items ds' us)" using m by (simp split: prod.splits)
  also have "\<dots> = map (\<lambda>d. foldl merge_doc d us) ds'" using "2.IH" [of "(ds', ok)" ds' ok] m by simp
  also have "ds' = map (\<lambda>d. merge_doc d u) ds" using merge_item_map [of ds u] m by simp
  finally show ?case by simp
qed simp

lemma merge_doc_fields [simp]:
  "doc_id (merge_doc d u) = doc_id d" "item_name (merge_doc d u) = item_name d"
  "item_path (merge_doc d u) = item_path d"
  by (simp_all add: merge_doc_def)

lemma foldl_merge_doc_fields [simp]:
  "doc_id (foldl merge_doc d us) = doc_id d" "item_name (foldl merge_doc d us) = item_name d"
  "item_path (foldl merge_doc d us) = item_path d"
  by (induction us arbitrary: d) simp_all

lemma foldl_merge_doc_category:
  "doc_category (foldl merge_doc d us) = foldl (cat_step (doc_id d)) (doc_category d) (map ukey us)"
  by (induction us arbitrary: d) (simp_all add: merge_doc_def cat_step_def ukey_def)

lemma same_docs_merge_items: "same_docs (fst (merge_items ds us)) D = same_docs ds D"
  by (simp add: same_docs_def merge_items_map comp_def)

lemma cat_after_append: "cat_after (F @ P) d = foldl (cat_step (doc_id d)) (cat_after F d) P"
  by (simp add: cat_after_def)

lemma categories_merge_items:
  "map doc_id ds = map doc_id D \<Longrightarrow> map doc_category ds = map (cat_after F) D \<Longrightarrow>
   map doc_category (fst (merge_items ds us)) = map (cat_after (F @ map ukey us)) D"
proof (induction ds arbitrary: D)
  case (Cons d ds)
  then obtain x xs where D: "D = x # xs" by (cases D) auto
  with Cons show ?case
    by (simp add: merge_items_map foldl_merge_doc_category cat_after_append)
qed (simp add: merge_items_map)


subsection \<open>Keys of the updates\<close>

lemma classify_document_class_of: "classify_document (item_path d) (item_name d) = Inr (class_of d)"
  by (simp add: classify_document_def class_of_def classify_rules_refines [OF CLASSIFICATION_RULES_compile])

lemma build_update_key:
  "build_update cfg k d = Inr (u, c, l) \<Longrightarrow> ukey u = dkey d \<and> c = fst (class_of d)"
proof -
  obtain cat lvl where cl: "class_of d = (cat, lvl)" by fastforce
  assume "build_update cfg k d = Inr (u, c, l)"
  then show ?thesis
    by (auto simp: build_update_def classify_document_class_of cl ukey_def dkey_def split: sum.splits if_splits)
qed

lemma process_doc_keys:
  assumes "process_doc cfg st d = Inr st'"
  shows "map ukey (batch_updates st') = map ukey (batch_updates st) @ [dkey d] \<and> ix st' = ix st \<and> skip st' = skip st
    \<and> (\<forall>c. dict_get0 (by_category (stats st')) c
            = dict_get0 (by_category (stats st)) c + (if fst (class_of d) = c then 1 else 0))"
proof -
  obtain u c l where b: "build_update cfg (processed (stats st)) d = Inr (u, c, l)"
    using assms by (auto simp: process_doc_def split: sum.splits)
  with assms have "st' = st\<lparr>batch_updates := batch_updates st @ [u],
                       stats := (stats st)\<lparr>by_category := dict_incr (by_category (stats st)) c,
                                           by_access_level := dict_incr (by_access_level (stats st)) (level_name l),
                                           processed := Suc (processed (stats st))\<rparr>\<rparr>"
    by (simp add: process_doc_def split: if_splits)
  with build_update_key [OF b] show ?thesis by auto
qed

lemma process_docs_keys:
  "process_docs cfg st ds = Inr st' \<Longrightarrow>
   map ukey (batch_updates st') = map ukey (batch_updates st) @ map dkey ds \<and> ix st' = ix st \<and> skip st' = skip st
   \<and> (\<forall>c. dict_get0 (by_category (stats st')) c
           = dict_get0 (by_category (stats st)) c + length (filter (\<lambda>d. fst (class_of d) = c) ds))"
proof (induction ds arbitrary: st)
  case (Cons d ds)
  then obtain st1 where p: "process_doc cfg st d = Inr st1" and r: "process_docs cfg st1 ds = Inr st'"
    by (auto split: sum.splits)
  show ?case using process_doc_keys [OF p] Cons.IH [OF r] by simp
qed simp

lemma same_docs_map:
  "same_docs xs D \<Longrightarrow>
   (\<And>x y. doc_id x = doc_id y \<Longrightarrow> item_name x = item_name y \<Longrightarrow> item_path x = item_path y \<Longrightarrow> f x = f y) \<Longrightarrow>
   map f xs = map f D"
proof (induction xs arbitrary: D)
  case Nil
  show ?case using Nil.prems(1) by (simp add: same_docs_def)
next
  case (Cons x xs)
  obtain y ys where D: "D = y # ys" using Cons.prems(1) by (cases D) (auto simp: same_docs_def)
  with Cons.prems(1) have s: "same_docs xs ys" and i: "doc_id x = doc_id y" and n: "item_name x = item_name y"
    and p: "item_path x = item_path y" by (simp_all add: same_docs_def)
  have "f x = f y" by (rule Cons.prems(2) [OF i n p])
  moreover have "map f xs = map f ys" by (rule Cons.IH [OF s Cons.prems(2)])
  ultimately show ?case by (simp only: D list.map)
qed

lemma same_docs_dkey: "same_docs xs D \<Longrightarrow> map dkey xs = map dkey D"
  by (erule same_docs_map) (simp only: dkey_def class_of_def)

lemma same_docs_filter:
  "same_docs xs D \<Longrightarrow> length (filter (\<lambda>d. fst (class_of d) = c) xs) = length (filter (\<lambda>d. fst (class_of d) = c) D)"
proof -
  assume "same_docs xs D"
  then have "map (\<lambda>d. fst (class_of d) = c) xs = map (\<lambda>d. fst (class_of d) = c) D"
    by (rule same_docs_map) (simp only: class_of_def)
  then have "length (filter id (map (\<lambda>d. fst (class_of d) = c) xs)) = length (filter id (map (\<lambda>d. fst (class_of d) = c) D))"
    by (simp only:)
  then show ?thesis by (simp add: filter_map comp_def)
qed


subsection \<open>The invariant of the paging loop\<close>

lemma flush_fields:
  assumes "faults (ix st) = []" and "flush st = Inr st'"
  shows "docs (ix st') = fst (merge_items (docs (ix st)) (batch_updates st)) \<and> faults (ix st') = []
    \<and> batch_updates st' = [] \<and> skip st' = skip st \<and> by_category (stats st') = by_category (stats st)"
proof -
  obtain ds oks where m: "merge_items (docs (ix st)) (batch_updates st) = (ds, oks)" by (metis prod.exhaust)
  have "svc_index (ix st) (batch_updates st) = Inr ((ix st)\<lparr>docs := ds\<rparr>, if list_all id oks then 200 else 207, oks)"
    using assms(1) m by (simp add: svc_index_fault_free fault_of_def)
  with assms m show ?thesis
    by (auto simp: flush_def update_documents_batch_def send_def Let_def split: if_splits)
qed

lemma sync_inv_send [simp]: "sync_inv D (st\<lparr>ix := send q (ix st)\<rparr>) = sync_inv D st"
  by (simp add: sync_inv_def send_def)

lemma sync_inv_flush:
  assumes "sync_inv D (st\<lparr>skip := s\<rparr>)" and "flush st = Inr st'"
  shows "sync_inv D (st'\<lparr>skip := s\<rparr>) \<and> batch_updates st' = []"
proof -
  from assms(1) obtain F where f0: "faults (ix st) = []" and sd: "same_docs (docs (ix st)) D"
    and c: "map doc_category (docs (ix st)) = map (cat_after F) D"
    and k: "F @ map ukey (batch_updates st) = map dkey (take (nat s) D)"
    by (auto simp: sync_inv_def)
  note fl = flush_fields [OF f0 assms(2)]
  have "map doc_category (docs (ix st')) = map (cat_after (F @ map ukey (batch_updates st))) D"
    using fl categories_merge_items [OF _ c] sd by (simp add: same_docs_def)
  with assms(1) fl sd k show ?thesis by (auto simp: sync_inv_def same_docs_merge_items)
qed

lemma sync_inv_maybe_flush:
  "sync_inv D (st\<lparr>skip := s\<rparr>) \<Longrightarrow> maybe_flush cfg st = Inr st' \<Longrightarrow> sync_inv D (st'\<lparr>skip := s\<rparr>)"
  by (auto simp: maybe_flush_def dest: sync_inv_flush split: if_splits)

lemma same_docs_take_drop:
  "same_docs xs D \<Longrightarrow> same_docs (take n (drop m xs)) (take n (drop m D))"
  by (simp add: same_docs_def flip: take_map drop_map)

lemma sync_inv_page:
  assumes "sync_inv D st" and "0 \<le> bs"
    and "process_docs cfg st (take (nat bs) (drop (nat (skip st)) (docs (ix st)))) = Inr st2"
  shows "sync_inv D (st2\<lparr>skip := skip st + bs\<rparr>)"
proof -
  let ?pg = "take (nat bs) (drop (nat (skip st)) (docs (ix st)))"
  let ?PG = "take (nat bs) (drop (nat (skip st)) D)"
  from assms(1) obtain F where sd: "same_docs (docs (ix st)) D" and sk: "0 \<le> skip st"
    and f0: "faults (ix st) = []" and c: "map doc_category (docs (ix st)) = map (cat_after F) D"
    and k: "F @ map ukey (batch_updates st) = map dkey (take (nat (skip st)) D)"
    and n: "\<forall>c. dict_get0 (by_category (stats st)) c = length (filter (\<lambda>d. fst (class_of d) = c) (take (nat (skip st)) D))"
    by (auto simp: sync_inv_def)
  note p = process_docs_keys [OF assms(3)]
  have pg: "map dkey ?pg = map dkey ?PG" "length (filter (\<lambda>d. fst (class_of d) = c) ?pg)
      = length (filter (\<lambda>d. fst (class_of d) = c) ?PG)" for c
    using same_docs_take_drop [OF sd] by (simp_all add: same_docs_dkey same_docs_filter)
  have tk: "take (nat (skip st + bs)) D = take (nat (skip st)) D @ ?PG"
    using sk assms(2) by (simp add: nat_add_distrib take_add)
  have "F @ map ukey (batch_updates st2) = map dkey (take (nat (skip st + bs)) D)"
    using p k pg(1) tk by simp
  moreover have "\<forall>c. dict_get0 (by_category (stats st2)) c
      = length (filter (\<lambda>d. fst (class_of d) = c) (take (nat (skip st + bs)) D))"
    using p n pg(2) tk by simp
  ultimately show ?thesis using p sd sk assms(2) f0 c unfolding sync_inv_def by auto
qed


lemma docs_send [simp]: "docs (send q i) = docs i" "faults (send q i) = faults i"
  by (simp_all add: send_def)

lemma sync_inv_len: "sync_inv D st \<Longrightarrow> length (docs (ix st)) = length D"
  unfolding sync_inv_def same_docs_def by (metis length_map)

lemma sync_inv_search:
  assumes "sync_inv D st" and "reclassify_all cfg" and "0 < batch_size cfg"
    and "search_documents (ix st) (skip st) (batch_size cfg) (\<not> reclassify_all cfg) = (i, Inr (ValueCount ds c))"
  shows "i = send (SearchReq (skip st) (batch_size cfg) False) (ix st)
    \<and> ds = take (nat (batch_size cfg)) (drop (nat (skip st)) (docs (ix st)))"
proof -
  from assms(1) have f0: "faults (ix st) = []" and sk: "0 \<le> skip st" by (simp_all add: sync_inv_def)
  show ?thesis using assms(4) search_documents_all [OF f0 sk, of "batch_size cfg"] assms(2,3) by simp
qed

lemma page_loop_sync:
  assumes "reclassify_all cfg" and "0 < batch_size cfg"
    and "page_loop cfg (length D) st = Inr st'" and "sync_inv D st"
  shows "sync_inv D st' \<and> \<not> skip st' < int (length D)"
proof (rule page_loop_rule [where P = "sync_inv D" and Q = "\<lambda>s. sync_inv D s \<and> \<not> skip s < int (length D)", OF assms(3,4)])
  fix st i ds c st2 st3
  assume inv: "sync_inv D st"
    and s: "search_documents (ix st) (skip st) (batch_size cfg) (\<not> reclassify_all cfg) = (i, Inr (ValueCount ds c))"
    and p: "process_docs cfg (st\<lparr>ix := i\<rparr>) ds = Inr st2" and m: "maybe_flush cfg st2 = Inr st3"
  note q = sync_inv_search [OF inv assms(1,2) s]
  have inv': "sync_inv D (st\<lparr>ix := i\<rparr>)" using inv q by simp
  have "process_docs cfg (st\<lparr>ix := i\<rparr>) (take (nat (batch_size cfg)) (drop (nat (skip (st\<lparr>ix := i\<rparr>))) (docs (ix (st\<lparr>ix := i\<rparr>))))) = Inr st2"
    using p q by simp
  then have "sync_inv D (st2\<lparr>skip := skip (st\<lparr>ix := i\<rparr>) + batch_size cfg\<rparr>)"
    using sync_inv_page [OF inv'] assms(2) by simp
  then show "sync_inv D (st3\<lparr>skip := skip st + batch_size cfg\<rparr>)" using sync_inv_maybe_flush [OF _ m] by simp
next
  fix st i c
  assume inv: "sync_inv D st" and lt: "skip st < int (length D)"
    and s: "search_documents (ix st) (skip st) (batch_size cfg) (\<not> reclassify_all cfg) = (i, Inr (ValueCount [] c))"
  have sk: "0 \<le> skip st" using inv by (simp add: sync_inv_def)
  have "take (nat (batch_size cfg)) (drop (nat (skip st)) (docs (ix st))) = []"
    using sync_inv_search [OF inv assms(1,2) s] by simp
  moreover have "nat (skip st) < length (docs (ix st))" using lt sk sync_inv_len [OF inv] by simp
  ultimately have False using assms(2) by simp
  then show "sync_inv D (st\<lparr>ix := i\<rparr>) \<and> \<not> skip (st\<lparr>ix := i\<rparr>) < int (length D)" ..
next
  fix st
  assume "sync_inv D st" and "\<not> skip st < int (length D)"
  then show "sync_inv D st \<and> \<not> skip st < int (length D)" ..
qed

lemma final_flush_sync:
  assumes "sync_inv D st" and "\<not> dry_run cfg" and "final_flush cfg st = Inr st'"
  shows "sync_inv D st' \<and> batch_updates st' = [] \<and> skip st' = skip st"
proof (cases "batch_updates st = []")
  case True
  then have "st' = st" using assms(3) by (simp add: final_flush_def)
  then show ?thesis using assms(1) True by simp
next
  case False
  then have f: "flush st = Inr st'" using assms(2,3) by (simp add: final_flush_def)
  have f0: "faults (ix st) = []" using assms(1) by (simp add: sync_inv_def)
  have sk: "skip st' = skip st" using flush_fields [OF f0 f] by blast
  have "sync_inv D (st\<lparr>skip := skip st\<rparr>)" using assms(1) by simp
  then have "sync_inv D (st'\<lparr>skip := skip st\<rparr>) \<and> batch_updates st' = []" by (rule sync_inv_flush [OF _ f])
  then show ?thesis using sk by (metis run_state.surjective run_state.update_convs(3))
qed


subsection \<open>After the whole index has been flushed\<close>

lemma foldl_cat_step:
  "foldl (cat_step k) c ps =
     (if filter (\<lambda>p. fst p = Some k) ps = [] then c else Some (snd (last (filter (\<lambda>p. fst p = Some k) ps))))"
  by (induction ps rule: rev_induct) (simp_all add: cat_step_def)

lemma filter_distinct_key:
  "distinct (map f D) \<Longrightarrow> d \<in> set D \<Longrightarrow> filter (\<lambda>x. f x = f d) D = [d]"
proof (induction D)
  case (Cons x D)
  show ?case
  proof (cases "x = d")
    case True
    with Cons.prems have "filter (\<lambda>y. f y = f d) D = []" by (auto simp: filter_empty_conv image_iff)
    with True show ?thesis by simp
  next
    case False
    with Cons.prems have "f x \<noteq> f d" and "d \<in> set D" and "distinct (map f D)" by auto
    with Cons.IH show ?thesis by simp
  qed
qed simp

lemma cat_after_dkeys:
  assumes "distinct (map doc_id D)" and "d \<in> set D"
  shows "cat_after (map dkey D) d = Some (fst (class_of d))"
proof -
  have "filter (\<lambda>p. fst p = Some (doc_id d)) (map dkey D) = map dkey (filter (\<lambda>x. doc_id x = doc_id d) D)"
    by (simp add: filter_map comp_def dkey_def)
  also have "\<dots> = [dkey d]" using filter_distinct_key [OF assms] by simp
  finally show ?thesis by (simp add: cat_after_def foldl_cat_step dkey_def)
qed

lemma sync_inv_done:
  assumes "sync_inv D st" and "batch_updates st = []" and "\<not> skip st < int (length D)"
    and "distinct (map doc_id D)"
  shows "map doc_category (docs (ix st)) = map (\<lambda>d. Some (fst (class_of d))) D
    \<and> (\<forall>c. dict_get0 (by_category (stats st)) c = length (filter (\<lambda>d. fst (class_of d) = c) D))"
proof -
  have tk: "take (nat (skip st)) D = D" using assms(3) by simp
  from assms(1,2) obtain F where c: "map doc_category (docs (ix st)) = map (cat_after F) D"
    and k: "F = map dkey D"
    and n: "\<forall>c. dict_get0 (by_category (stats st)) c = length (filter (\<lambda>d. fst (class_of d) = c) D)"
    unfolding sync_inv_def tk by auto
  have "map (cat_after (map dkey D)) D = map (\<lambda>d. Some (fst (class_of d))) D"
    using cat_after_dkeys [OF assms(4)] by simp
  with c k n show ?thesis by simp
qed

lemma sync_inv_init:
  "faults i = [] \<Longrightarrow> sync_inv (docs i) (init_state i)"
  by (auto simp: sync_inv_def init_state_def init_stats_def same_docs_def cat_after_def dict_get0_def)


lemma run_classification_sync:
  assumes "reclassify_all cfg" and "\<not> dry_run cfg" and "0 < batch_size cfg" and "faults ix0 = []"
    and "\<forall>d \<in> set (docs ix0). item_name d \<noteq> None" and "docs ix0 \<noteq> []"
  shows "\<exists>st. run_classification cfg ix0 = Inr (Completed st) \<and> sync_inv (docs ix0) st
     \<and> batch_updates st = [] \<and> \<not> skip st < int (length (docs ix0))"
proof -
  let ?D = "docs ix0"
  let ?i = "send (SearchReq 0 1 False) ix0"
  have s: "search_documents ix0 0 1 (\<not> reclassify_all cfg) = (?i, Inr (ValueCount (take 1 ?D) (length ?D)))"
    using search_documents_all [OF assms(4)] assms(1) by simp
  have "None \<notin> set (map item_name ?D)" using assms(5) by auto
  then obtain st1 where pl: "page_loop cfg (length ?D) (init_state ?i) = Inr st1"
    using page_loop_complete [OF assms(1,3), of "init_state ?i" "map item_name ?D" "length ?D"] assms(4)
    by (auto simp: init_state_def init_stats_def send_def)
  have inv0: "sync_inv ?D (init_state ?i)" using sync_inv_init [of ?i] assms(4) by simp
  have l1: "sync_inv ?D st1 \<and> \<not> skip st1 < int (length ?D)" by (rule page_loop_sync [OF assms(1,3) pl inv0])
  have f1: "faults (ix st1) = []" using l1 by (simp add: sync_inv_def)
  obtain st where fin: "final_flush cfg st1 = Inr st" using final_flush_fault_free [OF f1] by blast
  have l2: "sync_inv ?D st \<and> batch_updates st = [] \<and> skip st = skip st1"
    using final_flush_sync [OF conjunct1 [OF l1] assms(2) fin] .
  have "run_classification cfg ix0 = Inr (Completed st)" using s pl fin assms(6) by (simp add: run_classification_def)
  with l1 l2 show ?thesis by auto
qed

lemma length_filter_map_eq:
  "map f xs = map g ys \<Longrightarrow> length (filter (\<lambda>x. P (f x)) xs) = length (filter (\<lambda>y. P (g y)) ys)"
proof -
  assume "map f xs = map g ys"
  then have "length (filter P (map f xs)) = length (filter P (map g ys))" by simp
  then show ?thesis by (simp add: filter_map comp_def)
qed

lemma value_counts_keys:
  "set (map fst (fold (\<lambda>d t. case f d of None \<Rightarrow> t | Some v \<Rightarrow> dict_incr t v) ds t0))
     \<subseteq> set (map fst t0) \<union> {v. Some v \<in> f ` set ds}"
proof (induction ds arbitrary: t0)
  case (Cons d ds)
  show ?case
  proof (cases "f d")
    case (Some v)
    have "set (map fst (dict_incr t0 v)) = insert v (set (map fst t0))" by (auto simp: dict_incr_def)
    then show ?thesis using Cons.IH [of "dict_incr t0 v"] Some by auto
  qed (use Cons.IH [of t0] in auto)
qed simp

lemma category_values:
  "card ((\<lambda>d. fst (class_of d)) ` set D) \<le> Suc (length CLASSIFICATION_RULES)"
proof -
  let ?C = "(\<lambda>r. (category r, level r)) ` set CLASSIFICATION_RULES"
  have "(\<lambda>d. fst (class_of d)) ` set D \<subseteq> fst ` insert default_class ?C"
    using classify_spec_range by (fastforce simp: class_of_def)
  then have "card ((\<lambda>d. fst (class_of d)) ` set D) \<le> card (fst ` insert default_class ?C)"
    by (rule card_mono [rotated]) simp
  also have "\<dots> \<le> card (insert default_class ?C)" by (rule card_image_le) simp
  also have "\<dots> \<le> Suc (card ?C)" by (simp add: card_insert_if)
  also have "card ?C \<le> length CLASSIFICATION_RULES"
    using card_image_le [of "set CLASSIFICATION_RULES" "\<lambda>r. (category r, level r)"] card_length [of CLASSIFICATION_RULES]
    by (rule le_trans [OF _ _]) simp
  finally show ?thesis by simp
qed

lemma value_counts_classified:
  assumes "map doc_category xs = map (\<lambda>d. Some (fst (class_of d))) D"
  shows "length (value_counts doc_category xs) \<le> Suc (length CLASSIFICATION_RULES)"
proof -
  let ?vc = "value_counts doc_category xs"
  have e: "doc_category ` set xs = (\<lambda>d. Some (fst (class_of d))) ` set D"
    using arg_cong [OF assms, of set] by (simp only: set_map)
  have "set (map fst ?vc) \<subseteq> {v. Some v \<in> doc_category ` set xs}"
    using value_counts_keys [of doc_category xs "[]"] by (simp add: value_counts_def)
  also have "{v. Some v \<in> doc_category ` set xs} = (\<lambda>d. fst (class_of d)) ` set D"
    unfolding e by auto
  finally have k: "set (map fst ?vc) \<subseteq> (\<lambda>d. fst (class_of d)) ` set D" .
  have d: "distinct (map fst ?vc)"
    using value_counts_distinct [of "[]" doc_category xs] by (simp add: value_counts_def)
  have "length ?vc = card (set (map fst ?vc))" by (simp only: distinct_card [OF d] length_map)
  also have "\<dots> \<le> card ((\<lambda>d. fst (class_of d)) ` set D)" using k by (rule card_mono [rotated]) simp
  also have "\<dots> \<le> Suc (length CLASSIFICATION_RULES)" by (rule category_values)
  finally show ?thesis .
qed



subsection \<open>Properties of the composed run\<close>

text \<open>C25. A live run over the whole index writes the rule engine's classification
  into every document: when the service answers every request, the batch size is
  positive, every document has a name and the ids are distinct, the run completes,
  each document's category is the one \<open>classify_document\<close> computes from its path and
  name, and the run's category table counts the documents of each category.\<close>

theorem run_classification_reclassifies:
  assumes "reclassify_all cfg" and "\<not> dry_run cfg" and "0 < batch_size cfg" and "faults ix0 = []"
    and "\<forall>d \<in> set (docs ix0). item_name d \<noteq> None" and "docs ix0 \<noteq> []"
    and "distinct (map doc_id (docs ix0))"
  shows "\<exists>st. run_classification cfg ix0 = Inr (Completed st)
     \<and> map doc_category (docs (ix st)) = map (\<lambda>d. Some (fst (class_of d))) (docs ix0)
     \<and> (\<forall>c. dict_get0 (by_category (stats st)) c = length (filter (\<lambda>d. fst (class_of d) = c) (docs ix0)))"
proof -
  obtain st where r: "run_classification cfg ix0 = Inr (Completed st)" and inv: "sync_inv (docs ix0) st"
    and b: "batch_updates st = []" and sk: "\<not> skip st < int (length (docs ix0))"
    using run_classification_sync [OF assms(1-6)] by blast
  show ?thesis using r sync_inv_done [OF inv b sk assms(7)] by blast
qed

theorem run_classification_reclassifies_witness:
  "\<exists>st. run_classification (sample_cfg True False 2)
          (sample_index [] [sample_doc ''1'' (Some ''a.pdf'') None None, sample_doc ''2'' (Some ''b.pdf'') None None,
                            sample_doc ''3'' (Some ''c.pdf'') None None])
        = Inr (Completed st)
     \<and> map doc_category (docs (ix st))
         = map (\<lambda>d. Some (fst (class_of d))) [sample_doc ''1'' (Some ''a.pdf'') None None,
             sample_doc ''2'' (Some ''b.pdf'') None None, sample_doc ''3'' (Some ''c.pdf'') None None]
     \<and> (\<forall>c. dict_get0 (by_category (stats st)) c
         = length (filter (\<lambda>d. fst (class_of d) = c) [sample_doc ''1'' (Some ''a.pdf'') None None,
             sample_doc ''2'' (Some ''b.pdf'') None None, sample_doc ''3'' (Some ''c.pdf'') None None]))"
  using run_classification_reclassifies [of "sample_cfg True False 2"
      "sample_index [] [sample_doc ''1'' (Some ''a.pdf'') None None, sample_doc ''2'' (Some ''b.pdf'') None None,
                        sample_doc ''3'' (Some ''c.pdf'') None None]"]
  by (simp add: sample_cfg_def sample_index_def sample_doc_def)

text \<open>C26. The statistics agree with the run: after such a run, the facet query of
  \<open>get_classification_stats\<close> is answered, reports every document, and gives every
  category the count the run printed in its own table.  The rule table has 22
  categories and the default, so the facet limit of 50 never truncates it.\<close>

theorem run_then_stats_agree:
  assumes "reclassify_all cfg" and "\<not> dry_run cfg" and "0 < batch_size cfg" and "faults ix0 = []"
    and "\<forall>d \<in> set (docs ix0). item_name d \<noteq> None" and "docs ix0 \<noteq> []"
    and "distinct (map doc_id (docs ix0))"
  shows "\<exists>st s. run_classification cfg ix0 = Inr (Completed st)
     \<and> snd (get_classification_stats (ix st)) = Inr (Some s) \<and> total_documents s = length (docs ix0)
     \<and> (\<forall>c. dict_get0 (st_by_category s) c = dict_get0 (by_category (stats st)) c)"
proof -
  let ?D = "docs ix0"
  obtain st where r: "run_classification cfg ix0 = Inr (Completed st)" and inv: "sync_inv ?D st"
    and b: "batch_updates st = []" and sk: "\<not> skip st < int (length ?D)"
    using run_classification_sync [OF assms(1-6)] by blast
  note fin = sync_inv_done [OF inv b sk assms(7)]
  have f: "fault_of (ix st) = None" using inv by (simp add: sync_inv_def fault_of_def)
  have "length (value_counts doc_category (docs (ix st))) \<le> Suc (length CLASSIFICATION_RULES)"
    using value_counts_classified fin by blast
  then have vc: "length (value_counts doc_category (docs (ix st))) \<le> 50" by (simp add: CLASSIFICATION_RULES_def)
  have "dict_get0 (facet doc_category 50 (docs (ix st))) c = dict_get0 (by_category (stats st)) c" for c
  proof -
    have "dict_get0 (facet doc_category 50 (docs (ix st))) c
        = length (filter (\<lambda>d. doc_category d = Some c) (docs (ix st)))" by (rule facet_counts [OF vc])
    also have "\<dots> = length (filter (\<lambda>d. Some (fst (class_of d)) = Some c) ?D)"
      using length_filter_map_eq [where P = "\<lambda>x. x = Some c"] fin by blast
    finally show ?thesis using fin by simp
  qed
  then show ?thesis using r get_classification_stats_answered [OF f] sync_inv_len [OF inv] by simp
qed

theorem run_then_stats_agree_witness:
  "\<exists>st s. run_classification (sample_cfg True False 2)
          (sample_index [] [sample_doc ''1'' (Some ''a.pdf'') None None, sample_doc ''2'' (Some ''b.pdf'') None None])
        = Inr (Completed st)
     \<and> snd (get_classification_stats (ix st)) = Inr (Some s) \<and> total_documents s = 2
     \<and> (\<forall>c. dict_get0 (st_by_category s) c = dict_get0 (by_category (stats st)) c)"
  using run_then_stats_agree [of "sample_cfg True False 2"
      "sample_index [] [sample_doc ''1'' (Some ''a.pdf'') None None, sample_doc ''2'' (Some ''b.pdf'') None None]"]
  by (simp add: sample_cfg_def sample_index_def sample_doc_def numeral_2_eq_2)

end
