(* ===== verification/Pagination.thy ===== *)
theory Pagination
  imports Sync
begin

text \<open>
  The default mode of \<open>run_classification\<close> (unclassified documents only, live).  The
  pages are taken from the filtered result set \<open>document_category eq null or
  document_category eq ''\<close>, every flush removes the documents it writes from that set,
  and \<open>skip\<close> still advances by \<open>batch_size\<close>.  The invariant \<open>skip_inv\<close> follows the
  document at position \<open>batch_size\<close> of the index: after the first page has been
  flushed it is the first document of the result set, every later page starts behind
  it, and no update ever carries its key.
\<close>

definition skip_inv :: "nat \<Rightarrow> idx_doc list \<Rightarrow> run_state \<Rightarrow> bool" where
  "skip_inv b D st =
     (faults (ix st) = [] \<and> map doc_id (docs (ix st)) = map doc_id D \<and> docs (ix st) ! b = D ! b
      \<and> (\<forall>p \<in> set (map ukey (batch_updates st)). fst p \<noteq> Some (doc_id (D ! b)) \<and> snd p \<noteq> [])
      \<and> (skip st = 0 \<and> docs (ix st) = D \<and> batch_updates st = []
         \<or> int b \<le> skip st \<and> (\<forall>j < b. \<not> unclassified (docs (ix st) ! j))))"

subsection \<open>Searches and pages of a service that answers\<close>

lemma search_documents_fault_free:
  "faults i = [] \<Longrightarrow> 0 \<le> sk \<Longrightarrow> 0 \<le> tp \<Longrightarrow>
   search_documents i sk tp u =
     (send (SearchReq sk tp u) i,
      Inr (ValueCount (take (nat tp) (drop (nat sk) (scope u (docs i)))) (length (scope u (docs i)))))"
  by (simp add: search_documents_def svc_search_def fault_of_def Let_def)

lemma in_page_docs: "d \<in> set (take a (drop b (scope u ds))) \<Longrightarrow> d \<in> set ds"
  by (auto simp: scope_def split: if_splits dest!: in_set_takeD in_set_dropD)

text \<open>With named documents and a service that answers, the loop returns, in any mode.\<close>

lemma page_loop_total:
  assumes "0 < batch_size cfg"
  shows "faults (ix st) = [] \<Longrightarrow> None \<notin> set (map item_name (docs (ix st))) \<Longrightarrow> 0 \<le> skip st \<Longrightarrow>
    \<exists>st'. page_loop cfg n st = Inr st' \<and> faults (ix st') = []"
proof (induction "nat (int n - skip st)" arbitrary: st rule: less_induct)
  case less
  show ?case
  proof (cases "skip st < int n")
    case False
    with less.prems(1) show ?thesis by (simp add: page_loop_done)
  next
    case lt: True
    let ?u = "\<not> reclassify_all cfg"
    let ?page = "take (nat (batch_size cfg)) (drop (nat (skip st)) (scope ?u (docs (ix st))))"
    let ?i = "send (SearchReq (skip st) (batch_size cfg) ?u) (ix st)"
    have s: "search_documents (ix st) (skip st) (batch_size cfg) ?u
               = (?i, Inr (ValueCount ?page (length (scope ?u (docs (ix st))))))"
      using search_documents_fault_free [OF less.prems(1) less.prems(3)] assms by simp
    show ?thesis
    proof (cases "?page = []")
      case True
      with less.prems(1) show ?thesis by (simp add: page_loop_step [OF lt s])
    next
      case ne: False
      have named: "\<forall>d \<in> set ?page. item_name d \<noteq> None"
      proof
        fix d assume "d \<in> set ?page"
        then have "item_name d \<in> set (map item_name (docs (ix st)))" by (auto dest: in_page_docs)
        with less.prems(2) show "item_name d \<noteq> None" by metis
      qed
      obtain st2 where p: "process_docs cfg (st\<lparr>ix := ?i\<rparr>) ?page = Inr st2" and i2: "ix st2 = ?i"
        and k2: "skip st2 = skip st"
        using process_docs_named [OF named, of cfg "st\<lparr>ix := ?i\<rparr>"] by auto
      obtain st3 where m: "maybe_flush cfg st2 = Inr st3" and f3: "faults (ix st3) = []"
        and n3: "map item_name (docs (ix st3)) = map item_name (docs (ix st))"
        using maybe_flush_fault_free [of st2 cfg] less.prems(1) i2 by auto
      let ?st4 = "st3\<lparr>skip := skip st + batch_size cfg\<rparr>"
      have dec: "nat (int n - skip ?st4) < nat (int n - skip st)" using lt assms by simp
      obtain st' where "page_loop cfg n ?st4 = Inr st'" "faults (ix st') = []"
        using less.hyps [OF dec] f3 n3 less.prems(2,3) assms by fastforce
      then show ?thesis using ne p m by (simp add: page_loop_step [OF lt s])
    qed
  qed
qed

subsection \<open>What a flush does to the documents\<close>

lemma class_of_nonempty: "fst (class_of d) \<noteq> []"
proof -
  have "class_of d \<in> insert default_class ((\<lambda>r. (category r, level r)) ` set CLASSIFICATION_RULES)"
    unfolding class_of_def by (rule classify_spec_range)
  moreover have "\<forall>x \<in> insert default_class ((\<lambda>r. (category r, level r)) ` set CLASSIFICATION_RULES). fst x \<noteq> []"
    by (simp add: CLASSIFICATION_RULES_def default_class_def)
  ultimately show ?thesis by blast
qed

lemma foldl_merge_doc_untouched:
  "\<forall>p \<in> set (map ukey us). fst p \<noteq> Some (doc_id d) \<Longrightarrow> foldl merge_doc d us = d"
  by (induction us) (simp_all add: merge_doc_def ukey_def)

lemma foldl_merge_doc_classified:
  assumes "\<forall>p \<in> set (map ukey us). snd p \<noteq> []"
    and "(\<exists>u \<in> set us. upd_id u = Some (doc_id d)) \<or> \<not> unclassified d"
  shows "\<not> unclassified (foldl merge_doc d us)"
proof (cases "filter (\<lambda>p. fst p = Some (doc_id d)) (map ukey us) = []")
  case True
  then have "\<forall>u \<in> set us. upd_id u \<noteq> Some (doc_id d)" by (auto simp: filter_empty_conv ukey_def)
  with True assms(2) show ?thesis
    by (simp add: unclassified_def foldl_merge_doc_category foldl_cat_step)
next
  case False
  then have "last (filter (\<lambda>p. fst p = Some (doc_id d)) (map ukey us)) \<in> set (map ukey us)"
    using last_in_set by fastforce
  with assms(1) have "snd (last (filter (\<lambda>p. fst p = Some (doc_id d)) (map ukey us))) \<noteq> []" by blast
  with False show ?thesis
    by (simp add: unclassified_def foldl_merge_doc_category foldl_cat_step)
qed

text \<open>A flush or no flush: the documents after \<open>maybe_flush\<close> are those before, merged
  with some list of updates (the batch, or nothing).\<close>

lemma maybe_flush_merges:
  assumes "faults (ix st) = []" and "maybe_flush cfg st = Inr st'"
  shows "\<exists>us. docs (ix st') = map (\<lambda>d. foldl merge_doc d us) (docs (ix st)) \<and> set us \<subseteq> set (batch_updates st)
    \<and> faults (ix st') = [] \<and> skip st' = skip st \<and> set (batch_updates st') \<subseteq> set (batch_updates st)
    \<and> (\<not> dry_run cfg \<and> batch_size cfg \<le> int (length (batch_updates st)) \<longrightarrow> us = batch_updates st)"
proof (cases "\<not> dry_run cfg \<and> batch_size cfg \<le> int (length (batch_updates st))")
  case True
  with assms have "flush st = Inr st'" by (simp add: maybe_flush_def)
  from flush_fields [OF assms(1) this] True show ?thesis by (auto simp: merge_items_map)
next
  case False
  with assms have "st' = st" by (simp add: maybe_flush_def)
  with assms False show ?thesis by (intro exI [of _ "[]"]) auto
qed

lemma filter_unclassified_at:
  assumes "b < length xs" and "\<forall>j < b. \<not> unclassified (xs ! j)" and "unclassified (xs ! b)"
  shows "filter unclassified xs = xs ! b # filter unclassified (drop (Suc b) xs)"
proof -
  have e: "xs = take b xs @ xs ! b # drop (Suc b) xs" using assms(1) by (rule id_take_nth_drop)
  have "filter unclassified (take b xs) = []"
    using assms(2) by (auto simp: filter_empty_conv in_set_conv_nth)
  then have "filter unclassified (take b xs @ xs ! b # drop (Suc b) xs) = xs ! b # filter unclassified (drop (Suc b) xs)"
    using assms(3) by simp
  then show ?thesis by (simp only: e [symmetric])
qed

lemma distinct_key_nth:
  assumes "distinct (map f xs)" and "b < length xs"
  shows "\<forall>d \<in> set (take b xs) \<union> set (drop (Suc b) xs). f d \<noteq> f (xs ! b)"
proof -
  have e: "xs = take b xs @ xs ! b # drop (Suc b) xs" using assms(2) by (rule id_take_nth_drop)
  from assms(1) have "distinct (map f (take b xs @ xs ! b # drop (Suc b) xs))" by (simp only: e [symmetric])
  then have "f (xs ! b) \<notin> f ` (set (take b xs) \<union> set (drop (Suc b) xs))" by auto
  then show ?thesis by (metis image_eqI)
qed

subsection \<open>The document at position \<open>batch_size\<close>\<close>

text \<open>No page reaches it: the first page is the documents before it, and once those are
  classified it heads the result set, which every later page skips.\<close>

lemma page_avoids_doc:
  assumes "b < length xs" and "distinct (map doc_id xs)" and "unclassified (xs ! b)" and "0 < b"
    and "sk = 0 \<and> (\<forall>d \<in> set xs. unclassified d) \<or> int b \<le> sk \<and> (\<forall>j < b. \<not> unclassified (xs ! j))"
  shows "\<forall>d \<in> set (take b (drop (nat sk) (filter unclassified xs))). doc_id d \<noteq> doc_id (xs ! b)"
  using assms(5)
proof (elim disjE conjE)
  assume "sk = 0" and "\<forall>d \<in> set xs. unclassified d"
  then have "take b (drop (nat sk) (filter unclassified xs)) = take b xs" by simp
  then show ?thesis using distinct_key_nth [OF assms(2,1)] by simp
next
  assume sk: "int b \<le> sk" and cl: "\<forall>j < b. \<not> unclassified (xs ! j)"
  have f: "filter unclassified xs = xs ! b # filter unclassified (drop (Suc b) xs)"
    by (rule filter_unclassified_at [OF assms(1) cl assms(3)])
  have "0 < nat sk" using sk assms(4) by simp
  then have "drop (nat sk) (filter unclassified xs) = drop (nat sk - 1) (filter unclassified (drop (Suc b) xs))"
    by (simp add: f drop_Cons')
  then have "set (take b (drop (nat sk) (filter unclassified xs))) \<subseteq> set (drop (Suc b) xs)"
    by (auto dest!: in_set_takeD in_set_dropD)
  then show ?thesis using distinct_key_nth [OF assms(2,1)] by blast
qed

lemma merged_ids: "map doc_id (map (\<lambda>d. foldl merge_doc d us) xs) = map doc_id xs"
  by (simp add: comp_def)

text \<open>One page keeps the invariant.\<close>

lemma skip_inv_step:
  assumes inv: "skip_inv b D st" and bs: "int b = batch_size cfg" and bpos: "0 < batch_size cfg"
    and len: "b < length D" and unc: "\<forall>d \<in> set D. unclassified d" and dist: "distinct (map doc_id D)"
    and live: "\<not> dry_run cfg" "\<not> reclassify_all cfg"
    and s: "search_documents (ix st) (skip st) (batch_size cfg) (\<not> reclassify_all cfg) = (i, Inr (ValueCount ds c))"
    and p: "process_docs cfg (st\<lparr>ix := i\<rparr>) ds = Inr st2" and m: "maybe_flush cfg st2 = Inr st3"
  shows "skip_inv b D (st3\<lparr>skip := skip st + batch_size cfg\<rparr>)"
proof -
  let ?k = "doc_id (D ! b)"
  from inv have f0: "faults (ix st) = []" and ids: "map doc_id (docs (ix st)) = map doc_id D"
    and xb: "docs (ix st) ! b = D ! b"
    and g0: "\<forall>p \<in> set (map ukey (batch_updates st)). fst p \<noteq> Some ?k \<and> snd p \<noteq> []"
    and cs: "skip st = 0 \<and> docs (ix st) = D \<and> batch_updates st = []
             \<or> int b \<le> skip st \<and> (\<forall>j < b. \<not> unclassified (docs (ix st) ! j))"
    unfolding skip_inv_def by blast+
  have lenx: "b < length (docs (ix st))" using len ids by (metis length_map)
  have distx: "distinct (map doc_id (docs (ix st)))" using dist ids by simp
  have b0: "0 < b" and nb: "nat (batch_size cfg) = b" using bs bpos by simp_all
  have sk0: "0 \<le> skip st" using cs by auto
  have i: "i = send (SearchReq (skip st) (batch_size cfg) True) (ix st)"
    and ds: "ds = take b (drop (nat (skip st)) (filter unclassified (docs (ix st))))"
    using s search_documents_fault_free [OF f0 sk0, of "batch_size cfg" True] bpos live nb
    by (simp_all add: scope_def)
  have ux: "unclassified (docs (ix st) ! b)" using xb unc len by simp
  have dsid: "\<forall>d \<in> set ds. doc_id d \<noteq> ?k"
    using page_avoids_doc [OF lenx distx ux b0, of "skip st"] cs unc xb ds by auto
  note k2 = process_docs_keys [OF p]
  have g2: "\<forall>p \<in> set (map ukey (batch_updates st2)). fst p \<noteq> Some ?k \<and> snd p \<noteq> []"
    using g0 dsid class_of_nonempty k2 by (auto simp: dkey_def)
  have d2: "docs (ix st2) = docs (ix st)" and f2: "faults (ix st2) = []" using k2 i f0 by simp_all
  obtain us where m3: "docs (ix st3) = map (\<lambda>d. foldl merge_doc d us) (docs (ix st))"
    and sub: "set us \<subseteq> set (batch_updates st2)" and f3: "faults (ix st3) = []"
    and sub3: "set (batch_updates st3) \<subseteq> set (batch_updates st2)"
    and full: "batch_size cfg \<le> int (length (batch_updates st2)) \<longrightarrow> us = batch_updates st2"
    using maybe_flush_merges [OF f2 m] d2 live by auto
  have gus: "\<forall>p \<in> set (map ukey us). fst p \<noteq> Some ?k \<and> snd p \<noteq> []" using g2 sub by auto
  have xb3: "docs (ix st3) ! b = D ! b"
    using gus xb lenx by (simp add: m3 foldl_merge_doc_untouched)
  have cl3: "\<forall>j < b. \<not> unclassified (docs (ix st3) ! j)"
    using cs
  proof (elim disjE conjE)
    assume "skip st = 0" and dD: "docs (ix st) = D" and "batch_updates st = []"
    then have ku: "map ukey (batch_updates st2) = map dkey (take b D)" using k2 ds unc by simp
    then have lb: "length (batch_updates st2) = b" using len by (metis length_map length_take min_absorb2 less_imp_le)
    then have us: "us = batch_updates st2" using full bs by simp
    with lb have lus: "length us = b" by simp
    show ?thesis
    proof (intro allI impI)
      fix j assume j: "j < b"
      have "map ukey us ! j = map dkey (take b D) ! j" using ku us by simp
      then have "ukey (us ! j) = dkey (D ! j)" using j lus len by simp
      then have "upd_id (us ! j) = Some (doc_id (D ! j))" by (simp add: ukey_def dkey_def)
      moreover have "us ! j \<in> set us" using j lus by simp
      ultimately have "\<exists>u \<in> set us. upd_id u = Some (doc_id (D ! j))" by blast
      then show "\<not> unclassified (docs (ix st3) ! j)"
        using foldl_merge_doc_classified gus j len dD by (simp add: m3)
    qed
  next
    assume "\<forall>j < b. \<not> unclassified (docs (ix st) ! j)"
    then show ?thesis using foldl_merge_doc_classified gus lenx by (simp add: m3)
  qed
  have "int b \<le> skip st + batch_size cfg" using cs bs bpos by auto
  moreover have "map doc_id (docs (ix st3)) = map doc_id D" using ids by (simp only: m3 merged_ids)
  moreover have "\<forall>p \<in> set (map ukey (batch_updates st3)). fst p \<noteq> Some ?k \<and> snd p \<noteq> []"
    using g2 sub3 by auto
  ultimately show ?thesis using f3 xb3 cl3 unfolding skip_inv_def by simp
qed

lemma skip_inv_send [simp]: "skip_inv b D (st\<lparr>ix := send q (ix st)\<rparr>) = skip_inv b D st"
  by (simp add: skip_inv_def send_def)

lemma search_documents_sends: "fst (search_documents i sk tp u) = send (SearchReq sk tp u) i"
  by (simp add: search_documents_def Let_def)

lemma skip_inv_page_loop:
  assumes "page_loop cfg n st = Inr st'" and "skip_inv b D st" and "int b = batch_size cfg"
    and "0 < batch_size cfg" and "b < length D" and "\<forall>d \<in> set D. unclassified d"
    and "distinct (map doc_id D)" and "\<not> dry_run cfg" and "\<not> reclassify_all cfg"
  shows "skip_inv b D st'"
  using assms(1,2)
proof (rule page_loop_rule)
  fix st i ds c st2 st3
  assume "skip_inv b D st"
    and "search_documents (ix st) (skip st) (batch_size cfg) (\<not> reclassify_all cfg) = (i, Inr (ValueCount ds c))"
    and "process_docs cfg (st\<lparr>ix := i\<rparr>) ds = Inr st2" and "maybe_flush cfg st2 = Inr st3"
  then show "skip_inv b D (st3\<lparr>skip := skip st + batch_size cfg\<rparr>)"
    using skip_inv_step assms(3-9) by blast
next
  fix st i c
  assume "skip_inv b D st"
    and s: "search_documents (ix st) (skip st) (batch_size cfg) (\<not> reclassify_all cfg) = (i, Inr (ValueCount [] c))"
  moreover have "i = send (SearchReq (skip st) (batch_size cfg) (\<not> reclassify_all cfg)) (ix st)"
    using search_documents_sends [of "ix st" "skip st" "batch_size cfg" "\<not> reclassify_all cfg"] s by simp
  ultimately show "skip_inv b D (st\<lparr>ix := i\<rparr>)" by simp
qed

lemma final_flush_merges:
  assumes "faults (ix st) = []" and "final_flush cfg st = Inr st'"
  shows "\<exists>us. docs (ix st') = map (\<lambda>d. foldl merge_doc d us) (docs (ix st)) \<and> set us \<subseteq> set (batch_updates st)"
proof (cases "\<not> dry_run cfg \<and> batch_updates st \<noteq> []")
  case True
  with assms have "flush st = Inr st'" by (simp add: final_flush_def)
  from flush_fields [OF assms(1) this] show ?thesis by (auto simp: merge_items_map)
next
  case False
  with assms have "st' = st" by (simp add: final_flush_def)
  then show ?thesis by (intro exI [of _ "[]"]) auto
qed

subsection \<open>The skipped document\<close>

text \<open>C31. In the default mode (unclassified documents only, not a dry run) the pagination
  skips documents that are still unclassified: when the service answers every request,
  the batch size is positive, every document is named, unclassified and has its own id,
  and there are more documents than one batch, the run completes, yet the document at
  position \<open>batch_size\<close> is never written and is still unclassified afterwards.  The
  first flush moves it to the head of the result set and \<open>skip\<close> is already past it.\<close>

theorem run_classification_skips_unclassified:
  assumes "\<not> reclassify_all cfg" and "\<not> dry_run cfg" and "0 < batch_size cfg" and "faults ix0 = []"
    and "\<forall>d \<in> set (docs ix0). unclassified d \<and> item_name d \<noteq> None"
    and "distinct (map doc_id (docs ix0))" and "batch_size cfg < int (length (docs ix0))"
  shows "\<exists>st. run_classification cfg ix0 = Inr (Completed st)
     \<and> map doc_id (docs (ix st)) = map doc_id (docs ix0)
     \<and> docs (ix st) ! nat (batch_size cfg) = docs ix0 ! nat (batch_size cfg)
     \<and> unclassified (docs (ix st) ! nat (batch_size cfg))"
proof -
  let ?D = "docs ix0" and ?b = "nat (batch_size cfg)"
  let ?i = "send (SearchReq 0 1 True) ix0"
  have bs: "int ?b = batch_size cfg" and len: "?b < length ?D" using assms(3,7) by simp_all
  have unc: "\<forall>d \<in> set ?D. unclassified d" using assms(5) by blast
  have s: "search_documents ix0 0 1 (\<not> reclassify_all cfg) = (?i, Inr (ValueCount (take 1 ?D) (length ?D)))"
    using search_documents_fault_free [OF assms(4), of 0 1 True] assms(1) unc by (simp add: scope_def)
  have "None \<notin> set (map item_name ?D)" using assms(5) by auto
  then obtain st1 where pl: "page_loop cfg (length ?D) (init_state ?i) = Inr st1" and f1: "faults (ix st1) = []"
    using page_loop_total [OF assms(3), of "init_state ?i"] assms(4) by (auto simp: init_state_def)
  have "skip_inv ?b ?D (init_state ?i)" using assms(4) by (simp add: skip_inv_def init_state_def)
  then have inv: "skip_inv ?b ?D st1"
    using skip_inv_page_loop [OF pl _ bs assms(3) len unc assms(6,2,1)] by blast
  obtain st where ff: "final_flush cfg st1 = Inr st"
    using final_flush_fault_free [OF f1] by blast
  then obtain us where m: "docs (ix st) = map (\<lambda>d. foldl merge_doc d us) (docs (ix st1))"
    and sub: "set us \<subseteq> set (batch_updates st1)"
    using final_flush_merges [OF f1] by blast
  from inv have ids: "map doc_id (docs (ix st1)) = map doc_id ?D" and xb: "docs (ix st1) ! ?b = ?D ! ?b"
    and g: "\<forall>p \<in> set (map ukey (batch_updates st1)). fst p \<noteq> Some (doc_id (?D ! ?b)) \<and> snd p \<noteq> []"
    unfolding skip_inv_def by blast+
  have lenx: "?b < length (docs (ix st1))" using len ids by (metis length_map)
  have "\<forall>p \<in> set (map ukey us). fst p \<noteq> Some (doc_id (docs (ix st1) ! ?b))" using g sub xb by auto
  then have xs: "docs (ix st) ! ?b = ?D ! ?b" using lenx xb by (simp add: m foldl_merge_doc_untouched)
  have "map doc_id (docs (ix st)) = map doc_id ?D" using ids by (simp only: m merged_ids)
  moreover have "?D \<noteq> []" using len by auto
  then have "run_classification cfg ix0 = Inr (Completed st)"
    using s pl ff by (simp add: run_classification_def)
  moreover have "unclassified (?D ! ?b)" using unc len by simp
  ultimately show ?thesis using xs by simp
qed

theorem run_classification_skips_unclassified_witness:
  "\<exists>st. run_classification (sample_cfg False False 2)
          (sample_index [] [sample_doc ''1'' (Some ''a.pdf'') None None, sample_doc ''2'' (Some ''b.pdf'') None None,
                            sample_doc ''3'' (Some ''c.pdf'') None None])
        = Inr (Completed st)
     \<and> map doc_id (docs (ix st)) = [''1'', ''2'', ''3'']
     \<and> docs (ix st) ! 2 = sample_doc ''3'' (Some ''c.pdf'') None None
     \<and> unclassified (docs (ix st) ! 2)"
  using run_classification_skips_unclassified [of "sample_cfg False False 2"
      "sample_index [] [sample_doc ''1'' (Some ''a.pdf'') None None, sample_doc ''2'' (Some ''b.pdf'') None None,
                        sample_doc ''3'' (Some ''c.pdf'') None None]"]
  by (simp add: sample_cfg_def sample_index_def sample_doc_def unclassified_def numeral_2_eq_2)

end
