(* ===== verification/AnswerExtraction.thy ===== *)
theory AnswerExtraction
  imports Answers
begin

text \<open>
  The two functions of \<open>src/src/optimized_extraction.py\<close> that call the language
  model: \<open>extract_answer_with_claude_v2\<close> and \<open>synthesize_multiple_documents\<close>.
  The HTTP call and \<open>json.loads\<close> are library calls whose results the code only
  consumes, so both are parameters: \<open>api\<close> maps the request to the reply (an
  exception of \<open>requests\<close>, or the status with the text of the first content block,
  \<open>None\<close> where the body has none), \<open>loads\<close> maps a text to the JSON value it
  denotes (\<open>None\<close> for \<open>JSONDecodeError\<close>).  The API key is the value of
  \<open>ANTHROPIC_API_KEY\<close>.  Everything between the calls is modelled: the prompt
  templates verbatim and \<open>str.format\<close> on them, the search for the JSON object in
  the reply (\<open>re.search(r'\{[\s\S]*\}', content)\<close> with the regular-expression
  engine of \<open>PyRegex\<close>), the validation and completion of the parsed dictionary,
  and which exceptions the \<open>try\<close> blocks catch.  The pattern contains no letter, so
  the engine's case-insensitive matching gives the matches of the case-sensitive
  call.
\<close>

subsection \<open>Configuration and templates\<close>

definition MODEL :: string where
  "MODEL = ''claude-3-5-haiku-20241022''"

definition MAX_TOKENS :: nat where
  "MAX_TOKENS = 800"

text \<open>\<open>sep.join(xs)\<close>.\<close>

fun py_join :: "string \<Rightarrow> string list \<Rightarrow> string" where
  "py_join sep [] = []"
| "py_join sep [x] = x"
| "py_join sep (x # y # xs) = x @ sep @ py_join sep (y # xs)"

definition EXTRACTION_PROMPT_V2 :: string where
  \<open>EXTRACTION_PROMPT_V2 = py_join py_newline [
     ''You are an expert document analyst for PS Property Management.'',
     ''A community manager needs a SPECIFIC answer from HOA documents.'',
     [],
     ''**QUESTION:** {query}'',
     ''**COMMUNITY:** {community}'',
     [],
     ''**DOCUMENTS PROVIDED:**'',
     ''{doc_context}'',
     [],
     ''---'',
     [],
     ''## CRITICAL RULES (MUST FOLLOW):'',
     [],
     ''### RULE 1: ONLY USE DOCUMENT CONTENT'',
     ''- Extract answers ONLY from the text provided above'',
     ''- If the answer is NOT explicitly stated, say so'',
     ''- NEVER invent, assume, or infer information'',
     ''- NEVER use general knowledge about HOAs'',
     [],
     ''### RULE 2: BE CONCISE'',
     ''- Answer in 1-2 sentences maximum (under 30 words)'',
     ''- For numeric answers (heights, fees, limits): state the NUMBER first'',
     ''- Example: "6 feet maximum" not "The community restricts fence heights to a maximum of six feet as outlined in the architectural guidelines"'',
     [],
     ''### RULE 3: QUOTE EVIDENCE'',
     ''- Include the EXACT text from the document that supports your answer'',
     ''- If quoting a number, include surrounding context (5-15 words)'',
     [],
     ''### RULE 4: RATE YOUR CONFIDENCE'',
     ''- HIGH: Answer is explicitly stated with exact numbers/rules'',
     ''- MEDIUM: Answer is implied or requires minor interpretation'',
     ''- LOW: Related info found but doesn'' @ apostrophe @ ''t directly answer the question'',
     [],
     ''---'',
     [],
     ''## RESPONSE FORMAT (STRICT JSON):'',
     [],
     ''Return ONLY this JSON structure, nothing else:'',
     [],
     ''{{'',
     ''    "found": true,'',
     ''    "answer": "Direct answer starting with the key fact. 1-2 sentences max.",'',
     ''    "confidence": "high",'',
     ''    "quote": "Exact text from document (5-30 words)",'',
     ''    "source_document": "Filename.pdf",'',
     ''    "source_section": "Article X.X or Section name",'',
     ''    "answer_type": "definitive",'',
     ''    "related_info": "Optional additional context",'',
     ''    "follow_up_questions": ["Related question 1", "Related question 2"]'',
     ''}}'',
     [],
     ''If NOT found:'',
     [],
     ''{{'',
     ''    "found": false,'',
     ''    "answer": "The specific information was not found in the available documents.",'',
     ''    "confidence": "low",'',
     ''    "quote": null,'',
     ''    "source_document": null,'',
     ''    "source_section": null,'',
     ''    "answer_type": "not_found",'',
     ''    "related_info": "What WAS found that'' @ apostrophe @ ''s related, if anything",'',
     ''    "follow_up_questions": ["Alternative answerable question 1", "Alternative answerable question 2"]'',
     ''}}'',
     [],
     ''---'',
     [],
     ''## EXAMPLES:'',
     [],
     ''QUESTION: "What is the fence height limit?"'',
     ''DOCUMENT: "...Fences shall not exceed six (6) feet in height from natural grade..."'',
     [],
     ''CORRECT RESPONSE:'',
     ''{{'',
     ''    "found": true,'',
     ''    "answer": "6 feet maximum height from natural grade.",'',
     ''    "confidence": "high",'',
     ''    "quote": "Fences shall not exceed six (6) feet in height from natural grade",'',
     ''    "source_document": "Falcon Pointe CC&Rs.pdf",'',
     ''    "source_section": "Article 7.3 - Fencing",'',
     ''    "answer_type": "definitive",'',
     ''    "related_info": "Front yard fences may have additional restrictions.",'',
     ''    "follow_up_questions": ["What fence materials are approved?", "Is ARC approval required?"]'',
     ''}}'',
     [],
     ''---'',
     [],
     ''Return ONLY the JSON. No markdown code blocks, no explanatory text.'']\<close>

definition SYNTHESIS_PROMPT :: string where
  \<open>SYNTHESIS_PROMPT = py_join py_newline [
     ''You are synthesizing information from MULTIPLE HOA documents.'',
     [],
     ''**QUESTION:** {query}'',
     ''**COMMUNITY:** {community}'',
     [],
     ''**DOCUMENTS:**'',
     ''{doc_summaries}'',
     [],
     ''---'',
     [],
     ''## YOUR TASK:'',
     ''1. Identify ALL relevant information across documents'',
     ''2. Combine into a SINGLE coherent answer (under 50 words)'',
     ''3. Note if documents conflict (newer takes precedence)'',
     ''4. Cite which document each key fact comes from'',
     [],
     ''## RESPONSE FORMAT (JSON):'',
     ''{{'',
     ''    "found": true,'',
     ''    "answer": "Synthesized answer",'',
     ''    "confidence": "high/medium/low",'',
     ''    "sources": ['',
     ''        {{"document": "Doc name", "contribution": "What this doc added", "quote": "Exact text"}}'',
     ''    ],'',
     ''    "conflicts_found": false,'',
     ''    "conflict_note": null,'',
     ''    "follow_up_questions": ["Question 1", "Question 2"]'',
     ''}}'',
     [],
     ''Return ONLY JSON.'']\<close>

text \<open>\<open>template.format(**fields)\<close> for templates with named fields only (no format
  specifications or conversions, as in the two templates): \<open>{{\<close> and \<open>}}\<close> are
  the braces, \<open>{name}\<close> the field's value, a missing field \<open>KeyError\<close>, a lone
  brace \<open>ValueError\<close>.\<close>

fun fmt_text :: "(string \<times> string) list \<Rightarrow> string \<Rightarrow> py_error + string"
and fmt_field :: "(string \<times> string) list \<Rightarrow> string \<Rightarrow> string \<Rightarrow> py_error + string" where
  "fmt_text fs [] = Inr []"
| "fmt_text fs (c # s) =
     (if c = CHR ''{'' then
        (case s of
           d # s' \<Rightarrow> if d = CHR ''{'' then map_sum id (Cons c) (fmt_text fs s') else fmt_field fs [] s
         | [] \<Rightarrow> Inl ValueError)
      else if c = CHR ''}'' then
        (case s of
           d # s' \<Rightarrow> if d = CHR ''}'' then map_sum id (Cons c) (fmt_text fs s') else Inl ValueError
         | [] \<Rightarrow> Inl ValueError)
      else map_sum id (Cons c) (fmt_text fs s))"
| "fmt_field fs name [] = Inl ValueError"
| "fmt_field fs name (c # s) =
     (if c = CHR ''}'' then
        (case map_of fs (rev name) of
           None \<Rightarrow> Inl KeyError
         | Some v \<Rightarrow> map_sum id (\<lambda>r. v @ r) (fmt_text fs s))
      else fmt_field fs (c # name) s)"

text \<open>The templates on which \<open>fmt_text\<close> succeeds, given the field names, as a
  scanner with one state per position: in text, after \<open>{\<close>, after \<open>}\<close>, in a
  field name (reversed).\<close>

datatype fmt_state = FText | FOpen | FClose | FField string

fun fmt_scan :: "string list \<Rightarrow> fmt_state \<Rightarrow> string \<Rightarrow> bool" where
  "fmt_scan ns st [] = (st = FText)"
| "fmt_scan ns FText (c # s) =
     (if c = CHR ''{'' then fmt_scan ns FOpen s else if c = CHR ''}'' then fmt_scan ns FClose s else fmt_scan ns FText s)"
| "fmt_scan ns FOpen (c # s) =
     (if c = CHR ''{'' then fmt_scan ns FText s
      else if c = CHR ''}'' then [] \<in> set ns \<and> fmt_scan ns FText s else fmt_scan ns (FField [c]) s)"
| "fmt_scan ns FClose (c # s) = (c = CHR ''}'' \<and> fmt_scan ns FText s)"
| "fmt_scan ns (FField name) (c # s) =
     (if c = CHR ''}'' then rev name \<in> set ns \<and> fmt_scan ns FText s else fmt_scan ns (FField (c # name)) s)"

text \<open>\<open>community or "Not specified"\<close>.\<close>

definition or_default :: "string option \<Rightarrow> string \<Rightarrow> string" where
  "or_default x d = (case x of Some s \<Rightarrow> if s = [] then d else s | None \<Rightarrow> d)"

subsection \<open>JSON values and the reply\<close>

text \<open>A value \<open>json.loads\<close> returns.  Numbers are integers: the code reads a number
  only through its truth value.  An object is a dictionary in insertion order.\<close>

datatype json = JsNull | JsBool bool | JsNum int | JsStr string | JsList "json list"
  | JsObj "(string \<times> json) list"

type_synonym jdict = "(string \<times> json) list"

text \<open>Python's truth value of a JSON value, and of \<open>d.get(k)\<close> (\<open>None\<close> when absent).\<close>

fun py_truthy :: "json \<Rightarrow> bool" where
  "py_truthy JsNull = False"
| "py_truthy (JsBool b) = b"
| "py_truthy (JsNum n) = (n \<noteq> 0)"
| "py_truthy (JsStr s) = (s \<noteq> [])"
| "py_truthy (JsList xs) = (xs \<noteq> [])"
| "py_truthy (JsObj d) = (d \<noteq> [])"

definition get_truthy :: "jdict \<Rightarrow> string \<Rightarrow> bool" where
  "get_truthy d k = (case map_of d k of None \<Rightarrow> False | Some v \<Rightarrow> py_truthy v)"

text \<open>\<open>d.setdefault(k, v)\<close>.\<close>

definition setdefault :: "jdict \<Rightarrow> string \<Rightarrow> json \<Rightarrow> jdict" where
  "setdefault d k v = (case map_of d k of None \<Rightarrow> dict_set d k v | Some _ \<Rightarrow> d)"

text \<open>The request body and the reply of the messages endpoint.\<close>

record api_request =
  req_model :: string
  req_max_tokens :: nat
  req_prompt :: string

datatype api_reply = ApiRaises | ApiReply nat "string option"

text \<open>\<open>re.search(r'\{[\s\S]*\}', content)\<close> and \<open>json_match.group()\<close>: the
  pattern is \<open>\{\<close>, a class of every character repeated, \<open>\}\<close>.\<close>

definition JSON_PATTERN :: string where
  "JSON_PATTERN = backslash @ ''{['' @ backslash @ ''s'' @ backslash @ ''S]*'' @ backslash @ ''}''"

definition json_match :: "string \<Rightarrow> py_error + string option" where
  "json_match content = (case parse_re JSON_PATTERN of None \<Rightarrow> Inl ReError | Some r \<Rightarrow> Inr (re_search_match r content))"

text \<open>What the pattern promises: the text from the first \<open>{\<close> to the last \<open>}\<close>
  after it.\<close>

definition brace_span :: "string \<Rightarrow> string option" where
  "brace_span w =
     (case dropWhile (\<lambda>c. c \<noteq> CHR ''{'') w of
        [] \<Rightarrow> None
      | _ # s \<Rightarrow> if CHR ''}'' \<in> set s then Some (CHR ''{'' # rev (dropWhile (\<lambda>c. c \<noteq> CHR ''}'') (rev s))) else None)"

subsection \<open>Validation of the parsed answer\<close>

definition NO_INFO :: string where
  "NO_INFO = ''No specific information found in the available documents.''"

text \<open>A field as \<open>calculate_confidence_score\<close> reads it with \<open>.get(key, '')\<close> and
  string methods: a string as it is, an absent key as absent, a false value of
  another type as \<open>null\<close> (the \<open>or ''\<close> turns both into the empty string), a true
  value of another type \<open>AttributeError\<close> (it has no \<open>lower\<close> or \<open>split\<close>).\<close>

definition conf_field :: "json option \<Rightarrow> py_error + jval" where
  "conf_field v =
     (case v of
        None \<Rightarrow> Inr JAbsent
      | Some (JsStr s) \<Rightarrow> Inr (JStr s)
      | Some x \<Rightarrow> if py_truthy x then Inl AttributeError else Inr JNull)"

text \<open>\<open>source_section\<close> is read only through its truth value.\<close>

definition truth_field :: "json option \<Rightarrow> jval" where
  "truth_field v =
     (case v of
        None \<Rightarrow> JAbsent
      | Some (JsStr s) \<Rightarrow> JStr s
      | Some x \<Rightarrow> if py_truthy x then JStr ''True'' else JNull)"

definition extraction_of :: "jdict \<Rightarrow> py_error + extraction" where
  "extraction_of d =
     (case conf_field (map_of d ''quote'') of
        Inl e \<Rightarrow> Inl e
      | Inr q \<Rightarrow>
          (case conf_field (map_of d ''answer'') of
             Inl e \<Rightarrow> Inl e
           | Inr a \<Rightarrow>
               (case conf_field (map_of d ''source_document'') of
                  Inl e \<Rightarrow> Inl e
                | Inr sd \<Rightarrow> Inr \<lparr>er_quote = q, er_answer = a, er_source_section = truth_field (map_of d ''source_section''),
                                  er_source_document = sd\<rparr>)))"

definition CONFIDENCE_LEVELS :: "string list" where
  "CONFIDENCE_LEVELS = [''high'', ''medium'', ''low'']"

text \<open>\<open>'confidence' not in result or result['confidence'] not in [...]\<close>.\<close>

definition conf_valid :: "jdict \<Rightarrow> bool" where
  "conf_valid d = (case map_of d ''confidence'' of Some (JsStr c) \<Rightarrow> c \<in> set CONFIDENCE_LEVELS | _ \<Rightarrow> False)"

text \<open>\<open>if not result.get('answer'):\<close> replace the answer and mark it not found.\<close>

definition fill_answer :: "jdict \<Rightarrow> jdict" where
  "fill_answer d =
     (if get_truthy d ''answer'' then d
      else dict_set (dict_set d ''answer'' (JsStr NO_INFO)) ''found'' (JsBool False))"

text \<open>Compute the confidence when it is missing or not one of the three levels.\<close>

definition fix_confidence :: "string \<Rightarrow> jdict \<Rightarrow> py_error + jdict" where
  "fix_confidence q d =
     (if conf_valid d then Inr d
      else (case extraction_of d of
              Inl e \<Rightarrow> Inl e
            | Inr er \<Rightarrow> (case calculate_confidence_score er q of
                          Inl e \<Rightarrow> Inl e
                        | Inr c \<Rightarrow> Inr (dict_set d ''confidence'' (JsStr c)))))"

text \<open>Add the follow-up questions when missing or empty, default the other fields,
  set \<open>extraction_type\<close>.\<close>

definition complete_result :: "string \<Rightarrow> jdict \<Rightarrow> jdict" where
  "complete_result q d2 =
     (let d3 = (if get_truthy d2 ''follow_up_questions'' then d2
                else dict_set d2 ''follow_up_questions'' (JsList (map JsStr (get_follow_up_questions q None))));
          d4 = setdefault d3 ''found'' (JsBool False);
          d5 = setdefault d4 ''quote'' JsNull;
          d6 = setdefault d5 ''source_document'' JsNull;
          d7 = setdefault d6 ''source_section'' JsNull;
          d8 = setdefault d7 ''answer_type'' (JsStr (if get_truthy d7 ''found'' then ''definitive'' else ''not_found''));
          d9 = setdefault d8 ''related_info'' JsNull
      in dict_set d9 ''extraction_type'' (JsStr (detect_query_category q)))"

text \<open>The body of \<open>if json_match:\<close> after \<open>json.loads\<close>.\<close>

definition validate_result :: "string \<Rightarrow> jdict \<Rightarrow> py_error + jdict" where
  "validate_result q d0 =
     (case fix_confidence q (fill_answer d0) of Inl e \<Rightarrow> Inl e | Inr d2 \<Rightarrow> Inr (complete_result q d2))"

subsection \<open>The extraction\<close>

text \<open>What the function returns: \<open>None\<close>, the not-found dictionary of
  \<open>generate_not_found_response\<close>, or the completed answer dictionary.\<close>

datatype extract_out = ExNone | ExNotFound nf_response | ExResult jdict

definition claude_request :: "string \<Rightarrow> api_request" where
  "claude_request prompt = \<lparr>req_model = MODEL, req_max_tokens = MAX_TOKENS, req_prompt = prompt\<rparr>"

text \<open>The \<open>try\<close> block: every exception in it, and every path that falls through,
  gives \<open>None\<close>.  A parsed value that is not an object has no \<open>get\<close>.\<close>

definition extract_reply ::
  "string \<Rightarrow> (api_request \<Rightarrow> api_reply) \<Rightarrow> (string \<Rightarrow> json option) \<Rightarrow> string \<Rightarrow> extract_out" where
  "extract_reply q api loads prompt =
     (case api (claude_request prompt) of
        ApiRaises \<Rightarrow> ExNone
      | ApiReply status text \<Rightarrow>
          if status \<noteq> 200 then ExNone
          else (case text of
                  None \<Rightarrow> ExNone
                | Some content \<Rightarrow>
                    (case json_match content of
                       Inr (Some m) \<Rightarrow>
                         (case loads m of
                            Some (JsObj d) \<Rightarrow> (case validate_result q d of Inr d' \<Rightarrow> ExResult d' | Inl _ \<Rightarrow> ExNone)
                          | _ \<Rightarrow> ExNone)
                     | _ \<Rightarrow> ExNone)))"

text \<open>The whole function.  The document context and the prompt are built before the
  \<open>try\<close>: an exception there reaches the caller.\<close>

definition extract_answer_with_claude_v2 ::
  "string \<Rightarrow> (api_request \<Rightarrow> api_reply) \<Rightarrow> (string \<Rightarrow> json option) \<Rightarrow>
   string \<Rightarrow> ctx_doc list \<Rightarrow> string option \<Rightarrow> py_error + extract_out" where
  "extract_answer_with_claude_v2 key api loads q docs community =
     (if key = [] then Inr ExNone
      else if docs = [] then Inr (ExNotFound (generate_not_found_response q ([] :: ctx_doc list) (Some (detect_query_category q))))
      else (case build_document_context docs 3000 of
              Inl e \<Rightarrow> Inl e
            | Inr doc_context \<Rightarrow>
                (case fmt_text [(''query'', q), (''community'', or_default community ''Not specified''),
                                (''doc_context'', doc_context)] EXTRACTION_PROMPT_V2 of
                   Inl e \<Rightarrow> Inl e
                 | Inr prompt \<Rightarrow> Inr (extract_reply q api loads prompt))))"

subsection \<open>Multi-document synthesis\<close>

text \<open>\<open>f"[{i+1}] {title}\n{content}\n"\<close> with \<open>content = doc.get('content', '')[:2000]\<close>,
  which raises \<open>TypeError\<close> on \<open>null\<close>.\<close>

definition summary :: "nat \<Rightarrow> ctx_doc \<Rightarrow> py_error + string" where
  "summary i d =
     (case get_str (ctx_content d) of
        None \<Rightarrow> Inl TypeError
      | Some c \<Rightarrow> Inr (''['' @ py_str_nat (i + 1) @ ''] '' @ fmt_get (ctx_title d) ''Unknown'' @ py_newline
                      @ take 2000 c @ py_newline))"

fun summaries :: "nat \<Rightarrow> ctx_doc list \<Rightarrow> py_error + string list" where
  "summaries i [] = Inr []"
| "summaries i (d # ds) =
     (case summary i d of
        Inl e \<Rightarrow> Inl e
      | Inr s \<Rightarrow> (case summaries (Suc i) ds of Inl e \<Rightarrow> Inl e | Inr ss \<Rightarrow> Inr (s # ss)))"

definition synthesize_reply :: "(api_request \<Rightarrow> api_reply) \<Rightarrow> (string \<Rightarrow> json option) \<Rightarrow> string \<Rightarrow> json option" where
  "synthesize_reply api loads prompt =
     (case api (claude_request prompt) of
        ApiReply status (Some content) \<Rightarrow>
          if status = 200 then (case json_match content of Inr (Some m) \<Rightarrow> loads m | _ \<Rightarrow> None) else None
      | _ \<Rightarrow> None)"

definition synthesize_multiple_documents ::
  "string \<Rightarrow> (api_request \<Rightarrow> api_reply) \<Rightarrow> (string \<Rightarrow> json option) \<Rightarrow>
   string \<Rightarrow> ctx_doc list \<Rightarrow> string option \<Rightarrow> py_error + json option" where
  "synthesize_multiple_documents key api loads q docs community =
     (if key = [] \<or> length docs < 2 then Inr None
      else (case summaries 0 (take 5 docs) of
              Inl e \<Rightarrow> Inl e
            | Inr ss \<Rightarrow>
                (case fmt_text [(''query'', q), (''community'', or_default community ''Not specified''),
                                (''doc_summaries'', py_join py_newline ss)] SYNTHESIS_PROMPT of
                   Inl e \<Rightarrow> Inl e
                 | Inr prompt \<Rightarrow> Inr (synthesize_reply api loads prompt))))"

subsection \<open>The pattern and the template\<close>

lemma JSON_PATTERN_parse:
  "parse_re JSON_PATTERN = Some (Cat (Lit CHR ''{'') (Cat (Star (Cls False [CSpace, CNotSpace])) (Cat (Lit CHR ''}'') Eps)))"
  unfolding JSON_PATTERN_def by code_simp

lemma of_char_lower_ascii:
  "(of_char (lower_ascii x) :: nat) = (if 65 \<le> (of_char x :: nat) \<and> (of_char x :: nat) \<le> 90 then of_char x + 32 else of_char x)"
  by (simp add: lower_ascii_def of_char_of)

lemma lower_ascii_punct:
  assumes "\<not> (65 \<le> (of_char c :: nat) \<and> (of_char c :: nat) \<le> 90)" and "\<not> (97 \<le> (of_char c :: nat) \<and> (of_char c :: nat) \<le> 122)"
  shows "lower_ascii x = c \<longleftrightarrow> x = c"
proof
  assume l: "lower_ascii x = c"
  then have "(of_char (lower_ascii x) :: nat) = of_char c" by simp
  with assms have "\<not> (65 \<le> (of_char x :: nat) \<and> (of_char x :: nat) \<le> 90)"
    by (auto simp: of_char_lower_ascii split: if_splits)
  with l show "x = c" by (simp add: lower_ascii_def)
next
  assume "x = c"
  with assms(1) show "lower_ascii x = c" by (auto simp: lower_ascii_def)
qed

lemma ci_eq_brace [simp]:
  "ci_eq CHR ''{'' x \<longleftrightarrow> x = CHR ''{''" "ci_eq CHR ''}'' x \<longleftrightarrow> x = CHR ''}''"
proof -
  have "lower_ascii CHR ''{'' = CHR ''{''" "lower_ascii CHR ''}'' = CHR ''}''" by (simp_all add: lower_ascii_def)
  then show "ci_eq CHR ''{'' x \<longleftrightarrow> x = CHR ''{''" "ci_eq CHR ''}'' x \<longleftrightarrow> x = CHR ''}''"
    unfolding ci_eq_def using lower_ascii_punct [of "CHR ''{''" x] lower_ascii_punct [of "CHR ''}''" x] by auto
qed

lemma cls_match_every_char [simp]: "cls_match [CSpace, CNotSpace] c"
  unfolding cls_match_def by (rule bexI [of _ c]) auto

lemma ends_star_every_char: "ends (Star (Cls False [CSpace, CNotSpace])) n s = suffixes s"
proof (induction s)
  case Nil
  show ?case by (subst ends.simps(9)) simp
next
  case (Cons c s)
  show ?case by (subst ends.simps(9)) (simp add: Cons.IH)
qed

lemma ends_close_none:
  "CHR ''}'' \<notin> set s \<Longrightarrow> concat (map (ends (Cat (Lit CHR ''}'') Eps) n) (suffixes s)) = []"
  by (induction s) auto

lemma ends_close_first:
  "CHR ''}'' \<in> set s \<Longrightarrow>
   \<exists>rest. concat (map (ends (Cat (Lit CHR ''}'') Eps) n) (suffixes s)) = rev (takeWhile (\<lambda>c. c \<noteq> CHR ''}'') (rev s)) # rest"
proof (induction s)
  case (Cons c s)
  show ?case
  proof (cases "CHR ''}'' \<in> set s")
    case True
    then have "takeWhile (\<lambda>c. c \<noteq> CHR ''}'') (rev s @ [c]) = takeWhile (\<lambda>c. c \<noteq> CHR ''}'') (rev s)"
      by (intro takeWhile_append1 [of "CHR ''}''"]) simp_all
    with True Cons.IH show ?thesis by auto
  next
    case False
    with Cons.prems have c: "c = CHR ''}''" by simp
    from False have "takeWhile (\<lambda>c. c \<noteq> CHR ''}'') (rev s @ [c]) = rev s @ takeWhile (\<lambda>c. c \<noteq> CHR ''}'') [c]"
      by (intro takeWhile_append2) auto
    have "concat (map (ends (Cat (Lit CHR ''}'') Eps) n) (suffixes (c # s)))
        = concat (map (ends (Cat (Lit CHR ''}'') Eps) n) (suffixes s)) @ ends (Cat (Lit CHR ''}'') Eps) n (c # s)"
      by (simp only: suffixes.simps(2) map_append concat_append list.map concat.simps append_Nil2)
    also have "\<dots> = [s]" using ends_close_none [OF False] c by simp
    finally have e: "concat (map (ends (Cat (Lit CHR ''}'') Eps) n) (suffixes (c # s))) = [s]" .
    have "rev (takeWhile (\<lambda>c. c \<noteq> CHR ''}'') (rev (c # s))) = s" using \<open>takeWhile _ _ = _\<close> c by simp
    then show ?thesis unfolding e by simp
  qed
qed simp

lemma ends_brace_open:
  "ends (Cat (Lit CHR ''{'') (Cat (Star (Cls False [CSpace, CNotSpace])) (Cat (Lit CHR ''}'') Eps))) n (CHR ''{'' # s)
     = concat (map (ends (Cat (Lit CHR ''}'') Eps) n) (suffixes s))"
  by (simp add: ends_star_every_char)

lemma ends_brace_other:
  "c \<noteq> CHR ''{'' \<Longrightarrow> ends (Cat (Lit CHR ''{'') (Cat (Star (Cls False [CSpace, CNotSpace])) (Cat (Lit CHR ''}'') Eps))) n (c # s) = []"
  "ends (Cat (Lit CHR ''{'') (Cat (Star (Cls False [CSpace, CNotSpace])) (Cat (Lit CHR ''}'') Eps))) n [] = []"
  by simp_all

lemma search_brace_none:
  "CHR ''}'' \<notin> set w \<Longrightarrow>
   search_match_from (Cat (Lit CHR ''{'') (Cat (Star (Cls False [CSpace, CNotSpace])) (Cat (Lit CHR ''}'') Eps))) n w = None"
proof (induction w)
  case Nil
  show ?case by (simp only: search_match_from.simps ends_brace_other(2) list.case)
next
  case (Cons c s)
  have "ends (Cat (Lit CHR ''{'') (Cat (Star (Cls False [CSpace, CNotSpace])) (Cat (Lit CHR ''}'') Eps))) n (c # s) = []"
  proof (cases "c = CHR ''{''")
    case True
    have "CHR ''}'' \<notin> set s" using Cons.prems by simp
    then show ?thesis unfolding True ends_brace_open by (rule ends_close_none)
  qed (rule ends_brace_other(1))
  moreover have "search_match_from (Cat (Lit CHR ''{'') (Cat (Star (Cls False [CSpace, CNotSpace])) (Cat (Lit CHR ''}'') Eps))) n s = None"
    using Cons.IH Cons.prems by simp
  ultimately show ?case by (simp only: search_match_from.simps(2) list.case)
qed

lemma rev_dropWhile_takeWhile:
  "s = rev (dropWhile P (rev s)) @ rev (takeWhile P (rev s))"
proof -
  have "rev s = takeWhile P (rev s) @ dropWhile P (rev s)" by simp
  then show ?thesis by (metis rev_append rev_rev_ident)
qed

lemma search_brace_span:
  "search_match_from (Cat (Lit CHR ''{'') (Cat (Star (Cls False [CSpace, CNotSpace])) (Cat (Lit CHR ''}'') Eps))) n w
     = brace_span w"
proof (induction w)
  case Nil
  show ?case by (simp only: search_match_from.simps ends_brace_other(2) list.case) (simp add: brace_span_def)
next
  case (Cons c s)
  show ?case
  proof (cases "c = CHR ''{''")
    case False
    then have "search_match_from (Cat (Lit CHR ''{'') (Cat (Star (Cls False [CSpace, CNotSpace])) (Cat (Lit CHR ''}'') Eps))) n (c # s)
        = brace_span s" by (simp only: search_match_from.simps ends_brace_other(1) [OF False] list.case Cons.IH)
    with False show ?thesis by (simp add: brace_span_def)
  next
    case c: True
    show ?thesis
    proof (cases "CHR ''}'' \<in> set s")
      case True
      let ?T = "rev (takeWhile (\<lambda>c. c \<noteq> CHR ''}'') (rev s))"
      let ?D = "rev (dropWhile (\<lambda>c. c \<noteq> CHR ''}'') (rev s))"
      obtain rest where e: "concat (map (ends (Cat (Lit CHR ''}'') Eps) n) (suffixes s)) = ?T # rest"
        using ends_close_first [OF True] by blast
      have sp: "s = ?D @ ?T" by (rule rev_dropWhile_takeWhile)
      have "search_match_from (Cat (Lit CHR ''{'') (Cat (Star (Cls False [CSpace, CNotSpace])) (Cat (Lit CHR ''}'') Eps))) n (c # s)
          = Some (take (length (c # s) - length ?T) (c # s))"
        unfolding c by (simp only: search_match_from.simps ends_brace_open e list.case)
      also have "take (length (c # s) - length ?T) (c # s) = c # ?D"
      proof -
        have l: "length s = length ?D + length ?T" using arg_cong [OF sp, of length] by (simp only: length_append)
        then have "length (c # s) - length ?T = Suc (length ?D)" by simp
        moreover have "take (length ?D) s = ?D" using arg_cong [OF sp, of "take (length ?D)"] by simp
        ultimately show ?thesis by simp
      qed
      finally show ?thesis using True c by (simp add: brace_span_def)
    next
      case False
      then have "search_match_from (Cat (Lit CHR ''{'') (Cat (Star (Cls False [CSpace, CNotSpace])) (Cat (Lit CHR ''}'') Eps))) n (c # s)
          = None" by (intro search_brace_none) (simp add: c)
      with False c show ?thesis by (simp add: brace_span_def)
    qed
  qed
qed

lemma fmt_scan_append: "fmt_scan ns st a \<Longrightarrow> fmt_scan ns st (a @ b) = fmt_scan ns FText b"
  by (induction ns st a rule: fmt_scan.induct) (auto split: if_splits)

lemma fmt_scan_join:
  "fmt_scan ns FText sep \<Longrightarrow> list_all (fmt_scan ns FText) ls \<Longrightarrow> fmt_scan ns FText (py_join sep ls)"
  by (induction sep ls rule: py_join.induct) (simp_all add: fmt_scan_append)

lemma fmt_text_scan:
  "fmt_scan (map fst fs) FText t \<Longrightarrow> \<not> isl (fmt_text fs t)"
  "fmt_scan (map fst fs) (FField (name)) t \<Longrightarrow> \<not> isl (fmt_field fs name t)"
proof (induction fs t and fs name t rule: fmt_text_fmt_field.induct)
  case (2 fs c s)
  show ?case
  proof (cases "c = CHR ''{'' \<or> c = CHR ''}''")
    case True
    then obtain d s' where s: "s = d # s'" using "2.prems" by (cases s) auto
    show ?thesis
    proof (cases "c = CHR ''{'' \<and> d \<noteq> CHR ''{''")
      case True
      have "fmt_scan (map fst fs) (FField []) s" using "2.prems" True s by (auto split: if_splits)
      with "2.IH"(2) [OF conjunct1 [OF True] s] True s show ?thesis by (simp add: isl_map_sum)
    next
      case False
      with "2.prems" \<open>c = CHR ''{'' \<or> c = CHR ''}''\<close> s have "fmt_scan (map fst fs) FText s'" and "d = c"
        by (auto split: if_splits)
      with "2.IH"(1,3) \<open>c = CHR ''{'' \<or> c = CHR ''}''\<close> s show ?thesis by (auto simp: isl_map_sum)
    qed
  next
    case False
    with "2.prems" have "fmt_scan (map fst fs) FText s" by simp
    with "2.IH"(4) False show ?thesis by (simp add: isl_map_sum)
  qed
next
  case (4 fs name c s)
  show ?case
  proof (cases "c = CHR ''}''")
    case True
    with "4.prems" have n: "rev name \<in> set (map fst fs)" and t: "fmt_scan (map fst fs) FText s" by simp_all
    from n obtain v where v: "map_of fs (rev name) = Some v" by (cases "map_of fs (rev name)") (auto simp: map_of_eq_None_iff)
    with "4.IH"(1) [OF True v t] True show ?thesis by (simp add: isl_map_sum)
  next
    case False
    with "4.prems" "4.IH"(2) show ?thesis by simp
  qed
qed simp_all

lemma extraction_prompt_ok:
  "\<exists>prompt. fmt_text [(''query'', q), (''community'', c), (''doc_context'', x)] EXTRACTION_PROMPT_V2 = Inr prompt"
proof -
  have "fmt_scan [''query'', ''community'', ''doc_context''] FText EXTRACTION_PROMPT_V2"
    unfolding EXTRACTION_PROMPT_V2_def by (rule fmt_scan_join) (simp add: py_newline_def, code_simp)
  then have "\<not> isl (fmt_text [(''query'', q), (''community'', c), (''doc_context'', x)] EXTRACTION_PROMPT_V2)"
    using fmt_text_scan(1) [of "[(''query'', q), (''community'', c), (''doc_context'', x)]"] by simp
  then show ?thesis by (cases "fmt_text [(''query'', q), (''community'', c), (''doc_context'', x)] EXTRACTION_PROMPT_V2") simp_all
qed

lemma synthesis_prompt_ok:
  "\<exists>prompt. fmt_text [(''query'', q), (''community'', c), (''doc_summaries'', x)] SYNTHESIS_PROMPT = Inr prompt"
proof -
  have "fmt_scan [''query'', ''community'', ''doc_summaries''] FText SYNTHESIS_PROMPT"
    unfolding SYNTHESIS_PROMPT_def by (rule fmt_scan_join) (simp add: py_newline_def, code_simp)
  then have "\<not> isl (fmt_text [(''query'', q), (''community'', c), (''doc_summaries'', x)] SYNTHESIS_PROMPT)"
    using fmt_text_scan(1) [of "[(''query'', q), (''community'', c), (''doc_summaries'', x)]"] by simp
  then show ?thesis by (cases "fmt_text [(''query'', q), (''community'', c), (''doc_summaries'', x)] SYNTHESIS_PROMPT") simp_all
qed

lemma extraction_prompt_not_Inl [simp]:
  "fmt_text [(''query'', q), (''community'', c), (''doc_context'', x)] EXTRACTION_PROMPT_V2 \<noteq> Inl e"
  using extraction_prompt_ok [of q c x] by auto

lemma synthesis_prompt_not_Inl [simp]:
  "fmt_text [(''query'', q), (''community'', c), (''doc_summaries'', x)] SYNTHESIS_PROMPT \<noteq> Inl e"
  using synthesis_prompt_ok [of q c x] by auto

lemma summaries_raises:
  "(\<exists>e. summaries i ds = Inl e) \<longleftrightarrow> (\<exists>d \<in> set ds. ctx_content d = JNull)"
proof (induction ds arbitrary: i)
  case (Cons d ds)
  show ?case
  proof (cases "ctx_content d = JNull")
    case False
    then obtain s where "summary i d = Inr s" by (cases "ctx_content d") (auto simp: summary_def get_str_def)
    with False Cons.IH [of "Suc i"] show ?thesis by (auto split: sum.splits)
  qed (simp add: summary_def get_str_def)
qed simp

subsection \<open>Facts about the validation\<close>

lemma dom_setdefault [simp]: "dom (map_of (setdefault d k v)) = insert k (dom (map_of d))"
  by (auto simp: setdefault_def split: option.splits)

lemma setdefault_keep: "map_of d k = Some x \<Longrightarrow> map_of (setdefault d k' v) k = Some x"
  by (auto simp: setdefault_def split: option.splits)

lemma fill_answer_truthy: "get_truthy (fill_answer d) ''answer''"
  by (simp add: fill_answer_def get_truthy_def NO_INFO_def)

lemma fix_confidence_valid:
  "fix_confidence q d = Inr d2 \<Longrightarrow> conf_valid d2 \<and> map_of d2 ''answer'' = map_of d ''answer''"
  by (auto simp: fix_confidence_def conf_valid_def calculate_confidence_score_def confidence_level_def
      CONFIDENCE_LEVELS_def split: if_splits sum.splits)

lemma complete_result_keep:
  "k \<noteq> ''follow_up_questions'' \<Longrightarrow> k \<noteq> ''extraction_type'' \<Longrightarrow> map_of d k = Some x \<Longrightarrow>
   map_of (complete_result q d) k = Some x"
  by (simp add: complete_result_def Let_def setdefault_keep)

lemma complete_result_shape:
  assumes "conf_valid d" and "get_truthy d ''answer''"
  shows "{''found'', ''answer'', ''confidence'', ''quote'', ''source_document'', ''source_section'', ''answer_type'',
          ''related_info'', ''follow_up_questions'', ''extraction_type''} \<subseteq> dom (map_of (complete_result q d))
    \<and> conf_valid (complete_result q d) \<and> get_truthy (complete_result q d) ''answer''
    \<and> map_of (complete_result q d) ''extraction_type'' = Some (JsStr (detect_query_category q))"
proof -
  obtain c where c: "map_of d ''confidence'' = Some (JsStr c)" "c \<in> set CONFIDENCE_LEVELS"
    using assms(1) by (auto simp: conf_valid_def split: option.splits json.splits)
  obtain a where a: "map_of d ''answer'' = Some a" "py_truthy a"
    using assms(2) by (auto simp: get_truthy_def split: option.splits)
  have c': "map_of (complete_result q d) ''confidence'' = Some (JsStr c)" by (rule complete_result_keep) (simp_all add: c)
  have a': "map_of (complete_result q d) ''answer'' = Some a" by (rule complete_result_keep) (simp_all add: a)
  have "{''answer'', ''confidence''} \<subseteq> dom (map_of d)" using a c by auto
  then have "{''found'', ''answer'', ''confidence'', ''quote'', ''source_document'', ''source_section'', ''answer_type'',
          ''related_info'', ''follow_up_questions'', ''extraction_type''} \<subseteq> dom (map_of (complete_result q d))"
    by (auto simp: complete_result_def Let_def get_truthy_def split: option.splits)
  moreover have "map_of (complete_result q d) ''extraction_type'' = Some (JsStr (detect_query_category q))"
    by (simp add: complete_result_def Let_def)
  ultimately show ?thesis using c' a' c(2) a(2) by (simp add: conf_valid_def get_truthy_def)
qed

lemma validate_result_shape:
  "validate_result q d0 = Inr d \<Longrightarrow>
   {''found'', ''answer'', ''confidence'', ''quote'', ''source_document'', ''source_section'', ''answer_type'',
    ''related_info'', ''follow_up_questions'', ''extraction_type''} \<subseteq> dom (map_of d)
   \<and> conf_valid d \<and> get_truthy d ''answer'' \<and> map_of d ''extraction_type'' = Some (JsStr (detect_query_category q))"
proof -
  assume v: "validate_result q d0 = Inr d"
  then obtain d2 where f: "fix_confidence q (fill_answer d0) = Inr d2" and d: "d = complete_result q d2"
    by (auto simp: validate_result_def split: sum.splits)
  note fv = fix_confidence_valid [OF f]
  have "get_truthy d2 ''answer''" using fv fill_answer_truthy [of d0] by (simp add: get_truthy_def)
  with fv d show ?thesis using complete_result_shape [of d2 q] by simp
qed

lemma extract_answer_result:
  "extract_answer_with_claude_v2 key api loads q docs community = Inr (ExResult d) \<Longrightarrow>
   \<exists>d0. validate_result q d0 = Inr d"
  by (auto simp: extract_answer_with_claude_v2_def extract_reply_def
      split: if_splits sum.splits api_reply.splits option.splits json.splits)

lemma extract_answer_via_reply:
  "key \<noteq> [] \<Longrightarrow> docs \<noteq> [] \<Longrightarrow> build_document_context docs 3000 = Inr ctx \<Longrightarrow>
   \<exists>prompt. extract_answer_with_claude_v2 key api loads q docs community = Inr (extract_reply q api loads prompt)"
  using extraction_prompt_ok [of q "or_default community ''Not specified''" ctx]
  by (auto simp: extract_answer_with_claude_v2_def)

subsection \<open>Properties of the extraction\<close>

text \<open>C27. The search for the JSON object in the reply,
  \<open>re.search(r'\{[\s\S]*\}', content).group()\<close>, is the text from the first \<open>{\<close> of the
  reply to the last \<open>}\<close> after it, and there is no match exactly when no \<open>}\<close>
  follows the first \<open>{\<close>: the greedy \<open>[\s\S]*\<close> backtracks from the end of the text.\<close>

theorem json_match_brace_span: "json_match content = Inr (brace_span content)"
  by (simp add: json_match_def JSON_PATTERN_parse re_search_match_def search_brace_span)

text \<open>C28. \<open>extract_answer_with_claude_v2\<close> raises exactly when the key is set, there
  are documents and one of the first five has a \<open>null\<close> content or a
  \<open>doc_type_info\<close> that is not a dictionary: the document context is built before the
  \<open>try\<close>, whatever the model and \<open>json.loads\<close> do.
  The docstring's "or None on error" does not hold there.\<close>

theorem extract_answer_raises:
  "(\<exists>e. extract_answer_with_claude_v2 key api loads q docs community = Inl e)
     \<longleftrightarrow> key \<noteq> [] \<and> docs \<noteq> []
         \<and> (\<exists>d \<in> set (take 5 docs). ctx_content d = JNull \<or> ctx_doc_type d = DtiOther)"
proof (cases "key = [] \<or> docs = []")
  case False
  then show ?thesis
    using context_parts_raises [of 3000 0 "take 5 docs"]
    by (auto simp: extract_answer_with_claude_v2_def build_document_context_def doc_raises_def split: sum.splits)
qed (auto simp: extract_answer_with_claude_v2_def)

theorem extract_answer_raises_witness:
  "\<exists>e. extract_answer_with_claude_v2 ''key'' (\<lambda>_. ApiRaises) (\<lambda>_. None) ''What is the fence height limit?''
        [\<lparr>ctx_title = JStr ''CCRs.pdf'', ctx_content = JStr ''x'', ctx_doc_type = DtiOther, ctx_community = JAbsent,
          ctx_url = JAbsent, ctx_archived = False\<rparr>] None = Inl e"
  using extract_answer_raises [of "''key''" "\<lambda>_. ApiRaises" "\<lambda>_. None" "''What is the fence height limit?''"
      "[\<lparr>ctx_title = JStr ''CCRs.pdf'', ctx_content = JStr ''x'', ctx_doc_type = DtiOther, ctx_community = JAbsent,
          ctx_url = JAbsent, ctx_archived = False\<rparr>]" None]
  by simp

text \<open>C29. What the function returns when the model answers: every field the prompt
  asks for and \<open>extraction_type\<close> are present, the answer is a true value, the
  confidence is one of \<open>high\<close>, \<open>medium\<close>, \<open>low\<close>, and \<open>extraction_type\<close> is the
  category \<open>detect_query_category\<close> gives the question.  The witness shows the gap
  the defaults leave: an answer without \<open>found\<close> is returned as \<open>not_found\<close>.\<close>

theorem extract_answer_result_shape:
  assumes "extract_answer_with_claude_v2 key api loads q docs community = Inr (ExResult d)"
  shows "{''found'', ''answer'', ''confidence'', ''quote'', ''source_document'', ''source_section'', ''answer_type'',
          ''related_info'', ''follow_up_questions'', ''extraction_type''} \<subseteq> dom (map_of d)
    \<and> get_truthy d ''answer'' \<and> conf_valid d
    \<and> map_of d ''extraction_type'' = Some (JsStr (detect_query_category q))"
  using extract_answer_result [OF assms] validate_result_shape by blast

theorem extract_answer_result_shape_witness:
  "extract_answer_with_claude_v2 ''key'' (\<lambda>_. ApiReply 200 (Some ''Result: {answer: 6 feet maximum} end''))
      (\<lambda>_. Some (JsObj [(''answer'', JsStr ''6 feet maximum'')])) ''What is the fence height limit?''
      [\<lparr>ctx_title = JStr ''CCRs.pdf'', ctx_content = JStr ''Fences shall not exceed six feet.'', ctx_doc_type = DtiAbsent,
        ctx_community = JAbsent, ctx_url = JAbsent, ctx_archived = False\<rparr>] None
    = Inr (ExResult [(''answer'', JsStr ''6 feet maximum''), (''confidence'', JsStr ''low''),
        (''follow_up_questions'', JsList [JsStr ''What fence materials are approved?'',
           JsStr ''Is ARC approval required for fence installation?'', JsStr ''Can I have a fence in my front yard?'']),
        (''found'', JsBool False), (''quote'', JsNull), (''source_document'', JsNull), (''source_section'', JsNull),
        (''answer_type'', JsStr ''not_found''), (''related_info'', JsNull), (''extraction_type'', JsStr ''fence'')])
   \<and> conf_valid [(''answer'', JsStr ''6 feet maximum''), (''confidence'', JsStr ''low''),
        (''follow_up_questions'', JsList [JsStr ''What fence materials are approved?'',
           JsStr ''Is ARC approval required for fence installation?'', JsStr ''Can I have a fence in my front yard?'']),
        (''found'', JsBool False), (''quote'', JsNull), (''source_document'', JsNull), (''source_section'', JsNull),
        (''answer_type'', JsStr ''not_found''), (''related_info'', JsNull), (''extraction_type'', JsStr ''fence'')]"
proof -
  let ?api = "\<lambda>_ :: api_request. ApiReply 200 (Some ''Result: {answer: 6 feet maximum} end'')"
  let ?loads = "\<lambda>_ :: string. Some (JsObj [(''answer'', JsStr ''6 feet maximum'')])"
  let ?docs = "[\<lparr>ctx_title = JStr ''CCRs.pdf'', ctx_content = JStr ''Fences shall not exceed six feet.'', ctx_doc_type = DtiAbsent,
        ctx_community = JAbsent, ctx_url = JAbsent, ctx_archived = False\<rparr>]"
  obtain ctx where "build_document_context ?docs 3000 = Inr ctx"
    by (simp add: build_document_context_def doc_part_def doc_type_label_def get_str_def Let_def)
  then obtain prompt where p: "extract_answer_with_claude_v2 ''key'' ?api ?loads ''What is the fence height limit?'' ?docs None
      = Inr (extract_reply ''What is the fence height limit?'' ?api ?loads prompt)"
    using extract_answer_via_reply [of "''key''" ?docs] by blast
  have "extract_reply ''What is the fence height limit?'' ?api ?loads prompt = ExResult
       [(''answer'', JsStr ''6 feet maximum''), (''confidence'', JsStr ''low''),
        (''follow_up_questions'', JsList [JsStr ''What fence materials are approved?'',
           JsStr ''Is ARC approval required for fence installation?'', JsStr ''Can I have a fence in my front yard?'']),
        (''found'', JsBool False), (''quote'', JsNull), (''source_document'', JsNull), (''source_section'', JsNull),
        (''answer_type'', JsStr ''not_found''), (''related_info'', JsNull), (''extraction_type'', JsStr ''fence'')]"
    by code_simp
  with p have e: "extract_answer_with_claude_v2 ''key'' ?api ?loads ''What is the fence height limit?'' ?docs None
      = Inr (ExResult [(''answer'', JsStr ''6 feet maximum''), (''confidence'', JsStr ''low''),
        (''follow_up_questions'', JsList [JsStr ''What fence materials are approved?'',
           JsStr ''Is ARC approval required for fence installation?'', JsStr ''Can I have a fence in my front yard?'']),
        (''found'', JsBool False), (''quote'', JsNull), (''source_document'', JsNull), (''source_section'', JsNull),
        (''answer_type'', JsStr ''not_found''), (''related_info'', JsNull), (''extraction_type'', JsStr ''fence'')])" by simp
  with extract_answer_result_shape [OF e] show ?thesis by blast
qed

text \<open>C30. \<open>synthesize_multiple_documents\<close> returns \<open>None\<close> without a key or with fewer
  than two documents, and otherwise raises exactly when one of the first five
  documents has a \<open>null\<close> content (\<open>None[:2000]\<close> is a \<open>TypeError\<close> raised before
  the \<open>try\<close>); every failure of the call or of the parse is \<open>None\<close>.\<close>

theorem synthesize_none_or_raises:
  "((key = [] \<or> length docs < 2) \<longrightarrow> synthesize_multiple_documents key api loads q docs community = Inr None)
   \<and> ((\<exists>e. synthesize_multiple_documents key api loads q docs community = Inl e)
      \<longleftrightarrow> key \<noteq> [] \<and> 2 \<le> length docs \<and> (\<exists>d \<in> set (take 5 docs). ctx_content d = JNull))"
proof (cases "key = [] \<or> length docs < 2")
  case False
  then show ?thesis
    using summaries_raises [of 0 "take 5 docs"]
    by (auto simp: synthesize_multiple_documents_def split: sum.splits)
qed (auto simp: synthesize_multiple_documents_def)

theorem synthesize_none_or_raises_witness:
  "synthesize_multiple_documents ''key'' (\<lambda>_. ApiRaises) (\<lambda>_. None) ''q''
     [\<lparr>ctx_title = JStr ''a.pdf'', ctx_content = JStr ''x'', ctx_doc_type = DtiAbsent, ctx_community = JAbsent,
       ctx_url = JAbsent, ctx_archived = False\<rparr>] None = Inr None
   \<and> (\<exists>e. synthesize_multiple_documents ''key'' (\<lambda>_. ApiRaises) (\<lambda>_. None) ''q''
     [\<lparr>ctx_title = JStr ''a.pdf'', ctx_content = JStr ''x'', ctx_doc_type = DtiAbsent, ctx_community = JAbsent,
       ctx_url = JAbsent, ctx_archived = False\<rparr>,
      \<lparr>ctx_title = JStr ''b.pdf'', ctx_content = JNull, ctx_doc_type = DtiAbsent, ctx_community = JAbsent,
       ctx_url = JAbsent, ctx_archived = False\<rparr>] None = Inl e)"
  using synthesize_none_or_raises [of "''key''" "[\<lparr>ctx_title = JStr ''a.pdf'', ctx_content = JStr ''x'', ctx_doc_type = DtiAbsent,
        ctx_community = JAbsent, ctx_url = JAbsent, ctx_archived = False\<rparr>]" "\<lambda>_. ApiRaises" "\<lambda>_. None" "''q''" None]
    synthesize_none_or_raises [of "''key''" "[\<lparr>ctx_title = JStr ''a.pdf'', ctx_content = JStr ''x'', ctx_doc_type = DtiAbsent,
        ctx_community = JAbsent, ctx_url = JAbsent, ctx_archived = False\<rparr>,
      \<lparr>ctx_title = JStr ''b.pdf'', ctx_content = JNull, ctx_doc_type = DtiAbsent, ctx_community = JAbsent,
       ctx_url = JAbsent, ctx_archived = False\<rparr>]" "\<lambda>_. ApiRaises" "\<lambda>_. None" "''q''" None]
  by simp

end
