(* ===== verification/Spec2Isabelle.thy ===== *)
theory Spec2Isabelle
  imports Runs Answers Stats Sync Pagination AnswerExtraction
begin

text \<open>
  \<^bold>\<open>A verification development of the document classifier of rzilem/homeowner-assistant.\<close>

  \<^bold>\<open>The program.\<close>  \<open>src/scripts/classify_documents.py\<close> classifies the documents
  of a search index by their storage path and file name and writes the result back.
  Its parts, leaf to root:
  \<^item> the rule engine: the ordered table \<open>CLASSIFICATION_RULES\<close> and
    \<open>classify_document(path, name)\<close>, which returns the first rule whose path pattern is
    found in the lower-cased path, or else whose name pattern is found in the lower-cased
    name, and \<open>(uncategorized, staff_only)\<close> when none is;
  \<^item> the metadata extractors \<open>extract_community_name(path)\<close> and
    \<open>extract_owner_account(name, path)\<close>, each the group 1 of the first of its regular
    expressions that is found, the community name then cleaned (\<open>%20\<close> decoded,
    whitespace collapsed, ends stripped);
  \<^item> the index client (\<open>search_documents\<close>, \<open>update_document\<close>,
    \<open>update_documents_batch\<close>, \<open>get_classification_stats\<close>), thin wrappers over HTTP
    calls to the search service;
  \<^item> the orchestrator \<open>run_classification\<close>: count, page through the index, classify
    and extract each document, accumulate updates, flush them in batches, tally statistics;
  \<^item> the statistics report \<open>show_stats\<close>;
  \<^item> separately, \<open>src/src/optimized_extraction.py\<close>, the answer-extraction helpers of
    the question-answering service: keyword category detection, follow-up suggestions,
    a confidence score for a language model's answer, the document context of the
    prompt and the not-found answer.
  All pattern matching goes through Python's \<open>re\<close> module, which the development
  models as well (it is the library the rule engine and the extractors are built on).

  \<^bold>\<open>Theories.\<close>
  \<^item> \<open>Prelude\<close>: Python's string primitives on ASCII text (\<open>py_lower\<close>,
    \<open>py_isspace\<close>, \<open>py_replace\<close>, \<open>collapse_ws\<close> for \<open>re.sub(r'\s+', ' ', _)\<close>,
    \<open>py_strip\<close>, \<open>py_startswith\<close>), dictionaries as insertion-ordered association
    lists (\<open>dict_set\<close>, \<open>dict_incr\<close>), and the exceptions as a datatype
    \<open>py_error\<close>.  Bit-level code equations for the character tests keep kernel
    evaluation fast.
  \<^item> \<open>PyRegex\<close>: the subset of \<open>re\<close> the sources use.  \<open>parse_re\<close> reads a pattern
    string (fuel \<open>4 * length + 4\<close>, more than the nesting depth of any pattern can
    consume; every pattern of the sources is shown to parse), \<open>ends\<close> is the
    backtracking semantics in Python's order (greedy repetition first), \<open>cends\<close> the
    same with group captures, \<open>re_search\<close> and \<open>re_search_group\<close> the search from
    every start position.  \<open>mandatory\<close> and \<open>re_search_group_mandatory\<close>: a group on
    every path of a pattern always takes part in its match.
  \<^item> \<open>Rules\<close>: \<open>access_level\<close>, the record \<open>rule\<close>, the table with its pattern
    strings as written in the source, \<open>first_hit\<close> (the inner pattern loops),
    \<open>rule_matches\<close>, \<open>classify_rules\<close> (the rule loop) and \<open>classify_document\<close>.
    The abstract specification \<open>classify_spec\<close> is the flat "first rule with any hit";
    \<open>classify_rules_refines\<close> shows the staged loop implements it whenever every
    pattern compiles, and \<open>CLASSIFICATION_RULES_compile\<close> that the table's do.
  \<^item> \<open>Extractors\<close>: the two pattern lists, \<open>first_group_match\<close>,
    \<open>clean_community\<close>, \<open>extract_community_name\<close>, \<open>owner_text\<close> (the f-string,
    with \<open>None\<close> formatted as the text \<open>None\<close>) and \<open>extract_owner_account\<close>; the
    shape of a cleaned name (\<open>single_spaced\<close>, \<open>trimmed\<close>).

  \<^item> \<open>IndexClient\<close>: the client functions \<open>search_documents\<close>,
    \<open>update_document\<close> and \<open>update_documents_batch\<close> over a model of the search
    service (outside the repository, modelled from the spec and its REST contract):
    \<open>index\<close> holds the documents in search order, the log of requests sent and a
    fault schedule by request ordinal (an HTTP status, or a connection failure that
    \<open>requests.post\<close> raises); \<open>svc_search\<close> filters, skips and takes,
    \<open>svc_index\<close> merges each item into the document with its key and answers 200 or
    207 (Multi-Status), \<open>svc_facets\<close> counts the values of a field, most frequent
    first (\<open>facet\<close>, \<open>value_counts\<close>), for the facetable fields of the request
    (\<open>facet_field\<close>; an unknown field is answered 400).  Each client function,
    \<open>get_classification_stats\<close> included, returns the new index with its result;
    \<open>get_classification_stats\<close> sends the request body of the source
    (\<open>STATS_FACETS\<close>) and builds its dictionaries with \<open>facet_dict\<close>.
  \<^item> \<open>Orchestrator\<close>: \<open>run_classification\<close>.  Its locals are the record
    \<open>run_state\<close>; \<open>build_update\<close> and \<open>process_doc\<close> are the loop body,
    \<open>flush\<close>, \<open>maybe_flush\<close> and \<open>final_flush\<close> the batch writes,
    \<open>page_loop\<close> the \<open>while skip < total_count\<close> loop.  Every exception is a value
    \<open>Inl (e, index)\<close>: the run stops and the writes already made stay.  The loop is a
    \<open>function\<close> whose termination measure is \<open>total_count - skip\<close>: a non-empty page
    needs a positive \<open>top\<close>, so \<open>skip\<close> grows; an empty page or a non-positive batch
    size ends the loop at once.  \<open>page_loop_rule\<close> is its proof rule (invariant and
    exit property, by induction on the measure).
  \<^item> \<open>Runs\<close>: the properties of runs and of single updates, proved from the loop
    rule, the statistics invariant \<open>stats_ok\<close> and the relation \<open>searched_only\<close>
    (an index changed by searches only).  \<open>page_loop_requests\<close> bounds the loop by
    its measure: at most \<open>\<lceil>(total_count - skip) / batch_size\<rceil>\<close> pages.

  \<^item> \<open>Stats\<close>: \<open>show_stats\<close> as the list of lines it prints (with the exception
    that ends it, if any, the lines printed before it kept), and the entry point
    \<open>cli_main\<close>, which dispatches on the parsed arguments \<open>cli_args\<close> to
    \<open>show_stats\<close> or \<open>run_classification\<close>.
  \<^item> \<open>Answers\<close>: the pure helpers of \<open>optimized_extraction.py\<close> with their
    tables verbatim.  \<open>py_contains\<close> is \<open>in\<close> on strings, \<open>py_split\<close> is
    \<open>str.split()\<close> (a \<open>function\<close> terminating by the measure \<open>length\<close>),
    \<open>jval\<close> a field read with \<open>dict.get\<close> (absent, \<open>null\<close>, a string);
    \<open>doc_type_info\<close> is the value of the field read with \<open>.get('label', ...)\<close>
    (absent, a dictionary, anything else, on which \<open>.get\<close> raises).
    \<open>category_spec\<close> is the abstract specification of \<open>detect_query_category\<close>.
  \<^item> \<open>Sync\<close>: the composition of the rule engine, the orchestrator and the index.
    \<open>class_of\<close> is the classification the rule engine gives a document; an update is
    abstracted to its key and category (\<open>ukey\<close>), a document to its key and computed
    category (\<open>dkey\<close>), and \<open>cat_after\<close> is the category a document has after a
    sequence of merges (the last update with its key wins).  The loop invariant
    \<open>sync_inv\<close> relates a state of \<open>page_loop\<close> to the documents \<open>D\<close> the run
    started from: the index still holds \<open>D\<close> (ids, names, paths), its categories are
    those written by the flushed updates, the flushed and pending updates are those of
    the documents before \<open>skip\<close>, in order, and the category table counts them.  It
    is proved through \<open>page_loop_rule\<close>, preserved by each page (\<open>sync_inv_page\<close>)
    and each flush (\<open>sync_inv_flush\<close>).
  \<^item> \<open>Pagination\<close>: the default mode of \<open>run_classification\<close> (unclassified
    documents only, live).  \<open>page_loop_total\<close>: with named documents and a service
    that answers, the loop returns in any mode.  The invariant \<open>skip_inv\<close> follows the
    document at position \<open>batch_size\<close>: the index keeps its ids, that document is
    untouched, no pending update carries its key, and after the first page the documents
    before it are classified, so it heads the filtered result set while \<open>skip\<close> is
    already past it (\<open>skip_inv_step\<close>, \<open>skip_inv_page_loop\<close>).
  \<^item> \<open>AnswerExtraction\<close>: \<open>extract_answer_with_claude_v2\<close> and
    \<open>synthesize_multiple_documents\<close> of \<open>optimized_extraction.py\<close>.  The HTTP call and
    \<open>json.loads\<close> are parameters (\<open>api\<close>, the reply to a request; \<open>loads\<close>, the JSON
    value a text denotes), the API key an argument.  The prompt templates are verbatim
    (\<open>EXTRACTION_PROMPT_V2\<close>, \<open>SYNTHESIS_PROMPT\<close>) and \<open>fmt_text\<close> is \<open>str.format\<close>
    on named fields; \<open>fmt_scan\<close> recognises the templates it accepts, checked line by
    line.  \<open>json_match\<close> runs \<open>re.search(r'\{[\s\S]*\}', _).group()\<close> on the
    \<open>PyRegex\<close> engine (extended with \<open>\S\<close> and the whole-match search
    \<open>re_search_match\<close>); \<open>brace_span\<close> is what it promises.  The parsed dictionary is
    completed by \<open>fill_answer\<close>, \<open>fix_confidence\<close> and \<open>complete_result\<close>, the
    source's three blocks; \<open>conf_field\<close> reads a parsed value the way the string
    methods of \<open>calculate_confidence_score\<close> do.

  \<^bold>\<open>Properties.\<close>  Rule engine: first match wins, the default class, the
  refinement of the flat specification, the access level as a function of the
  category (C1--C4).  Extractors: normalised and idempotent community names, totality,
  the exact error condition of \<open>extract_owner_account\<close> (C5--C8).  Index client:
  batch accounting and the 207 partial-failure miscount (C9, C10).  Orchestrator:
  owner-account gating and community preservation of one update (C11, C12), the
  statistics invariant and the live-run accounting \<open>updated + failed = processed\<close>
  (C13, C14), dry-run non-mutation (C15), the \<open>ValueError\<close> on a search error
  (C16), completeness of a run over the whole index (C17).  Answer helpers: the
  refinement of the category specification (C18), the range and the error cases of
  the confidence score (C19, C20), the error cases of the document context (C21).
  Orchestrator again: the loop sends at most two requests per page over a bounded
  number of pages (C22).  Statistics: the empty dictionary and the exception of a
  failed facet query (C23), \<open>--stats\<close> only reads (C24).  Composition: a live run
  over the whole index leaves each document with the category the rule engine
  computes for it and counts them in its table (C25), and the facet statistics
  queried afterwards, with the request body of the source (the facets
  \<open>document_category,count:50\<close> and \<open>access_level,count:10\<close>), agree with that
  table (C26).  Language-model extraction: the JSON search in the reply is the
  first-brace to last-brace span (C27), the exact error cases of
  \<open>extract_answer_with_claude_v2\<close> (C28) and of \<open>synthesize_multiple_documents\<close>
  (C30), and the fields, answer, confidence and category of every returned
  dictionary (C29).  Pagination: in the default mode a run over more unclassified
  documents than one batch completes with the document at position \<open>batch_size\<close>
  never written (C31).  Computations behind the findings are kept as lemmas:
  \<open>run_classification_unclassified_skips\<close>, \<open>detect_query_category_substring\<close>,
  \<open>document_points_ccr_spelling\<close>.

  \<^bold>\<open>Findings.\<close>  In the default mode the pages skip documents that are still
  unclassified (C31, and \<open>run_classification_unclassified_skips\<close> on five
  documents); an HTTP error on a
  search raises \<open>ValueError\<close> instead of ending the pagination (C16); a partially
  failed batch is counted as wholly failed (C10); a null name among the first ten
  documents raises \<open>TypeError\<close> in the sample print; a connection failure is never
  caught (C23); category keywords match inside words
  (\<open>detect_query_category_substring\<close>); the relevance factor misses \<open>CC&Rs\<close>
  (\<open>document_points_ccr_spelling\<close>); a \<open>null\<close> answer makes the confidence score
  raise (C20); a \<open>null\<close> document content, or a \<open>doc_type_info\<close> that is not a
  dictionary, makes \<open>extract_answer_with_claude_v2\<close> raise although its other
  failures give \<open>None\<close> (C28), and a \<open>null\<close> content does the same to
  \<open>synthesize_multiple_documents\<close> (C30); an answer without \<open>found\<close> is returned
  as \<open>not_found\<close> (C29).

  \<^bold>\<open>Not modelled.\<close>  The progress and result printing of \<open>run_classification\<close>
  (except the sample line, which can raise; \<open>show_stats\<close> is modelled by its lines),
  the HTTP transport itself (its responses are inputs of the model: the fault
  schedule), the argument parsing (its result is an input), the clock (a parameter of
  the run), the HTTP requests of the language-model calls and \<open>json.loads\<close> (library
  calls whose results are parameters of \<open>AnswerExtraction\<close>), logging,
  Unicode text beyond ASCII (\<open>str.lower\<close> and \<open>\s\<close>, \<open>\d\<close> are modelled on
  ASCII), \<open>re\<close> features the sources do not use.  The exploration scripts under
  \<open>src/scripts/explore_*.py\<close> only send queries to a remote service and print the
  answers; \<open>src/scripts/run_300_tests.py\<close> is a load-test harness of HTTP calls.
\<close>

end
